theory Spec2Isabelle
  imports Main "HOL-Library.AList"
begin

section \<open>ladder.py: the abstract ladder league logic\<close>

text \<open>
  Every datetime the program handles is timezone-aware and normalised to UTC
  (\<^verbatim>\<open>astimezone(tz=ZoneInfo("UTC"))\<close>, \<^verbatim>\<open>fromtimestamp(_, tz=ZoneInfo("UTC"))\<close>,
  \<^verbatim>\<open>now(tz=ZoneInfo("UTC"))\<close>). Comparing and subtracting aware datetimes compares and
  subtracts the instants, so a datetime is modelled as its instant: the number of
  microseconds since 1970-01-01T00:00:00Z (Python's resolution).
\<close>

type_synonym datetime = int

definition INITIAL_POINTS :: int where
  "INITIAL_POINTS = 10"

text \<open>
  \<^verbatim>\<open>class LadderPeriod(IntEnum): WEEKLY = 7\<close>. An IntEnum member is an int and the
  dataclass below does not validate its fields, so the period is an int and
  \<^verbatim>\<open>c.period == LadderPeriod.WEEKLY\<close> compares it with 7.
\<close>

definition WEEKLY :: int where
  "WEEKLY = 7"

record LadderConfig =
  start_date :: datetime
  end_date :: datetime
  period :: int
  games_per_period :: int

text \<open>
  \<^verbatim>\<open>LadderResult\<close> is an abstract interface of seven accessor methods; a result is
  modelled by what its accessors return.
\<close>

record LadderResult =
  player_name :: string
  opponent_name :: string
  player_won :: bool
  player_vp :: int
  opponent_vp :: int
  was_draw :: bool
  match_date :: datetime

record LadderPlayer =
  name :: string
  games_played :: int
  games_won :: int
  games_drawn :: int
  opponents_played :: "string list"
  total_vp :: int
  ladder_points :: int
  match_periods :: "int \<rightharpoonup> int"

text \<open>\<^verbatim>\<open>LadderPlayer.__init__(self, name, initial_points)\<close>\<close>

definition LadderPlayer_init :: "string \<Rightarrow> int \<Rightarrow> LadderPlayer" where
  "LadderPlayer_init n initial_points =
     \<lparr>name = n, games_played = 0, games_won = 0, games_drawn = 0, opponents_played = [],
      total_vp = 0, ladder_points = initial_points, match_periods = Map.empty\<rparr>"

text \<open>The exceptions the modelled code can raise, each with its message.\<close>

datatype error = RuntimeError string | AttributeError string | KeyError string
  | OverflowError string

text \<open>
  \<^verbatim>\<open>timedelta.days\<close>: a timedelta is normalised so that its seconds and microseconds are
  not negative; its days are the floor of the difference in days.
\<close>

definition timedelta_days :: "int \<Rightarrow> int" where
  "timedelta_days td = td div 86400000000"

text \<open>
  \<^verbatim>\<open>period_of_date(d, c)\<close>. Python's \<^verbatim>\<open>%\<close> on ints is the floored remainder, as is
  \<open>mod\<close> on \<open>int\<close>. In the other branch the message of the RuntimeError is an f-string
  that reads \<^verbatim>\<open>LadderConfig.period\<close>, an attribute of the class: a dataclass field
  without a default is no class attribute, so formatting the message raises
  AttributeError before the RuntimeError exists. Either way the call raises and
  returns nothing.
\<close>

definition period_of_date :: "datetime \<Rightarrow> LadderConfig \<Rightarrow> error + int" where
  "period_of_date d c =
     (let result_diff = d - start_date c in
      if period c = WEEKLY then Inr (timedelta_days result_diff mod 7)
      else Inl (AttributeError ''type object LadderConfig has no attribute period''))"

text \<open>
  \<^verbatim>\<open>compute_standings\<close> keeps the players in \<^verbatim>\<open>player_map: dict[str, LadderPlayer]\<close>
  and hands two of its objects to the updater, which mutates them in place. The two
  arguments are the same object when a result names one player on both sides, so the
  model keeps the objects in the dict (an association list in insertion order, as a
  Python dict is) and passes the updater the dict and the two keys: \<open>deref\<close> reads the
  object behind a key and \<open>mutate\<close> changes it in place.
\<close>

type_synonym player_map = "(string \<times> LadderPlayer) list"

definition deref :: "player_map \<Rightarrow> string \<Rightarrow> LadderPlayer" where
  "deref h k = the (map_of h k)"

definition mutate :: "string \<Rightarrow> (LadderPlayer \<Rightarrow> LadderPlayer) \<Rightarrow> player_map \<Rightarrow> player_map" where
  "mutate k f h = AList.map_entry k f h"

text \<open>
  \<^verbatim>\<open>math.ceil(gap / 2)\<close>. The quotient of two ints is a float: the exact quotient
  rounded to the nearest double (53 significant bits, a tie to the even one), and an
  OverflowError when that is \<open>2 ^ 1024\<close> or more. Below \<open>2 ^ 53\<close> the half of an int is a
  double, so the quotient is exact there. \<open>float_half n\<close> is the double nearest to
  \<open>n / 2\<close> for an \<open>n\<close> of more than 53 bits; it is a whole number, and
  \<^verbatim>\<open>math.ceil\<close> of a float is exact.
\<close>

fun bit_length :: "nat \<Rightarrow> nat" where
  "bit_length n = (if n = 0 then 0 else Suc (bit_length (n div 2)))"

declare bit_length.simps [simp del]

definition float_half :: "nat \<Rightarrow> error + nat" where
  "float_half n =
     (let s = bit_length n - 53;
          q = n div 2 ^ s;
          r = n mod 2 ^ s;
          q' = (if 2 * r > 2 ^ s \<or> (2 * r = 2 ^ s \<and> odd q) then q + 1 else q);
          v = q' * 2 ^ (s - 1)
      in if v \<ge> 2 ^ 1024
         then Inl (OverflowError ''integer division result too large for a float'')
         else Inr v)"

definition ceil_half :: "int \<Rightarrow> error + int" where
  "ceil_half gap =
     (if \<bar>gap\<bar> < 2 ^ 53 then Inr (- ((- gap) div 2))
      else case float_half (nat \<bar>gap\<bar>) of
             Inl e \<Rightarrow> Inl e
           | Inr v \<Rightarrow> Inr (if gap < 0 then - int v else int v))"

text \<open>
  \<^verbatim>\<open>result_period in p.match_periods and p.match_periods[result_period] > 0\<close>
\<close>

definition played_in :: "LadderPlayer \<Rightarrow> int \<Rightarrow> bool" where
  "played_in p result_period =
     (case match_periods p result_period of None \<Rightarrow> False | Some n \<Rightarrow> n > 0)"

text \<open>
  \<^verbatim>\<open>update_players_basic(a, b, result, config)\<close>, statement by statement. \<open>a\<close> and \<open>b\<close> are
  the keys of the two objects in \<open>h\<close>. The outcome branch yields the two pending
  deltas \<^verbatim>\<open>a_addtl_lp\<close> and \<^verbatim>\<open>b_addtl_lp\<close>, or the OverflowError of the quotient. The
  two closing increments \<^verbatim>\<open>match_periods[result_period] += 1\<close> read the entry first and
  raise KeyError without it. An exception leaves the function at once; the model
  returns it in place of the store.
\<close>

definition update_players_basic ::
  "player_map \<Rightarrow> string \<Rightarrow> string \<Rightarrow> LadderResult \<Rightarrow> LadderConfig \<Rightarrow> error + player_map" where
  "update_players_basic h0 a b result config =
     (case period_of_date (match_date result) config of
        Inl e \<Rightarrow> Inl e
      | Inr result_period \<Rightarrow>
         (let a_played = played_in (deref h0 a) result_period;
              b_played = played_in (deref h0 b) result_period;
              h1 = mutate a (\<lambda>p. p\<lparr>games_played := games_played p + 1\<rparr>) h0;
              h2 = mutate b (\<lambda>p. p\<lparr>games_played := games_played p + 1\<rparr>) h1;
              h3 = mutate a (\<lambda>p. p\<lparr>total_vp := total_vp p + player_vp result\<rparr>) h2;
              h4 = mutate b (\<lambda>p. p\<lparr>total_vp := total_vp p + opponent_vp result\<rparr>) h3
          in case
               (if player_won result then
                  (let g = mutate a (\<lambda>p. p\<lparr>games_won := games_won p + 1\<rparr>) h4
                   in case (if ladder_points (deref g b) > ladder_points (deref g a)
                            then ceil_half (ladder_points (deref g b) - ladder_points (deref g a))
                            else Inr 0) of
                        Inl e \<Rightarrow> Inl e
                      | Inr bonus \<Rightarrow> Inr (g, bonus + 2, 1))
                else if was_draw result then
                  (let g = mutate a (\<lambda>p. p\<lparr>games_drawn := games_drawn p + 1\<rparr>) h4;
                       g' = mutate b (\<lambda>p. p\<lparr>games_drawn := games_drawn p + 1\<rparr>) g
                   in Inr (g', 1, 1))
                else
                  (let g = mutate b (\<lambda>p. p\<lparr>games_won := games_won p + 1\<rparr>) h4
                   in case (if ladder_points (deref g a) > ladder_points (deref g b)
                            then ceil_half (ladder_points (deref g a) - ladder_points (deref g b))
                            else Inr 0) of
                        Inl e \<Rightarrow> Inl e
                      | Inr bonus \<Rightarrow> Inr (g, 1, bonus + 2)))
             of
               Inl e \<Rightarrow> Inl e
             | Inr (h5, a_addtl_lp, b_addtl_lp) \<Rightarrow>
                (let h6 =
                       (if opponent_name result \<notin> set (opponents_played (deref h5 a)) then
                          (let g = mutate a (\<lambda>p. p\<lparr>opponents_played := opponents_played p @ [opponent_name result]\<rparr>) h5;
                               g = mutate b (\<lambda>p. p\<lparr>opponents_played := opponents_played p @ [player_name result]\<rparr>) g;
                               g = mutate a (\<lambda>p. p\<lparr>ladder_points := ladder_points p + 1\<rparr>) g
                           in mutate b (\<lambda>p. p\<lparr>ladder_points := ladder_points p + 1\<rparr>) g)
                        else h5);
                     h7 =
                       (if \<not> a_played then
                          (let g = mutate a (\<lambda>p. p\<lparr>ladder_points := ladder_points p + a_addtl_lp\<rparr>) h6
                           in mutate a (\<lambda>p. p\<lparr>match_periods := (match_periods p)(result_period \<mapsto> 0)\<rparr>) g)
                        else h6);
                     h8 =
                       (if \<not> b_played then
                          (let g = mutate b (\<lambda>p. p\<lparr>ladder_points := ladder_points p + b_addtl_lp\<rparr>) h7
                           in mutate b (\<lambda>p. p\<lparr>match_periods := (match_periods p)(result_period \<mapsto> 0)\<rparr>) g)
                        else h7)
                 in case match_periods (deref h8 a) result_period of
                      None \<Rightarrow> Inl (KeyError ''result_period'')
                    | Some na \<Rightarrow>
                       (let h9 = mutate a (\<lambda>p. p\<lparr>match_periods := (match_periods p)(result_period \<mapsto> na + 1)\<rparr>) h8
                        in case match_periods (deref h9 b) result_period of
                             None \<Rightarrow> Inl (KeyError ''result_period'')
                           | Some nb \<Rightarrow>
                              Inr (mutate b (\<lambda>p. p\<lparr>match_periods := (match_periods p)(result_period \<mapsto> nb + 1)\<rparr>) h9)))))"

text \<open>
  \<^verbatim>\<open>compute_standings(results, config, updater)\<close>: the loop over the results, then
  \<^verbatim>\<open>list(player_map.values())\<close>. An exception of the updater ends the computation.
\<close>

type_synonym updater =
  "player_map \<Rightarrow> string \<Rightarrow> string \<Rightarrow> LadderResult \<Rightarrow> LadderConfig \<Rightarrow> error + player_map"

definition ensure_player :: "string \<Rightarrow> player_map \<Rightarrow> player_map" where
  "ensure_player n player_map =
     (if n \<notin> set (map fst player_map)
      then AList.update n (LadderPlayer_init n INITIAL_POINTS) player_map
      else player_map)"

fun standings_loop ::
  "updater \<Rightarrow> LadderConfig \<Rightarrow> player_map \<Rightarrow> LadderResult list \<Rightarrow> error + player_map" where
  "standings_loop upd config player_map [] = Inr player_map"
| "standings_loop upd config player_map (result # results) =
     (let pm1 = ensure_player (player_name result) player_map;
          pm2 = ensure_player (opponent_name result) pm1
      in case upd pm2 (player_name result) (opponent_name result) result config of
           Inl e \<Rightarrow> Inl e
         | Inr pm3 \<Rightarrow> standings_loop upd config pm3 results)"

definition compute_standings ::
  "LadderResult list \<Rightarrow> LadderConfig \<Rightarrow> updater \<Rightarrow> error + LadderPlayer list" where
  "compute_standings results config upd =
     (case standings_loop upd config [] results of
        Inl e \<Rightarrow> Inl e
      | Inr player_map \<Rightarrow> Inr (map snd player_map))"

section \<open>manager.py: results on disk and the weekly standings post\<close>

subsection \<open>The clock readings of a UTC datetime\<close>

text \<open>
  \<^verbatim>\<open>now.hour\<close>, \<^verbatim>\<open>now.date().isoweekday()\<close> and \<^verbatim>\<open>now.isocalendar()\<close> of an aware UTC
  datetime, computed from its instant. 1970-01-01 was a Thursday (ISO weekday 4). The
  ISO week of a day is numbered within the ISO year, the calendar year of the Thursday
  of its Monday-to-Sunday week; \<open>year_of_days\<close> and \<open>days_of_jan1\<close> are the proleptic
  Gregorian calendar on day numbers counted from 1970-01-01.
\<close>

definition hour :: "datetime \<Rightarrow> int" where
  "hour d = (d div 3600000000) mod 24"

definition isoweekday :: "datetime \<Rightarrow> int" where
  "isoweekday d = (d div 86400000000 + 3) mod 7 + 1"

definition year_of_days :: "int \<Rightarrow> int" where
  "year_of_days days =
     (let z = days + 719468;
          era = z div 146097;
          doe = z - era * 146097;
          yoe = (doe - doe div 1460 + doe div 36524 - doe div 146096) div 365;
          doy = doe - (365 * yoe + yoe div 4 - yoe div 100);
          mp = (5 * doy + 2) div 153
      in yoe + era * 400 + (if mp < 10 then 0 else 1))"

definition days_of_jan1 :: "int \<Rightarrow> int" where
  "days_of_jan1 y =
     (let y1 = y - 1;
          era = y1 div 400;
          yoe = y1 - era * 400;
          doe = yoe * 365 + yoe div 4 - yoe div 100 + 306
      in era * 146097 + doe - 719468)"

definition iso_thursday :: "datetime \<Rightarrow> int" where
  "iso_thursday d = (let days = d div 86400000000 in days - (days + 3) mod 7 + 3)"

text \<open>\<^verbatim>\<open>now.isocalendar()\<close>: the ISO year, the ISO week number and the ISO weekday.\<close>

definition isocalendar :: "datetime \<Rightarrow> int \<times> int \<times> int" where
  "isocalendar d =
     (let y = year_of_days (iso_thursday d)
      in (y, (iso_thursday d - days_of_jan1 y) div 7 + 1, isoweekday d))"

definition isoweek :: "datetime \<Rightarrow> int" where
  "isoweek d = fst (snd (isocalendar d))"

subsection \<open>DiscordLadderResult and its CSV record\<close>

record DiscordLadderResult =
  player :: string
  opponent :: string
  time :: int
  player_victory :: bool
  draw :: bool
  vp_player :: int
  vp_opponent :: int
  league_name :: string

text \<open>
  \<^verbatim>\<open>datetime.fromtimestamp(self.time, tz=ZoneInfo("UTC"))\<close>: the instant of a count of
  seconds (for the years a datetime can hold).
\<close>

definition fromtimestamp :: "int \<Rightarrow> datetime" where
  "fromtimestamp t = t * 1000000"

text \<open>The seven accessor methods by which a DiscordLadderResult is a LadderResult.\<close>

definition as_LadderResult :: "DiscordLadderResult \<Rightarrow> LadderResult" where
  "as_LadderResult d =
     \<lparr>player_name = player d, opponent_name = opponent d, player_won = player_victory d,
      player_vp = vp_player d, opponent_vp = vp_opponent d, was_draw = draw d,
      match_date = fromtimestamp (time d)\<rparr>"

text \<open>
  \<^verbatim>\<open>DiscordLadderResult.model_fields\<close>: the field names in declaration order, which
  \<^verbatim>\<open>csv.DictWriter\<close> takes as its column names; and each field's validation alias.
\<close>

definition model_fields :: "string list" where
  "model_fields = [''player'', ''opponent'', ''time'', ''player_victory'', ''draw'',
                   ''vp_player'', ''vp_opponent'', ''league_name'']"

datatype pyval = PStr string | PInt int | PBool bool

text \<open>\<^verbatim>\<open>result.model_dump()\<close>: the dict of the fields by name.\<close>

definition model_dump :: "DiscordLadderResult \<Rightarrow> (string \<times> pyval) list" where
  "model_dump d =
     [(''player'', PStr (player d)), (''opponent'', PStr (opponent d)), (''time'', PInt (time d)),
      (''player_victory'', PBool (player_victory d)), (''draw'', PBool (draw d)),
      (''vp_player'', PInt (vp_player d)), (''vp_opponent'', PInt (vp_opponent d)),
      (''league_name'', PStr (league_name d))]"

text \<open>\<^verbatim>\<open>str\<close> of an int: the decimal digits, with a minus sign when negative.\<close>

definition digit_char :: "nat \<Rightarrow> char" where
  "digit_char d = ''0123456789'' ! d"

fun str_nat :: "nat \<Rightarrow> string" where
  "str_nat n = (if n < 10 then [digit_char n] else str_nat (n div 10) @ [digit_char (n mod 10)])"

declare str_nat.simps [simp del]

definition str_int :: "int \<Rightarrow> string" where
  "str_int i = (if i < 0 then CHR ''-'' # str_nat (nat (- i)) else str_nat (nat i))"

text \<open>The csv writer writes a str as it is and any other value as its \<^verbatim>\<open>str\<close>.\<close>

fun str_pyval :: "pyval \<Rightarrow> string" where
  "str_pyval (PStr s) = s"
| "str_pyval (PInt i) = str_int i"
| "str_pyval (PBool b) = (if b then ''True'' else ''False'')"

text \<open>
  A CSV file is modelled by its rows of cells: the quoting and escaping by which the
  csv module writes a cell and reads the same cell back are below the model.
  \<^verbatim>\<open>DictWriter.writerow\<close> writes the dict's values in the order of the column names,
  the empty string for a column the dict lacks.
\<close>

type_synonym csv_row = "string list"

type_synonym csv_file = "csv_row list"

definition writerow :: "string list \<Rightarrow> (string \<times> pyval) list \<Rightarrow> csv_row" where
  "writerow fieldnames d =
     map (\<lambda>f. case map_of d f of None \<Rightarrow> [] | Some v \<Rightarrow> str_pyval v) fieldnames"

text \<open>
  \<^verbatim>\<open>csv.DictReader\<close>: the first row gives the column names, an empty row is skipped, and
  every other row is a dict from the column names to its cells (a later column of the
  same name wins; cells beyond the columns go under a key no field reads).
\<close>

definition dict_reader :: "csv_file \<Rightarrow> (string \<times> string) list list" where
  "dict_reader f =
     (case f of [] \<Rightarrow> []
      | fieldnames # rows \<Rightarrow> map (\<lambda>row. rev (zip fieldnames row)) (filter (\<lambda>row. row \<noteq> []) rows))"

text \<open>
  \<^verbatim>\<open>DiscordLadderResult.model_validate(row)\<close>. With \<^verbatim>\<open>populate_by_name=True\<close> a field
  is read from its validation alias or else from its own name. A cell is a str: a str
  field takes it as it is, an int field parses a decimal integer, a bool field accepts
  the words below in any letter case. A missing field or a cell that does not parse is
  a ValidationError. (Of the strings the int parser accepts, the model reads an
  optional sign and digits: blanks around the digits and underscores between them are
  read by the library too, and no row written by \<open>store_result\<close> has them.)
\<close>

datatype io_error = ValidationError string | InvalidChannel string | FileNotFound string
  | LadderError error

definition digit_val :: "char \<Rightarrow> nat option" where
  "digit_val c = map_of (zip ''0123456789'' [0, 1, 2, 3, 4, 5, 6, 7, 8, 9]) c"

fun parse_digits :: "nat \<Rightarrow> string \<Rightarrow> nat option" where
  "parse_digits acc [] = Some acc"
| "parse_digits acc (c # cs) =
     (case digit_val c of None \<Rightarrow> None | Some d \<Rightarrow> parse_digits (acc * 10 + d) cs)"

definition parse_int :: "string \<Rightarrow> int option" where
  "parse_int s =
     (case s of
        [] \<Rightarrow> None
      | c # cs \<Rightarrow>
          if c = CHR ''-'' then (if cs = [] then None else map_option (\<lambda>n. - int n) (parse_digits 0 cs))
          else if c = CHR ''+'' then (if cs = [] then None else map_option int (parse_digits 0 cs))
          else map_option int (parse_digits 0 s))"

definition to_lower :: "char \<Rightarrow> char" where
  "to_lower c =
     (case map_of (zip ''ABCDEFGHIJKLMNOPQRSTUVWXYZ'' ''abcdefghijklmnopqrstuvwxyz'') c of
        None \<Rightarrow> c | Some l \<Rightarrow> l)"

definition parse_bool :: "string \<Rightarrow> bool option" where
  "parse_bool s =
     (let l = map to_lower s in
      if l \<in> set [''1'', ''on'', ''t'', ''true'', ''y'', ''yes''] then Some True
      else if l \<in> set [''0'', ''off'', ''f'', ''false'', ''n'', ''no''] then Some False
      else None)"

definition field_of :: "(string \<times> string) list \<Rightarrow> string \<Rightarrow> string \<Rightarrow> string option" where
  "field_of row alias field_name =
     (case map_of row alias of Some v \<Rightarrow> Some v | None \<Rightarrow> map_of row field_name)"

definition model_validate :: "(string \<times> string) list \<Rightarrow> io_error + DiscordLadderResult" where
  "model_validate row =
     (case
        Option.bind (field_of row ''player_name'' ''player'') (\<lambda>p.
        Option.bind (field_of row ''opponent_name'' ''opponent'') (\<lambda>opp.
        Option.bind (Option.bind (field_of row ''timestamp'' ''time'') parse_int) (\<lambda>t.
        Option.bind (Option.bind (field_of row ''player_won'' ''player_victory'') parse_bool) (\<lambda>pv.
        Option.bind (Option.bind (field_of row ''was_draw'' ''draw'') parse_bool) (\<lambda>dr.
        Option.bind (Option.bind (field_of row ''player_vp'' ''vp_player'') parse_int) (\<lambda>vpp.
        Option.bind (Option.bind (field_of row ''opponent_vp'' ''vp_opponent'') parse_int) (\<lambda>vpo.
        Option.bind (field_of row ''league_name'' ''league_name'') (\<lambda>ln.
          Some \<lparr>player = p, opponent = opp, time = t, player_victory = pv, draw = dr,
                vp_player = vpp, vp_opponent = vpo, league_name = ln\<rparr>))))))))
      of
        None \<Rightarrow> Inl (ValidationError ''DiscordLadderResult'')
      | Some result \<Rightarrow> Inr result)"

fun validate_rows :: "(string \<times> string) list list \<Rightarrow> io_error + DiscordLadderResult list" where
  "validate_rows [] = Inr []"
| "validate_rows (row # rows) =
     (case model_validate row of
        Inl e \<Rightarrow> Inl e
      | Inr result \<Rightarrow>
          (case validate_rows rows of Inl e \<Rightarrow> Inl e | Inr results \<Rightarrow> Inr (result # results)))"

subsection \<open>The Discord client and the state on disk\<close>

text \<open>
  What \<^verbatim>\<open>client.get_channel(id)\<close> finds: nothing, or a channel of some kind, of which
  a text channel and a thread can be sent to. \<open>can_open\<close> says of a path whether
  \<^verbatim>\<open>discord.File(path)\<close> can open it. A message that was sent is recorded in the
  outbox with its channel id; the standings message is kept as the league name and
  the lines \<^verbatim>\<open>- name (points)\<close> it renders, in order. Sending is taken to succeed.
\<close>

datatype channel = TextChannel | Thread | OtherChannel

record Client =
  get_channel :: "int \<Rightarrow> channel option"
  can_open :: "string \<Rightarrow> bool"

datatype payload = JobMessage string "string list" | StandingsMessage string "(string \<times> int) list"

record MessageJob =
  job_id :: string
  timestamp :: datetime
  channel_id :: int
  content :: string
  files :: "string list"

record LadderManager =
  mgr_config :: LadderConfig
  mgr_channel_id :: int
  mgr_league_name :: string
  posting_day :: int

text \<open>
  The files and the in-memory job map the bot works on. A league's result log and its
  posted-week record are the files \<^verbatim>\<open><sanitized_name>-results.csv\<close> and
  \<^verbatim>\<open><sanitized_name>-message-record.json\<close>, looked up by the sanitized name; a file
  that does not exist is \<open>None\<close>. The job directories hold the files \<^verbatim>\<open><stem>.json\<close>,
  each with the job it describes.
\<close>

record world =
  results_files :: "string \<Rightarrow> csv_file option"
  message_records :: "string \<Rightarrow> int list option"
  job_dir :: "(string \<times> MessageJob) list"
  finished_dir :: "(string \<times> MessageJob) list"
  jobs :: "(string \<times> MessageJob) list"
  outbox :: "(int \<times> payload) list"

text \<open>\<^verbatim>\<open>league_name.lower().replace(" ", "-")\<close>, on ASCII names.\<close>

definition sanitized_name :: "string \<Rightarrow> string" where
  "sanitized_name n = map (\<lambda>c. if c = CHR '' '' then CHR ''-'' else c) (map to_lower n)"

text \<open>
  \<^verbatim>\<open>LadderManager._read_results\<close>: creates the file with its header row when it does
  not exist, then reads and validates every row.
\<close>

definition read_results ::
  "LadderManager \<Rightarrow> world \<Rightarrow> (io_error + DiscordLadderResult list) \<times> world" where
  "read_results m w =
     (let key = sanitized_name (mgr_league_name m);
          w1 = (case results_files w key of
                  None \<Rightarrow> w\<lparr>results_files := (results_files w)(key := Some [model_fields])\<rparr>
                | Some f \<Rightarrow> w)
      in (case results_files w1 key of
            None \<Rightarrow> (Inr [], w1)
          | Some f \<Rightarrow> (validate_rows (dict_reader f), w1)))"

text \<open>\<^verbatim>\<open>LadderManager._compute_standings\<close>\<close>

definition manager_compute_standings ::
  "LadderManager \<Rightarrow> world \<Rightarrow> (io_error + LadderPlayer list) \<times> world" where
  "manager_compute_standings m w =
     (case read_results m w of
        (Inl e, w1) \<Rightarrow> (Inl e, w1)
      | (Inr results, w1) \<Rightarrow>
          (case compute_standings (map as_LadderResult results) (mgr_config m) update_players_basic of
             Inl e \<Rightarrow> (Inl (LadderError e), w1)
           | Inr standings \<Rightarrow> (Inr standings, w1)))"

text \<open>
  \<^verbatim>\<open>LadderManager.store_result\<close>: mode \<^verbatim>\<open>"w"\<close> with the header row when the file does not
  exist, mode \<^verbatim>\<open>"a"\<close> otherwise; then the row of the result.
\<close>

definition store_result :: "LadderManager \<Rightarrow> DiscordLadderResult \<Rightarrow> world \<Rightarrow> world" where
  "store_result m result w =
     (let key = sanitized_name (mgr_league_name m);
          row = writerow model_fields (model_dump result)
      in case results_files w key of
           None \<Rightarrow> w\<lparr>results_files := (results_files w)(key := Some [model_fields, row])\<rparr>
         | Some f \<Rightarrow> w\<lparr>results_files := (results_files w)(key := Some (f @ [row]))\<rparr>)"

text \<open>
  \<^verbatim>\<open>LadderManager._post_standings\<close>: nothing is sent for empty standings; the sort is
  Python's stable sort by ladder points, descending; a channel that is not a text
  channel or a thread (also none at all) raises.
\<close>

definition private_post_standings :: "Client \<Rightarrow> LadderManager \<Rightarrow> world \<Rightarrow> io_error option \<times> world" where
  "private_post_standings client m w =
     (case manager_compute_standings m w of
        (Inl e, w1) \<Rightarrow> (Some e, w1)
      | (Inr standings, w1) \<Rightarrow>
          if length standings = 0 then (None, w1)
          else
            (let sorted_standings = sort_key (\<lambda>p. - ladder_points p) standings;
                 message = StandingsMessage (mgr_league_name m)
                             (map (\<lambda>p. (name p, ladder_points p)) sorted_standings);
                 channel = get_channel client (mgr_channel_id m)
             in if \<not> (channel = Some TextChannel \<or> channel = Some Thread)
                then (Some (InvalidChannel ''LadderManager requested invalid channel''), w1)
                else (None, w1\<lparr>outbox := outbox w1 @ [(mgr_channel_id m, message)]\<rparr>)))"

text \<open>
  \<^verbatim>\<open>LadderManager.post_standings\<close>, with the clock reading \<open>now\<close> as an argument. The
  record file holds the week numbers this method appended, so \<^verbatim>\<open>str(message) ==
  str(now.isocalendar()[1])\<close> compares two ints.
\<close>

definition post_standings ::
  "Client \<Rightarrow> LadderManager \<Rightarrow> datetime \<Rightarrow> world \<Rightarrow> io_error option \<times> world" where
  "post_standings client m now w =
     (let valid_date = (now \<le> end_date (mgr_config m) \<and> now \<ge> start_date (mgr_config m));
          valid_day = (isoweekday now \<ge> posting_day m);
          valid_time = (hour now \<ge> 16)
      in if \<not> (valid_day \<and> valid_time \<and> valid_date) then (None, w)
         else
           (let key = sanitized_name (mgr_league_name m);
                (message_record, need_to_post, w1) =
                  (case message_records w key of
                     None \<Rightarrow> ([], True, w\<lparr>message_records := (message_records w)(key := Some [])\<rparr>)
                   | Some weeks \<Rightarrow> (weeks, isoweek now \<notin> set weeks, w))
            in if need_to_post then
                 (case private_post_standings client m w1 of
                    (Some e, w2) \<Rightarrow> (Some e, w2)
                  | (None, w2) \<Rightarrow>
                      (None, w2\<lparr>message_records :=
                                 (message_records w2)(key := Some (message_record @ [isoweek now]))\<rparr>))
               else (None, w1)))"

section \<open>messagejob.py: scheduled messages\<close>

text \<open>
  \<^verbatim>\<open>MessageJobHandler._run_job\<close>: a channel lookup that finds nothing returns without
  sending; a channel of another kind raises; the attachments are opened before the
  message is sent.
\<close>

definition run_job :: "Client \<Rightarrow> MessageJob \<Rightarrow> world \<Rightarrow> io_error option \<times> world" where
  "run_job client job w =
     (case get_channel client (channel_id job) of
        None \<Rightarrow> (None, w)
      | Some channel \<Rightarrow>
          if \<not> (channel = TextChannel \<or> channel = Thread)
          then (Some (InvalidChannel ''Job requested invalid channel''), w)
          else if \<not> list_all (can_open client) (files job)
          then (Some (FileNotFound ''attachment''), w)
          else (None, w\<lparr>outbox := outbox w @ [(channel_id job, JobMessage (content job) (files job))]\<rparr>))"

text \<open>
  \<^verbatim>\<open>MessageJobHandler._mark_done\<close>: drops the job from the in-memory map and, when the
  file \<^verbatim>\<open><job.id>.json\<close> exists in the job directory, moves it to the finished one.
\<close>

definition mark_done :: "MessageJob \<Rightarrow> world \<Rightarrow> world" where
  "mark_done job w =
     (let w1 = w\<lparr>jobs := AList.delete (job_id job) (jobs w)\<rparr>
      in case map_of (job_dir w1) (job_id job) of
           None \<Rightarrow> w1
         | Some file \<Rightarrow>
             w1\<lparr>job_dir := AList.delete (job_id job) (job_dir w1),
                finished_dir := AList.update (job_id job) file (finished_dir w1)\<rparr>)"

text \<open>\<^verbatim>\<open>MessageJobHandler._load_jobs\<close>: the jobs of the files in the job directory, by id.\<close>

definition load_jobs :: "world \<Rightarrow> world" where
  "load_jobs w = w\<lparr>jobs := fold (\<lambda>(stem, job) js. AList.update (job_id job) job js) (job_dir w) []\<rparr>"

text \<open>
  \<^verbatim>\<open>MessageJobHandler.run_jobs\<close>: the loop over the due jobs; an exception of
  \<open>run_job\<close> leaves the loop and the method.
\<close>

fun run_due :: "Client \<Rightarrow> MessageJob list \<Rightarrow> world \<Rightarrow> io_error option \<times> world" where
  "run_due client [] w = (None, w)"
| "run_due client (job # due) w =
     (case run_job client job w of
        (Some e, w1) \<Rightarrow> (Some e, w1)
      | (None, w1) \<Rightarrow> run_due client due (mark_done job w1))"

definition run_jobs :: "Client \<Rightarrow> datetime \<Rightarrow> world \<Rightarrow> io_error option \<times> world" where
  "run_jobs client now w =
     (let due = filter (\<lambda>job. timestamp job \<le> now) (map snd (jobs w))
      in run_due client due w)"

section \<open>client.py: the worker loop and the active leagues\<close>

text \<open>
  \<^verbatim>\<open>WordBearerClient.job_runner\<close>, one tick: the due jobs, then every league's
  \<open>post_standings\<close> in the order of the league dict. An exception ends the tick.
\<close>

fun post_all :: "Client \<Rightarrow> LadderManager list \<Rightarrow> datetime \<Rightarrow> world \<Rightarrow> io_error option \<times> world" where
  "post_all client [] now w = (None, w)"
| "post_all client (league # leagues) now w =
     (case post_standings client league now w of
        (Some e, w1) \<Rightarrow> (Some e, w1)
      | (None, w1) \<Rightarrow> post_all client leagues now w1)"

definition job_runner ::
  "Client \<Rightarrow> LadderManager list \<Rightarrow> datetime \<Rightarrow> world \<Rightarrow> io_error option \<times> world" where
  "job_runner client leagues now w =
     (case run_jobs client now w of
        (Some e, w1) \<Rightarrow> (Some e, w1)
      | (None, w1) \<Rightarrow> post_all client leagues now w1)"

text \<open>\<^verbatim>\<open>MatchCommands._active_leagues\<close>, with the clock reading \<open>now\<close> as an argument.\<close>

definition active_leagues :: "LadderManager list \<Rightarrow> datetime \<Rightarrow> string list" where
  "active_leagues managers now =
     (let leagues = map mgr_league_name
            (filter (\<lambda>manager. now \<ge> start_date (mgr_config manager) \<and> now \<le> end_date (mgr_config manager))
               managers)
      in if length leagues = 0 then leagues @ [''No active leagues available''] else leagues)"

section \<open>Properties of the ladder rules\<close>

subsection \<open>Reading and mutating objects\<close>

lemma keys_mutate [simp]: "map fst (mutate k f h) = map fst h"
  unfolding mutate_def by (induction h) auto

lemma set_keys_mutate [simp]: "fst ` set (mutate k f h) = fst ` set h"
  using keys_mutate[of k f h] by (metis set_map)

lemma deref_mutate_same [simp]:
  "k \<in> fst ` set h \<Longrightarrow> deref (mutate k f h) k = f (deref h k)"
  unfolding mutate_def deref_def
  by (auto simp: map_of_map_entry map_of_eq_None_iff split: option.splits)

lemma deref_mutate_other [simp]:
  "j \<noteq> k \<Longrightarrow> deref (mutate k f h) j = deref h j"
  unfolding mutate_def deref_def
  by (auto simp: map_of_map_entry)

lemma mutate_mutate_same [simp]: "mutate k f (mutate k g h) = mutate k (\<lambda>p. f (g p)) h"
  unfolding mutate_def by (induction h) auto

lemma mutate_commute: "a \<noteq> b \<Longrightarrow> mutate a f (mutate b g h) = mutate b g (mutate a f h)"
  unfolding mutate_def by (induction h) auto

lemma mutate_mutate_sandwich:
  "a \<noteq> b \<Longrightarrow> mutate a f (mutate b g (mutate a f' h)) = mutate b g (mutate a (\<lambda>p. f (f' p)) h)"
  by (simp add: mutate_commute[of a b f g])

lemma period_weekly:
  "period c = WEEKLY \<Longrightarrow> period_of_date t c = Inr (((t - start_date c) div 86400000000) mod 7)"
  by (simp add: period_of_date_def timedelta_days_def)


lemma played_inD: "played_in P k \<Longrightarrow> \<exists>n. match_periods P k = Some n \<and> 0 < n"
  by (auto simp: played_in_def split: option.splits)

subsection \<open>The float quotient\<close>

lemma bit_length_le: "bit_length n \<le> k \<longleftrightarrow> n < 2 ^ k"
proof (induction n arbitrary: k rule: bit_length.induct)
  case (1 n)
  show ?case
  proof (cases "n = 0")
    case True
    then show ?thesis by (simp add: bit_length.simps)
  next
    case False
    show ?thesis
    proof (cases k)
      case 0
      then show ?thesis using False by (simp add: bit_length.simps)
    next
      case (Suc k')
      have "bit_length n \<le> Suc k' \<longleftrightarrow> bit_length (n div 2) \<le> k'"
        using False by (subst bit_length.simps) simp
      also have "\<dots> \<longleftrightarrow> n div 2 < 2 ^ k'" using 1[OF False] .
      also have "\<dots> \<longleftrightarrow> n < 2 ^ Suc k'" by auto
      finally show ?thesis using Suc by simp
    qed
  qed
qed

lemma bit_length_lower: "0 < bit_length n \<Longrightarrow> 2 ^ (bit_length n - 1) \<le> n"
  using bit_length_le[of n "bit_length n - 1"] by (cases "bit_length n") auto

lemma float_half_Inl:
  assumes "float_half n = Inl e"
  shows "e = OverflowError ''integer division result too large for a float'' \<and> 2 ^ 1024 \<le> n"
proof -
  define s where "s = bit_length n - 53"
  define q where "q = n div 2 ^ s"
  define r where "r = n mod 2 ^ s"
  define q' where "q' = (if 2 * r > 2 ^ s \<or> (2 * r = 2 ^ s \<and> odd q) then q + 1 else q)"
  have v: "e = OverflowError ''integer division result too large for a float'' \<and> 2 ^ 1024 \<le> q' * 2 ^ (s - 1)"
    using assms unfolding float_half_def Let_def s_def[symmetric] q_def[symmetric] r_def[symmetric]
      q'_def[symmetric]
    by (simp split: if_splits)
  have "q' * 2 ^ (s - 1) \<le> n"
  proof (cases "s = 0")
    case True
    then show ?thesis by (simp add: q'_def q_def r_def)
  next
    case False
    then have bl: "0 < bit_length n" "s \<le> bit_length n - 1" by (simp_all add: s_def)
    have "(2::nat) ^ s \<le> 2 ^ (bit_length n - 1)" using bl(2) by (simp add: power_increasing)
    then have "2 ^ s \<le> n" using bit_length_lower[OF bl(1)] by linarith
    then have "2 ^ s div 2 ^ s \<le> n div 2 ^ s" by (rule div_le_mono)
    then have q1: "1 \<le> q" unfolding q_def by simp
    have "q' \<le> q + 1" by (simp add: q'_def)
    then have "q' \<le> 2 * q" using q1 by linarith
    then have "q' * 2 ^ (s - 1) \<le> 2 * q * 2 ^ (s - 1)" by (simp add: mult_le_mono1)
    also have "\<dots> = q * 2 ^ s" using False by (cases s) simp_all
    also have "\<dots> \<le> n" unfolding q_def by simp
    finally show ?thesis .
  qed
  then show ?thesis using v by linarith
qed

lemma ceil_half_small: "\<bar>g\<bar> < 2 ^ 53 \<Longrightarrow> ceil_half g = Inr ((g + 1) div 2)"
proof -
  have "- (- g div 2) = (g + 1) div 2" by presburger
  then show "\<bar>g\<bar> < 2 ^ 53 \<Longrightarrow> ceil_half g = Inr ((g + 1) div 2)"
    unfolding ceil_half_def by simp
qed

lemma ceil_half_Inr_nonneg: "ceil_half g = Inr v \<Longrightarrow> 0 \<le> g \<Longrightarrow> 0 \<le> v"
  unfolding ceil_half_def by (auto split: if_splits sum.splits)

lemma ceil_half_Inl:
  "ceil_half g = Inl e \<Longrightarrow>
     e = OverflowError ''integer division result too large for a float'' \<and> 2 ^ 1024 \<le> \<bar>g\<bar>"
proof -
  assume c: "ceil_half g = Inl e"
  then have "float_half (nat \<bar>g\<bar>) = Inl e"
    unfolding ceil_half_def by (auto split: if_splits sum.splits)
  from float_half_Inl[OF this] have e: "e = OverflowError ''integer division result too large for a float''"
    and n: "2 ^ 1024 \<le> nat \<bar>g\<bar>" by simp_all
  have "(2::int) ^ 1024 = int (2 ^ 1024)" by simp
  also have "\<dots> \<le> int (nat \<bar>g\<bar>)" using n by (simp only: of_nat_le_iff)
  finally show ?thesis using e by simp
qed


subsection \<open>One call of the update rule\<close>

lemma upd_neq:
  assumes "period_of_date (match_date r) config = Inr k" "a \<in> fst ` set h" "b \<in> fst ` set h" "a \<noteq> b"
    and ga: "player_won r \<Longrightarrow> ladder_points (deref h b) > ladder_points (deref h a) \<Longrightarrow>
               ceil_half (ladder_points (deref h b) - ladder_points (deref h a)) = Inr ga"
    and gb: "\<not> player_won r \<Longrightarrow> \<not> was_draw r \<Longrightarrow> ladder_points (deref h a) > ladder_points (deref h b) \<Longrightarrow>
               ceil_half (ladder_points (deref h a) - ladder_points (deref h b)) = Inr gb"
  shows "\<exists>h'. update_players_basic h a b r config = Inr h' \<and> map fst h' = map fst h
     \<and> (\<forall>j. j \<noteq> a \<longrightarrow> j \<noteq> b \<longrightarrow> deref h' j = deref h j)
     \<and> name (deref h' a) = name (deref h a)
     \<and> games_played (deref h' a) = games_played (deref h a) + 1
     \<and> games_won (deref h' a) = games_won (deref h a) + (if player_won r then 1 else 0)
     \<and> games_drawn (deref h' a) = games_drawn (deref h a) + (if \<not> player_won r \<and> was_draw r then 1 else 0)
     \<and> opponents_played (deref h' a) = opponents_played (deref h a) @
           (if opponent_name r \<notin> set (opponents_played (deref h a)) then [opponent_name r] else [])
     \<and> total_vp (deref h' a) = total_vp (deref h a) + player_vp r
     \<and> ladder_points (deref h' a) = ladder_points (deref h a)
           + (if opponent_name r \<notin> set (opponents_played (deref h a)) then 1 else 0)
           + (if played_in (deref h a) k then 0
              else if player_won r then
                (if ladder_points (deref h b) > ladder_points (deref h a) then ga else 0) + 2
              else 1)
     \<and> match_periods (deref h' a) = (match_periods (deref h a))
           (k \<mapsto> (if played_in (deref h a) k then the (match_periods (deref h a) k) else 0) + 1)
     \<and> name (deref h' b) = name (deref h b)
     \<and> games_played (deref h' b) = games_played (deref h b) + 1
     \<and> games_won (deref h' b) = games_won (deref h b) + (if \<not> player_won r \<and> \<not> was_draw r then 1 else 0)
     \<and> games_drawn (deref h' b) = games_drawn (deref h b) + (if \<not> player_won r \<and> was_draw r then 1 else 0)
     \<and> opponents_played (deref h' b) = opponents_played (deref h b) @
           (if opponent_name r \<notin> set (opponents_played (deref h a)) then [player_name r] else [])
     \<and> total_vp (deref h' b) = total_vp (deref h b) + opponent_vp r
     \<and> ladder_points (deref h' b) = ladder_points (deref h b)
           + (if opponent_name r \<notin> set (opponents_played (deref h a)) then 1 else 0)
           + (if played_in (deref h b) k then 0
              else if player_won r \<or> was_draw r then 1
              else (if ladder_points (deref h a) > ladder_points (deref h b) then gb else 0) + 2)
     \<and> match_periods (deref h' b) = (match_periods (deref h b))
           (k \<mapsto> (if played_in (deref h b) k then the (match_periods (deref h b) k) else 0) + 1)"
proof -
  have A: "\<exists>na. played_in (deref h a) k \<longrightarrow> match_periods (deref h a) k = Some na"
    and B: "\<exists>nb. played_in (deref h b) k \<longrightarrow> match_periods (deref h b) k = Some nb"
    using played_inD by blast+
  then obtain na nb where
    na: "played_in (deref h a) k \<Longrightarrow> match_periods (deref h a) k = Some na" and
    nb: "played_in (deref h b) k \<Longrightarrow> match_periods (deref h b) k = Some nb"
    by blast
  consider (win_gap) "player_won r" "ladder_points (deref h b) > ladder_points (deref h a)"
    | (win) "player_won r" "\<not> ladder_points (deref h b) > ladder_points (deref h a)"
    | (draw) "\<not> player_won r" "was_draw r"
    | (loss_gap) "\<not> player_won r" "\<not> was_draw r" "ladder_points (deref h a) > ladder_points (deref h b)"
    | (loss) "\<not> player_won r" "\<not> was_draw r" "\<not> ladder_points (deref h a) > ladder_points (deref h b)"
    by blast
  then show ?thesis
  proof cases
    case win_gap
    show ?thesis
      using assms(1-4) win_gap ga[OF win_gap]
      by (cases "opponent_name r \<in> set (opponents_played (deref h a))";
        cases "played_in (deref h a) k"; cases "played_in (deref h b) k";
        simp add: update_players_basic_def Let_def mutate_mutate_sandwich na nb add.commute)
  next
    case win
    show ?thesis
      using assms(1-4) win
      by (cases "opponent_name r \<in> set (opponents_played (deref h a))";
        cases "played_in (deref h a) k"; cases "played_in (deref h b) k";
        simp add: update_players_basic_def Let_def mutate_mutate_sandwich na nb add.commute)
  next
    case draw
    show ?thesis
      using assms(1-4) draw
      by (cases "opponent_name r \<in> set (opponents_played (deref h a))";
        cases "played_in (deref h a) k"; cases "played_in (deref h b) k";
        simp add: update_players_basic_def Let_def mutate_mutate_sandwich na nb add.commute)
  next
    case loss_gap
    show ?thesis
      using assms(1-4) loss_gap gb[OF loss_gap]
      by (cases "opponent_name r \<in> set (opponents_played (deref h a))";
        cases "played_in (deref h a) k"; cases "played_in (deref h b) k";
        simp add: update_players_basic_def Let_def mutate_mutate_sandwich na nb add.commute)
  next
    case loss
    show ?thesis
      using assms(1-4) loss
      by (cases "opponent_name r \<in> set (opponents_played (deref h a))";
        cases "played_in (deref h a) k"; cases "played_in (deref h b) k";
        simp add: update_players_basic_def Let_def mutate_mutate_sandwich na nb add.commute)
  qed
qed

lemma upd_overflow:
  assumes "period_of_date (match_date r) config = Inr k" "a \<in> fst ` set h" "b \<in> fst ` set h" "a \<noteq> b"
    and "(player_won r \<and> ladder_points (deref h b) > ladder_points (deref h a)
            \<and> ceil_half (ladder_points (deref h b) - ladder_points (deref h a)) = Inl e)
       \<or> (\<not> player_won r \<and> \<not> was_draw r \<and> ladder_points (deref h a) > ladder_points (deref h b)
            \<and> ceil_half (ladder_points (deref h a) - ladder_points (deref h b)) = Inl e)"
  shows "update_players_basic h a b r config = Inl e"
  using assms by (auto simp: update_players_basic_def Let_def)

lemma upd_eq:
  assumes "period_of_date (match_date r) config = Inr k" "a \<in> fst ` set h"
  shows "\<exists>h'. update_players_basic h a a r config = Inr h' \<and> map fst h' = map fst h
     \<and> (\<forall>j. j \<noteq> a \<longrightarrow> deref h' j = deref h j)
     \<and> name (deref h' a) = name (deref h a)
     \<and> games_played (deref h' a) = games_played (deref h a) + 2
     \<and> games_won (deref h' a) = games_won (deref h a) + (if \<not> player_won r \<and> was_draw r then 0 else 1)
     \<and> games_drawn (deref h' a) = games_drawn (deref h a) + (if \<not> player_won r \<and> was_draw r then 2 else 0)
     \<and> opponents_played (deref h' a) = opponents_played (deref h a) @
           (if opponent_name r \<notin> set (opponents_played (deref h a))
            then [opponent_name r, player_name r] else [])
     \<and> total_vp (deref h' a) = total_vp (deref h a) + player_vp r + opponent_vp r
     \<and> ladder_points (deref h' a) = ladder_points (deref h a)
           + (if opponent_name r \<notin> set (opponents_played (deref h a)) then 2 else 0)
           + (if played_in (deref h a) k then 0 else if \<not> player_won r \<and> was_draw r then 2 else 3)
     \<and> match_periods (deref h' a) = (match_periods (deref h a))
           (k \<mapsto> (if played_in (deref h a) k then the (match_periods (deref h a) k) else 0) + 2)"
proof -
  have "\<exists>na. played_in (deref h a) k \<longrightarrow> match_periods (deref h a) k = Some na"
    using played_inD by blast
  then obtain na where
    na: "played_in (deref h a) k \<Longrightarrow> match_periods (deref h a) k = Some na"
    by blast
  show ?thesis
    using assms
    by (cases "player_won r"; cases "was_draw r";
      cases "opponent_name r \<in> set (opponents_played (deref h a))";
      cases "played_in (deref h a) k";
      simp add: update_players_basic_def Let_def na add.commute)
qed

lemma played_in_upd:
  "played_in (P\<lparr>match_periods := (match_periods P)(k \<mapsto> n)\<rparr>) k' =
     (if k' = k then 0 < n else played_in P k')"
  by (simp add: played_in_def)

lemma played_in_cong: "match_periods P = match_periods Q \<Longrightarrow> played_in P k = played_in Q k"
  by (simp add: played_in_def)

lemma played_in_fun_upd:
  "match_periods P' = (match_periods P)(k \<mapsto> n) \<Longrightarrow>
     played_in P' k' = (if k' = k then 0 < n else played_in P k')"
  by (simp add: played_in_def)

lemma upd_neq_returns:
  assumes k: "period_of_date (match_date r) config = Inr k"
    and a: "a \<in> fst ` set h" and b: "b \<in> fst ` set h" and ab: "a \<noteq> b"
    and run: "update_players_basic h a b r config = Inr h'"
  obtains ga gb where
    "player_won r \<Longrightarrow> ladder_points (deref h b) > ladder_points (deref h a) \<Longrightarrow>
       ceil_half (ladder_points (deref h b) - ladder_points (deref h a)) = Inr ga"
    "\<not> player_won r \<Longrightarrow> \<not> was_draw r \<Longrightarrow> ladder_points (deref h a) > ladder_points (deref h b) \<Longrightarrow>
       ceil_half (ladder_points (deref h a) - ladder_points (deref h b)) = Inr gb"
    "0 \<le> ga" "0 \<le> gb"
proof -
  have A: "\<exists>ga. 0 \<le> ga \<and> (player_won r \<longrightarrow> ladder_points (deref h b) > ladder_points (deref h a) \<longrightarrow>
       ceil_half (ladder_points (deref h b) - ladder_points (deref h a)) = Inr ga)"
  proof (cases "player_won r \<and> ladder_points (deref h b) > ladder_points (deref h a)")
    case True
    show ?thesis
    proof (cases "ceil_half (ladder_points (deref h b) - ladder_points (deref h a))")
      case (Inl e)
      then have "update_players_basic h a b r config = Inl e"
        using True by (intro upd_overflow[OF k a b ab]) simp
      then show ?thesis using run by simp
    next
      case (Inr v)
      then have "0 \<le> v" using True by (intro ceil_half_Inr_nonneg[OF Inr]) simp
      then show ?thesis using Inr by (intro exI[of _ v]) simp
    qed
  next
    case False
    then show ?thesis by (intro exI[of _ 0]) auto
  qed
  have B: "\<exists>gb. 0 \<le> gb \<and> (\<not> player_won r \<longrightarrow> \<not> was_draw r \<longrightarrow>
       ladder_points (deref h a) > ladder_points (deref h b) \<longrightarrow>
       ceil_half (ladder_points (deref h a) - ladder_points (deref h b)) = Inr gb)"
  proof (cases "\<not> player_won r \<and> \<not> was_draw r \<and> ladder_points (deref h a) > ladder_points (deref h b)")
    case True
    show ?thesis
    proof (cases "ceil_half (ladder_points (deref h a) - ladder_points (deref h b))")
      case (Inl e)
      then have "update_players_basic h a b r config = Inl e"
        using True by (intro upd_overflow[OF k a b ab]) simp
      then show ?thesis using run by simp
    next
      case (Inr v)
      then have "0 \<le> v" using True by (intro ceil_half_Inr_nonneg[OF Inr]) simp
      then show ?thesis using Inr by (intro exI[of _ v]) simp
    qed
  next
    case False
    then show ?thesis by (intro exI[of _ 0]) auto
  qed
  from A B that show thesis by blast
qed

lemma upd_step:
  assumes k: "period_of_date (match_date r) config = Inr k"
    and a: "a \<in> fst ` set h" and b: "b \<in> fst ` set h"
    and run: "update_players_basic h a b r config = Inr h'"
  shows "map fst h' = map fst h"
    and "\<forall>j. j \<noteq> a \<longrightarrow> j \<noteq> b \<longrightarrow> deref h' j = deref h j"
    and "\<forall>j. ladder_points (deref h j) \<le> ladder_points (deref h' j)"
    and "\<forall>j k'. played_in (deref h j) k' \<longrightarrow> played_in (deref h' j) k'"
    and "played_in (deref h' a) k" and "played_in (deref h' b) k"
    and "\<forall>j k'. played_in (deref h' j) k' \<longrightarrow> played_in (deref h j) k' \<or> ((j = a \<or> j = b) \<and> k' = k)"
proof -
  have "map fst h' = map fst h
     \<and> (\<forall>j. j \<noteq> a \<longrightarrow> j \<noteq> b \<longrightarrow> deref h' j = deref h j)
     \<and> (\<forall>j. ladder_points (deref h j) \<le> ladder_points (deref h' j))
     \<and> (\<forall>j k'. played_in (deref h j) k' \<longrightarrow> played_in (deref h' j) k')
     \<and> played_in (deref h' a) k \<and> played_in (deref h' b) k
     \<and> (\<forall>j k'. played_in (deref h' j) k' \<longrightarrow> played_in (deref h j) k' \<or> ((j = a \<or> j = b) \<and> k' = k))"
  proof (cases "a = b")
    case True
    from upd_eq[OF k a, of] obtain h'' where h'':
      "update_players_basic h a a r config = Inr h''" "map fst h'' = map fst h"
      "\<forall>j. j \<noteq> a \<longrightarrow> deref h'' j = deref h j"
      "ladder_points (deref h'' a) = ladder_points (deref h a)
             + (if opponent_name r \<notin> set (opponents_played (deref h a)) then 2 else 0)
             + (if played_in (deref h a) k then 0 else if \<not> player_won r \<and> was_draw r then 2 else 3)"
      "match_periods (deref h'' a) = (match_periods (deref h a))
             (k \<mapsto> (if played_in (deref h a) k then the (match_periods (deref h a) k) else 0) + 2)"
      by blast
    have eq: "h'' = h'" using h''(1) run True by simp
    note h' = h''[unfolded eq]
    have lp: "ladder_points (deref h j) \<le> ladder_points (deref h' j)" for j
      using h'(3,4) by (cases "j = a") auto
    have pl: "played_in (deref h' j) k'" if "played_in (deref h j) k'" for j k'
    proof (cases "j = a")
      case False then show ?thesis using h'(3) that by simp
    next
      case ja: True
      show ?thesis
        using that played_inD[of "deref h a" k]
        unfolding ja played_in_fun_upd[OF h'(5)] by auto
    qed
    have pk: "played_in (deref h' a) k"
      using played_inD[of "deref h a" k]
      unfolding played_in_fun_upd[OF h'(5)] by auto
    have cv: "played_in (deref h j) k' \<or> ((j = a \<or> j = b) \<and> k' = k)"
      if "played_in (deref h' j) k'" for j k'
    proof (cases "j = a")
      case False then show ?thesis using h'(3) that by simp
    next
      case ja: True
      show ?thesis
        using that unfolding ja played_in_fun_upd[OF h'(5)] by (auto split: if_splits)
    qed
    show ?thesis using True h'(2,3) lp pl pk cv by auto
  next
    case False
    from upd_neq_returns[OF k a b False run] obtain ga gb where
      ga: "player_won r \<Longrightarrow> ladder_points (deref h b) > ladder_points (deref h a) \<Longrightarrow>
         ceil_half (ladder_points (deref h b) - ladder_points (deref h a)) = Inr ga"
      and gb: "\<not> player_won r \<Longrightarrow> \<not> was_draw r \<Longrightarrow> ladder_points (deref h a) > ladder_points (deref h b) \<Longrightarrow>
         ceil_half (ladder_points (deref h a) - ladder_points (deref h b)) = Inr gb"
      and nn: "0 \<le> ga" "0 \<le> gb" by blast
    from upd_neq[OF k a b False ga gb] obtain h'' where h'':
      "update_players_basic h a b r config = Inr h''" "map fst h'' = map fst h"
      "\<forall>j. j \<noteq> a \<longrightarrow> j \<noteq> b \<longrightarrow> deref h'' j = deref h j"
      "ladder_points (deref h'' a) = ladder_points (deref h a)
             + (if opponent_name r \<notin> set (opponents_played (deref h a)) then 1 else 0)
             + (if played_in (deref h a) k then 0
                else if player_won r then
                  (if ladder_points (deref h b) > ladder_points (deref h a) then ga else 0) + 2
                else 1)"
      "match_periods (deref h'' a) = (match_periods (deref h a))
             (k \<mapsto> (if played_in (deref h a) k then the (match_periods (deref h a) k) else 0) + 1)"
      "ladder_points (deref h'' b) = ladder_points (deref h b)
             + (if opponent_name r \<notin> set (opponents_played (deref h a)) then 1 else 0)
             + (if played_in (deref h b) k then 0
                else if player_won r \<or> was_draw r then 1
                else (if ladder_points (deref h a) > ladder_points (deref h b) then gb else 0) + 2)"
      "match_periods (deref h'' b) = (match_periods (deref h b))
             (k \<mapsto> (if played_in (deref h b) k then the (match_periods (deref h b) k) else 0) + 1)"
      by blast
    have eq: "h'' = h'" using h''(1) run by simp
    note h' = h''[unfolded eq]
    have lpa: "ladder_points (deref h a) \<le> ladder_points (deref h' a)"
      unfolding h'(4) using nn by auto
    have lpb: "ladder_points (deref h b) \<le> ladder_points (deref h' b)"
      unfolding h'(6) using nn by auto
    have lp: "ladder_points (deref h j) \<le> ladder_points (deref h' j)" for j
      using h'(3) lpa lpb by (cases "j = a"; cases "j = b") auto
    have pka: "played_in (deref h' a) k"
      using played_inD[of "deref h a" k]
      unfolding played_in_fun_upd[OF h'(5)] by auto
    have pkb: "played_in (deref h' b) k"
      using played_inD[of "deref h b" k]
      unfolding played_in_fun_upd[OF h'(7)] by auto
    have pl: "played_in (deref h' j) k'" if "played_in (deref h j) k'" for j k'
    proof -
      consider "j = a" | "j = b" | "j \<noteq> a" "j \<noteq> b" by blast
      then show ?thesis
      proof cases
        case 1
        show ?thesis using that pka unfolding 1 played_in_fun_upd[OF h'(5)] by auto
      next
        case 2
        show ?thesis using that pkb unfolding 2 played_in_fun_upd[OF h'(7)] by auto
      next
        case 3
        then show ?thesis using h'(3) that by simp
      qed
    qed
    have cv: "played_in (deref h j) k' \<or> ((j = a \<or> j = b) \<and> k' = k)"
      if "played_in (deref h' j) k'" for j k'
    proof -
      consider "j = a" | "j = b" | "j \<noteq> a" "j \<noteq> b" by blast
      then show ?thesis
      proof cases
        case 1
        show ?thesis using that unfolding 1 played_in_fun_upd[OF h'(5)] by (auto split: if_splits)
      next
        case 2
        show ?thesis using that unfolding 2 played_in_fun_upd[OF h'(7)] by (auto split: if_splits)
      next
        case 3
        then show ?thesis using h'(3) that by simp
      qed
    qed
    show ?thesis using h'(2,3) lp pl pka pkb cv by auto
  qed
  then show "map fst h' = map fst h"
    and "\<forall>j. j \<noteq> a \<longrightarrow> j \<noteq> b \<longrightarrow> deref h' j = deref h j"
    and "\<forall>j. ladder_points (deref h j) \<le> ladder_points (deref h' j)"
    and "\<forall>j k'. played_in (deref h j) k' \<longrightarrow> played_in (deref h' j) k'"
    and "played_in (deref h' a) k" and "played_in (deref h' b) k"
    and "\<forall>j k'. played_in (deref h' j) k' \<longrightarrow> played_in (deref h j) k' \<or> ((j = a \<or> j = b) \<and> k' = k)"
    by blast+
qed

lemma upd_err:
  assumes k: "period_of_date (match_date r) config = Inr k"
    and a: "a \<in> fst ` set h" and b: "b \<in> fst ` set h"
    and err: "update_players_basic h a b r config = Inl e"
  shows "e = OverflowError ''integer division result too large for a float''
     \<and> 2 ^ 1024 \<le> \<bar>ladder_points (deref h a) - ladder_points (deref h b)\<bar>"
proof (cases "a = b")
  case True
  from upd_eq[OF k a] obtain h' where "update_players_basic h a a r config = Inr h'" by blast
  then show ?thesis using err True by simp
next
  case False
  show ?thesis
  proof (cases "\<exists>e'. (player_won r \<and> ladder_points (deref h b) > ladder_points (deref h a)
            \<and> ceil_half (ladder_points (deref h b) - ladder_points (deref h a)) = Inl e')
       \<or> (\<not> player_won r \<and> \<not> was_draw r \<and> ladder_points (deref h a) > ladder_points (deref h b)
            \<and> ceil_half (ladder_points (deref h a) - ladder_points (deref h b)) = Inl e')")
    case True
    then obtain e' where e':
      "(player_won r \<and> ladder_points (deref h b) > ladder_points (deref h a)
            \<and> ceil_half (ladder_points (deref h b) - ladder_points (deref h a)) = Inl e')
       \<or> (\<not> player_won r \<and> \<not> was_draw r \<and> ladder_points (deref h a) > ladder_points (deref h b)
            \<and> ceil_half (ladder_points (deref h a) - ladder_points (deref h b)) = Inl e')" ..
    have "update_players_basic h a b r config = Inl e'"
      by (rule upd_overflow[OF k a b False e'])
    then have ee: "e' = e" using err by simp
    from e' show ?thesis
    proof
      assume "player_won r \<and> ladder_points (deref h b) > ladder_points (deref h a)
            \<and> ceil_half (ladder_points (deref h b) - ladder_points (deref h a)) = Inl e'"
      then have "ceil_half (ladder_points (deref h b) - ladder_points (deref h a)) = Inl e"
        using ee by simp
      from ceil_half_Inl[OF this] show ?thesis by (simp add: abs_minus_commute)
    next
      assume "\<not> player_won r \<and> \<not> was_draw r \<and> ladder_points (deref h a) > ladder_points (deref h b)
            \<and> ceil_half (ladder_points (deref h a) - ladder_points (deref h b)) = Inl e'"
      then have "ceil_half (ladder_points (deref h a) - ladder_points (deref h b)) = Inl e"
        using ee by simp
      from ceil_half_Inl[OF this] show ?thesis by simp
    qed
  next
    case F: False
    have "\<exists>ga. player_won r \<longrightarrow> ladder_points (deref h b) > ladder_points (deref h a) \<longrightarrow>
         ceil_half (ladder_points (deref h b) - ladder_points (deref h a)) = Inr ga"
      using F by (cases "ceil_half (ladder_points (deref h b) - ladder_points (deref h a))") auto
    then obtain ga where ga: "player_won r \<Longrightarrow> ladder_points (deref h b) > ladder_points (deref h a) \<Longrightarrow>
         ceil_half (ladder_points (deref h b) - ladder_points (deref h a)) = Inr ga" by blast
    have "\<exists>gb. \<not> player_won r \<longrightarrow> \<not> was_draw r \<longrightarrow> ladder_points (deref h a) > ladder_points (deref h b) \<longrightarrow>
         ceil_half (ladder_points (deref h a) - ladder_points (deref h b)) = Inr gb"
      using F by (cases "ceil_half (ladder_points (deref h a) - ladder_points (deref h b))") auto
    then obtain gb where gb: "\<not> player_won r \<Longrightarrow> \<not> was_draw r \<Longrightarrow>
         ladder_points (deref h a) > ladder_points (deref h b) \<Longrightarrow>
         ceil_half (ladder_points (deref h a) - ladder_points (deref h b)) = Inr gb" by blast
    from upd_neq[OF k a b False ga gb] obtain h' where "update_players_basic h a b r config = Inr h'"
      by blast
    then show ?thesis using err by simp
  qed
qed

lemma upd_scores:
  assumes k: "period_of_date (match_date r) config = Inr k"
    and a: "a \<in> fst ` set h" and b: "b \<in> fst ` set h"
    and p: "p = a \<or> p = b"
    and small: "\<bar>ladder_points (deref h a) - ladder_points (deref h b)\<bar> < 2 ^ 53"
  shows "\<exists>h'. update_players_basic h a b r config = Inr h'
     \<and> ladder_points (deref h' p) = ladder_points (deref h p)
          + (if p = a then
               (if opponent_name r \<notin> set (opponents_played (deref h a)) then 1 else 0)
               + (if played_in (deref h p) k then 0
                  else if player_won r then
                    (if ladder_points (deref h b) > ladder_points (deref h a)
                     then (ladder_points (deref h b) - ladder_points (deref h a) + 1) div 2 else 0) + 2
                  else 1)
             else 0)
          + (if p = b then
               (if opponent_name r \<notin> set (opponents_played (deref h a)) then 1 else 0)
               + (if played_in (deref h p) k then 0
                  else if player_won r \<or> was_draw r then 1
                  else (if ladder_points (deref h a) > ladder_points (deref h b)
                        then (ladder_points (deref h a) - ladder_points (deref h b) + 1) div 2 else 0) + 2)
             else 0)
     \<and> games_played (deref h' p) = games_played (deref h p)
          + (if p = a then 1 else 0) + (if p = b then 1 else 0)
     \<and> total_vp (deref h' p) = total_vp (deref h p)
          + (if p = a then player_vp r else 0) + (if p = b then opponent_vp r else 0)
     \<and> games_won (deref h' p) = games_won (deref h p)
          + (if p = a \<and> player_won r then 1 else 0)
          + (if p = b \<and> \<not> player_won r \<and> \<not> was_draw r then 1 else 0)
     \<and> games_drawn (deref h' p) = games_drawn (deref h p)
          + (if p = a \<and> \<not> player_won r \<and> was_draw r then 1 else 0)
          + (if p = b \<and> \<not> player_won r \<and> was_draw r then 1 else 0)
     \<and> match_periods (deref h' p) k
          = Some ((if played_in (deref h p) k then the (match_periods (deref h p) k) else 0)
                  + (if p = a then 1 else 0) + (if p = b then 1 else 0))"
proof (cases "a = b")
  case True
  then have pa: "p = a" using p by simp
  from upd_eq[OF k a] obtain h' where h':
    "update_players_basic h a a r config = Inr h'"
    "games_played (deref h' a) = games_played (deref h a) + 2"
    "games_won (deref h' a) = games_won (deref h a) + (if \<not> player_won r \<and> was_draw r then 0 else 1)"
    "games_drawn (deref h' a) = games_drawn (deref h a) + (if \<not> player_won r \<and> was_draw r then 2 else 0)"
    "total_vp (deref h' a) = total_vp (deref h a) + player_vp r + opponent_vp r"
    "ladder_points (deref h' a) = ladder_points (deref h a)
         + (if opponent_name r \<notin> set (opponents_played (deref h a)) then 2 else 0)
         + (if played_in (deref h a) k then 0 else if \<not> player_won r \<and> was_draw r then 2 else 3)"
    "match_periods (deref h' a) = (match_periods (deref h a))
         (k \<mapsto> (if played_in (deref h a) k then the (match_periods (deref h a) k) else 0) + 2)"
    by blast
  show ?thesis
    using h' unfolding pa True[symmetric] by (intro exI[of _ h']) simp
next
  case False
  have sa: "\<bar>ladder_points (deref h b) - ladder_points (deref h a)\<bar> < 2 ^ 53"
    using small by (simp add: abs_minus_commute)
  note ga = ceil_half_small[OF sa]
  note gb = ceil_half_small[OF small]
  from upd_neq[OF k a b False ga gb] obtain h' where h':
    "update_players_basic h a b r config = Inr h'"
    "games_played (deref h' a) = games_played (deref h a) + 1"
    "games_won (deref h' a) = games_won (deref h a) + (if player_won r then 1 else 0)"
    "games_drawn (deref h' a) = games_drawn (deref h a) + (if \<not> player_won r \<and> was_draw r then 1 else 0)"
    "total_vp (deref h' a) = total_vp (deref h a) + player_vp r"
    "ladder_points (deref h' a) = ladder_points (deref h a)
         + (if opponent_name r \<notin> set (opponents_played (deref h a)) then 1 else 0)
         + (if played_in (deref h a) k then 0
            else if player_won r then
              (if ladder_points (deref h b) > ladder_points (deref h a)
               then (ladder_points (deref h b) - ladder_points (deref h a) + 1) div 2 else 0) + 2
            else 1)"
    "match_periods (deref h' a) = (match_periods (deref h a))
         (k \<mapsto> (if played_in (deref h a) k then the (match_periods (deref h a) k) else 0) + 1)"
    "games_played (deref h' b) = games_played (deref h b) + 1"
    "games_won (deref h' b) = games_won (deref h b) + (if \<not> player_won r \<and> \<not> was_draw r then 1 else 0)"
    "games_drawn (deref h' b) = games_drawn (deref h b) + (if \<not> player_won r \<and> was_draw r then 1 else 0)"
    "total_vp (deref h' b) = total_vp (deref h b) + opponent_vp r"
    "ladder_points (deref h' b) = ladder_points (deref h b)
         + (if opponent_name r \<notin> set (opponents_played (deref h a)) then 1 else 0)
         + (if played_in (deref h b) k then 0
            else if player_won r \<or> was_draw r then 1
            else (if ladder_points (deref h a) > ladder_points (deref h b)
                  then (ladder_points (deref h a) - ladder_points (deref h b) + 1) div 2 else 0) + 2)"
    "match_periods (deref h' b) = (match_periods (deref h b))
         (k \<mapsto> (if played_in (deref h b) k then the (match_periods (deref h b) k) else 0) + 1)"
    by blast
  from p show ?thesis
  proof
    assume pa: "p = a"
    show ?thesis
      using h'(1-7) False unfolding pa by (intro exI[of _ h']) simp
  next
    assume pb: "p = b"
    show ?thesis
      using h'(1,8-13) False unfolding pb by (intro exI[of _ h']) simp
  qed
qed

lemma upd_bounded:
  assumes k: "period_of_date (match_date r) config = Inr k"
    and a: "a \<in> fst ` set h" and b: "b \<in> fst ` set h"
    and lo: "\<forall>j \<in> fst ` set h. L \<le> ladder_points (deref h j)"
    and hi: "\<forall>j \<in> fst ` set h. ladder_points (deref h j) \<le> M"
    and small: "M - L < 2 ^ 53"
  shows "\<exists>h'. update_players_basic h a b r config = Inr h'
     \<and> (\<forall>j \<in> fst ` set h. ladder_points (deref h' j) \<le> M + 5)"
proof -
  have la: "L \<le> ladder_points (deref h a)" "ladder_points (deref h a) \<le> M"
    and lb: "L \<le> ladder_points (deref h b)" "ladder_points (deref h b) \<le> M"
    using lo hi a b by blast+
  then have sm: "\<bar>ladder_points (deref h a) - ladder_points (deref h b)\<bar> < 2 ^ 53"
    using small by linarith
  have half: "(g + 1) div 2 \<le> g" if "0 < g" for g :: int
    using that by linarith
  from upd_scores[OF k a b _ sm, of a] obtain h' where h':
    "update_players_basic h a b r config = Inr h'"
    "ladder_points (deref h' a) = ladder_points (deref h a)
          + (if a = a then
               (if opponent_name r \<notin> set (opponents_played (deref h a)) then 1 else 0)
               + (if played_in (deref h a) k then 0
                  else if player_won r then
                    (if ladder_points (deref h b) > ladder_points (deref h a)
                     then (ladder_points (deref h b) - ladder_points (deref h a) + 1) div 2 else 0) + 2
                  else 1)
             else 0)
          + (if a = b then
               (if opponent_name r \<notin> set (opponents_played (deref h a)) then 1 else 0)
               + (if played_in (deref h a) k then 0
                  else if player_won r \<or> was_draw r then 1
                  else (if ladder_points (deref h a) > ladder_points (deref h b)
                        then (ladder_points (deref h a) - ladder_points (deref h b) + 1) div 2 else 0) + 2)
             else 0)"
    by blast
  from upd_scores[OF k a b _ sm, of b] h'(1) have hb:
    "ladder_points (deref h' b) = ladder_points (deref h b)
          + (if b = a then
               (if opponent_name r \<notin> set (opponents_played (deref h a)) then 1 else 0)
               + (if played_in (deref h b) k then 0
                  else if player_won r then
                    (if ladder_points (deref h b) > ladder_points (deref h a)
                     then (ladder_points (deref h b) - ladder_points (deref h a) + 1) div 2 else 0) + 2
                  else 1)
             else 0)
          + (if b = b then
               (if opponent_name r \<notin> set (opponents_played (deref h a)) then 1 else 0)
               + (if played_in (deref h b) k then 0
                  else if player_won r \<or> was_draw r then 1
                  else (if ladder_points (deref h a) > ladder_points (deref h b)
                        then (ladder_points (deref h a) - ladder_points (deref h b) + 1) div 2 else 0) + 2)
             else 0)"
    by auto
  have h1: "(ladder_points (deref h b) - ladder_points (deref h a) + 1) div 2
              \<le> ladder_points (deref h b) - ladder_points (deref h a)"
    if "ladder_points (deref h b) > ladder_points (deref h a)"
    using that by (intro half) simp
  have h2: "(ladder_points (deref h a) - ladder_points (deref h b) + 1) div 2
              \<le> ladder_points (deref h a) - ladder_points (deref h b)"
    if "ladder_points (deref h a) > ladder_points (deref h b)"
    using that by (intro half) simp
  have ba: "ladder_points (deref h' a) \<le> M + 5"
    unfolding h'(2) using la lb h1 h2 by (auto split: if_splits)
  have bb: "ladder_points (deref h' b) \<le> M + 5"
    unfolding hb using la lb h1 h2 by (auto split: if_splits)
  have fr: "\<forall>j. j \<noteq> a \<longrightarrow> j \<noteq> b \<longrightarrow> deref h' j = deref h j"
    by (rule upd_step(2)[OF k a b h'(1)])
  have "ladder_points (deref h' j) \<le> M + 5" if "j \<in> fst ` set h" for j
  proof -
    consider "j = a" | "j = b" | "j \<noteq> a" "j \<noteq> b" by blast
    then show ?thesis
    proof cases
      case 1 then show ?thesis using ba by simp
    next
      case 2 then show ?thesis using bb by simp
    next
      case 3
      then have "deref h' j = deref h j" using fr by blast
      then show ?thesis using hi that by fastforce
    qed
  qed
  then show ?thesis using h'(1) by blast
qed

subsection \<open>The standings fold\<close>

lemma keys_ensure_player: "fst ` set (ensure_player n pm) = insert n (fst ` set pm)"
  by (auto simp: ensure_player_def dom_update)

lemma deref_ensure_player_old:
  "j \<in> fst ` set pm \<Longrightarrow> deref (ensure_player n pm) j = deref pm j"
  by (auto simp: ensure_player_def deref_def update_conv')

lemma deref_ensure_player_other:
  "j \<noteq> n \<Longrightarrow> deref (ensure_player n pm) j = deref pm j"
  by (auto simp: ensure_player_def deref_def update_conv')

lemma deref_ensure_player_new:
  "n \<notin> fst ` set pm \<Longrightarrow> deref (ensure_player n pm) n = LadderPlayer_init n INITIAL_POINTS"
  by (auto simp: ensure_player_def deref_def update_conv')

lemma deref_ensure_player:
  "deref (ensure_player n pm) j =
     (if j = n \<and> n \<notin> fst ` set pm then LadderPlayer_init n INITIAL_POINTS else deref pm j)"
  by (auto simp: ensure_player_def deref_def update_conv')

lemma standings_loop_append:
  "standings_loop u c pm (rs @ rs') =
     (case standings_loop u c pm rs of Inl e \<Rightarrow> Inl e | Inr pm' \<Rightarrow> standings_loop u c pm' rs')"
  by (induction rs arbitrary: pm) (auto simp: Let_def split: sum.splits)

lemma period_weekly_ex:
  "period c = WEEKLY \<Longrightarrow> \<exists>k. period_of_date t c = Inr k \<and> 0 \<le> k \<and> k \<le> 6"
  by (simp add: period_of_date_def timedelta_days_def)

lemma deref_ensure_twice:
  "deref (ensure_player b (ensure_player a pm)) j =
     (if j \<in> fst ` set pm then deref pm j
      else if j = a then LadderPlayer_init a INITIAL_POINTS
      else if j = b then LadderPlayer_init b INITIAL_POINTS
      else deref pm j)"
  by (simp add: deref_ensure_player keys_ensure_player)


lemma standings_loop_Cons:
  assumes "standings_loop update_players_basic config pm (r # rs) = Inr pm'"
  obtains h' where
    "update_players_basic (ensure_player (opponent_name r) (ensure_player (player_name r) pm))
       (player_name r) (opponent_name r) r config = Inr h'"
    "standings_loop update_players_basic config h' rs = Inr pm'"
  using assms by (auto simp: Let_def split: sum.splits)

lemma standings_loop_inv:
  assumes w: "period config = WEEKLY"
  shows "standings_loop update_players_basic config pm rs = Inr pm' \<Longrightarrow>
       fst ` set pm \<subseteq> fst ` set pm'
     \<and> (\<forall>j \<in> fst ` set pm. ladder_points (deref pm j) \<le> ladder_points (deref pm' j)
            \<and> (\<forall>k. played_in (deref pm j) k \<longrightarrow> played_in (deref pm' j) k))
     \<and> (\<forall>e \<in> set rs. \<forall>k. period_of_date (match_date e) config = Inr k \<longrightarrow>
            player_name e \<in> fst ` set pm' \<and> played_in (deref pm' (player_name e)) k
          \<and> opponent_name e \<in> fst ` set pm' \<and> played_in (deref pm' (opponent_name e)) k)
     \<and> (\<forall>j \<in> fst ` set pm'. \<forall>k. played_in (deref pm' j) k \<longrightarrow>
            (j \<in> fst ` set pm \<and> played_in (deref pm j) k)
          \<or> (\<exists>e \<in> set rs. (j = player_name e \<or> j = opponent_name e)
                \<and> period_of_date (match_date e) config = Inr k))"
proof (induction rs arbitrary: pm)
  case Nil
  then show ?case by simp
next
  case (Cons r rs)
  define pm2 where "pm2 = ensure_player (opponent_name r) (ensure_player (player_name r) pm)"
  obtain k where k: "period_of_date (match_date r) config = Inr k"
    using period_weekly_ex[OF w] by blast
  have keys2: "fst ` set pm2 = insert (opponent_name r) (insert (player_name r) (fst ` set pm))"
    by (simp add: pm2_def keys_ensure_player)
  have ka: "player_name r \<in> fst ` set pm2" and kb: "opponent_name r \<in> fst ` set pm2"
    using keys2 by simp_all
  have old2: "deref pm2 j = deref pm j" if "j \<in> fst ` set pm" for j
    using that by (simp add: pm2_def deref_ensure_twice)
  have new2: "deref pm2 j = LadderPlayer_init j INITIAL_POINTS"
    if "j \<in> fst ` set pm2" "j \<notin> fst ` set pm" for j
    using that keys2 by (auto simp: pm2_def deref_ensure_twice)
  from standings_loop_Cons[OF Cons.prems] obtain h' where
    run1: "update_players_basic pm2 (player_name r) (opponent_name r) r config = Inr h'"
    and run2: "standings_loop update_players_basic config h' rs = Inr pm'"
    unfolding pm2_def by blast
  note h' = upd_step[OF k ka kb run1]
  have keysh: "fst ` set h' = fst ` set pm2"
    using h'(1) by (metis set_map)
  note IH = Cons.IH[OF run2]
  note pm' = IH[THEN conjunct1] IH[THEN conjunct2, THEN conjunct1]
    IH[THEN conjunct2, THEN conjunct2, THEN conjunct1]
    IH[THEN conjunct2, THEN conjunct2, THEN conjunct2]
  have sub: "fst ` set pm \<subseteq> fst ` set pm'"
    using keys2 keysh pm'(1) by auto
  have mono: "ladder_points (deref pm j) \<le> ladder_points (deref pm' j)
            \<and> (\<forall>k. played_in (deref pm j) k \<longrightarrow> played_in (deref pm' j) k)"
    if "j \<in> fst ` set pm" for j
  proof -
    have j2: "j \<in> fst ` set h'" using that keys2 keysh by auto
    have "ladder_points (deref pm j) \<le> ladder_points (deref h' j)"
      using h'(3) old2[OF that] by metis
    moreover have "ladder_points (deref h' j) \<le> ladder_points (deref pm' j)"
      using pm'(2) j2 by blast
    moreover have "played_in (deref pm' j) k'" if "played_in (deref pm j) k'" for k'
      using that h'(4) old2[OF \<open>j \<in> fst ` set pm\<close>] pm'(2) j2 by metis
    ultimately show ?thesis by auto
  qed
  have touched: "player_name e \<in> fst ` set pm' \<and> played_in (deref pm' (player_name e)) ke
          \<and> opponent_name e \<in> fst ` set pm' \<and> played_in (deref pm' (opponent_name e)) ke"
    if "e \<in> set (r # rs)" "period_of_date (match_date e) config = Inr ke" for e ke
  proof (cases "e = r")
    case True
    then have kk: "ke = k" using that(2) k by simp
    have "player_name r \<in> fst ` set h'" "opponent_name r \<in> fst ` set h'"
      using keysh keys2 by auto
    then show ?thesis
      using True kk h'(5,6) pm'(1,2) by blast
  next
    case False
    then have "e \<in> set rs" using that(1) by simp
    then show ?thesis using pm'(3) that(2) by blast
  qed
  have conv: "(j \<in> fst ` set pm \<and> played_in (deref pm j) kj)
          \<or> (\<exists>e \<in> set (r # rs). (j = player_name e \<or> j = opponent_name e)
                \<and> period_of_date (match_date e) config = Inr kj)"
    if "j \<in> fst ` set pm'" "played_in (deref pm' j) kj" for j kj
  proof -
    from pm'(4) that have
      "(j \<in> fst ` set h' \<and> played_in (deref h' j) kj)
          \<or> (\<exists>e \<in> set rs. (j = player_name e \<or> j = opponent_name e)
                \<and> period_of_date (match_date e) config = Inr kj)" by blast
    then show ?thesis
    proof
      assume "\<exists>e \<in> set rs. (j = player_name e \<or> j = opponent_name e)
                \<and> period_of_date (match_date e) config = Inr kj"
      then show ?thesis by auto
    next
      assume A: "j \<in> fst ` set h' \<and> played_in (deref h' j) kj"
      then have "played_in (deref pm2 j) kj \<or> ((j = player_name r \<or> j = opponent_name r) \<and> kj = k)"
        using h'(7) by blast
      then show ?thesis
      proof
        assume B: "(j = player_name r \<or> j = opponent_name r) \<and> kj = k"
        then show ?thesis using k by auto
      next
        assume B: "played_in (deref pm2 j) kj"
        show ?thesis
        proof (cases "j \<in> fst ` set pm")
          case True
          then show ?thesis using B old2[OF True] by simp
        next
          case False
          have "j \<in> fst ` set pm2" using A keysh by simp
          from new2[OF this False] B show ?thesis
            by (simp add: LadderPlayer_init_def played_in_def)
        qed
      qed
    qed
  qed
  show ?case
  proof (intro conjI)
    show "fst ` set pm \<subseteq> fst ` set pm'" by (rule sub)
    show "\<forall>j \<in> fst ` set pm. ladder_points (deref pm j) \<le> ladder_points (deref pm' j)
            \<and> (\<forall>k. played_in (deref pm j) k \<longrightarrow> played_in (deref pm' j) k)"
      using mono by blast
    show "\<forall>e \<in> set (r # rs). \<forall>k. period_of_date (match_date e) config = Inr k \<longrightarrow>
            player_name e \<in> fst ` set pm' \<and> played_in (deref pm' (player_name e)) k
          \<and> opponent_name e \<in> fst ` set pm' \<and> played_in (deref pm' (opponent_name e)) k"
      using touched by blast
    show "\<forall>j \<in> fst ` set pm'. \<forall>k. played_in (deref pm' j) k \<longrightarrow>
            (j \<in> fst ` set pm \<and> played_in (deref pm j) k)
          \<or> (\<exists>e \<in> set (r # rs). (j = player_name e \<or> j = opponent_name e)
                \<and> period_of_date (match_date e) config = Inr k)"
      using conv by blast
  qed
qed

lemma standings_loop_err:
  assumes w: "period config = WEEKLY"
  shows "standings_loop update_players_basic config pm rs = Inl e \<Longrightarrow>
     e = OverflowError ''integer division result too large for a float''"
proof (induction rs arbitrary: pm)
  case Nil
  then show ?case by simp
next
  case (Cons r rs)
  define pm2 where "pm2 = ensure_player (opponent_name r) (ensure_player (player_name r) pm)"
  obtain k where k: "period_of_date (match_date r) config = Inr k"
    using period_weekly_ex[OF w] by blast
  have ka: "player_name r \<in> fst ` set pm2" and kb: "opponent_name r \<in> fst ` set pm2"
    by (simp_all add: pm2_def keys_ensure_player)
  show ?case
  proof (cases "update_players_basic pm2 (player_name r) (opponent_name r) r config")
    case (Inl e')
    then have "e' = e" using Cons.prems by (simp add: pm2_def Let_def)
    then show ?thesis using upd_err[OF k ka kb Inl] by simp
  next
    case (Inr h')
    then have "standings_loop update_players_basic config h' rs = Inl e"
      using Cons.prems by (simp add: pm2_def Let_def)
    then show ?thesis by (rule Cons.IH)
  qed
qed

lemma standings_loop_bounded:
  assumes w: "period config = WEEKLY"
  shows "\<forall>j \<in> fst ` set pm. INITIAL_POINTS \<le> ladder_points (deref pm j) \<and> ladder_points (deref pm j) \<le> M \<Longrightarrow>
     INITIAL_POINTS \<le> M \<Longrightarrow> M + 5 * int (length rs) - INITIAL_POINTS < 2 ^ 53 \<Longrightarrow>
     \<exists>pm'. standings_loop update_players_basic config pm rs = Inr pm'
       \<and> (\<forall>j \<in> fst ` set pm'. INITIAL_POINTS \<le> ladder_points (deref pm' j)
              \<and> ladder_points (deref pm' j) \<le> M + 5 * int (length rs))"
proof (induction rs arbitrary: pm M)
  case Nil
  then show ?case by simp
next
  case (Cons r rs)
  define pm2 where "pm2 = ensure_player (opponent_name r) (ensure_player (player_name r) pm)"
  obtain k where k: "period_of_date (match_date r) config = Inr k"
    using period_weekly_ex[OF w] by blast
  have keys2: "fst ` set pm2 = insert (opponent_name r) (insert (player_name r) (fst ` set pm))"
    by (simp add: pm2_def keys_ensure_player)
  have ka: "player_name r \<in> fst ` set pm2" and kb: "opponent_name r \<in> fst ` set pm2"
    using keys2 by simp_all
  have b2: "INITIAL_POINTS \<le> ladder_points (deref pm2 j) \<and> ladder_points (deref pm2 j) \<le> M"
    if "j \<in> fst ` set pm2" for j
  proof (cases "j \<in> fst ` set pm")
    case True
    then have "deref pm2 j = deref pm j" by (simp add: pm2_def deref_ensure_twice)
    moreover have "INITIAL_POINTS \<le> ladder_points (deref pm j) \<and> ladder_points (deref pm j) \<le> M"
      using Cons.prems(1) True by blast
    ultimately show ?thesis by simp
  next
    case False
    then have "deref pm2 j = LadderPlayer_init j INITIAL_POINTS"
      using that keys2 by (auto simp: pm2_def deref_ensure_twice)
    then show ?thesis using Cons.prems(2) by (simp add: LadderPlayer_init_def)
  qed
  have lo: "\<forall>j \<in> fst ` set pm2. INITIAL_POINTS \<le> ladder_points (deref pm2 j)"
    and hi: "\<forall>j \<in> fst ` set pm2. ladder_points (deref pm2 j) \<le> M"
    using b2 by blast+
  have sm: "M - INITIAL_POINTS < 2 ^ 53" using Cons.prems(3) by simp
  from upd_bounded[OF k ka kb lo hi sm] obtain h' where
    run1: "update_players_basic pm2 (player_name r) (opponent_name r) r config = Inr h'"
    and up: "\<forall>j \<in> fst ` set pm2. ladder_points (deref h' j) \<le> M + 5" by blast
  note h' = upd_step[OF k ka kb run1]
  have keysh: "fst ` set h' = fst ` set pm2"
    using h'(1) by (metis set_map)
  have bh: "\<forall>j \<in> fst ` set h'. INITIAL_POINTS \<le> ladder_points (deref h' j)
              \<and> ladder_points (deref h' j) \<le> M + 5"
  proof
    fix j assume j: "j \<in> fst ` set h'"
    then have j2: "j \<in> fst ` set pm2" using keysh by simp
    have "INITIAL_POINTS \<le> ladder_points (deref pm2 j)" using lo j2 by blast
    moreover have "ladder_points (deref pm2 j) \<le> ladder_points (deref h' j)" using h'(3) by blast
    ultimately show "INITIAL_POINTS \<le> ladder_points (deref h' j)
              \<and> ladder_points (deref h' j) \<le> M + 5" using up j2 by auto
  qed
  have m5: "INITIAL_POINTS \<le> M + 5" using Cons.prems(2) by simp
  have s5: "M + 5 + 5 * int (length rs) - INITIAL_POINTS < 2 ^ 53" using Cons.prems(3) by simp
  from Cons.IH[OF bh m5 s5] obtain pm' where
    run2: "standings_loop update_players_basic config h' rs = Inr pm'"
    and bnd: "\<forall>j \<in> fst ` set pm'. INITIAL_POINTS \<le> ladder_points (deref pm' j)
              \<and> ladder_points (deref pm' j) \<le> M + 5 + 5 * int (length rs)" by blast
  have run: "standings_loop update_players_basic config pm (r # rs) = Inr pm'"
    using run1 run2 by (simp add: pm2_def Let_def)
  have e: "M + 5 * int (length (r # rs)) = M + 5 + 5 * int (length rs)" by simp
  show ?case unfolding e using run bnd by blast
qed

subsection \<open>The period calculator\<close>

text \<open>
  For a weekly configuration the period calculator returns the floor of the days elapsed
  since \<open>start_date\<close>, modulo 7; it has the same value seven days later, and the value
  lies between 0 and 6.
\<close>

lemma period_of_date_weekly:
  assumes w: "period c = WEEKLY"
  shows "period_of_date t c = Inr (((t - start_date c) div 86400000000) mod 7)"
    and "period_of_date (t + 7 * 86400000000) c = period_of_date t c"
    and "\<exists>k. period_of_date t c = Inr k \<and> 0 \<le> k \<and> k \<le> 6"
proof -
  show "period_of_date t c = Inr (((t - start_date c) div 86400000000) mod 7)"
    using w by (simp add: period_of_date_def timedelta_days_def)
  have "(t + 7 * 86400000000 - start_date c) div 86400000000 = (t - start_date c) div 86400000000 + 7"
    by (simp add: algebra_simps)
  then show "period_of_date (t + 7 * 86400000000) c = period_of_date t c"
    using w by (simp add: period_of_date_def timedelta_days_def)
  show "\<exists>k. period_of_date t c = Inr k \<and> 0 \<le> k \<and> k \<le> 6"
    using w by (simp add: period_of_date_def timedelta_days_def)
qed

text \<open>
  Claim C4. The weekly part of the claim holds (\<open>period_of_date_weekly\<close>). For a period
  other than weekly the code means to raise
  \<^verbatim>\<open>RuntimeError("Period determination not implemented for ...")\<close>, but the message is
  an f-string that reads \<^verbatim>\<open>LadderConfig.period\<close>, an attribute of the class and not of
  the configuration \<open>c\<close>; the dataclass field has no default, so the class has no such
  attribute and evaluating the message raises AttributeError before the RuntimeError is
  built. With a period of 30 days the call raises that AttributeError, and for no
  message the unsupported-period RuntimeError.
\<close>

theorem unsupported_period_raises_attribute_error:
  "period_of_date 1704412800000000
      \<lparr>start_date = 1704067200000000, end_date = 1711929600000000, period = 30, games_per_period = 1\<rparr>
     = Inl (AttributeError ''type object LadderConfig has no attribute period'')
   \<and> (\<forall>message. period_of_date 1704412800000000
      \<lparr>start_date = 1704067200000000, end_date = 1711929600000000, period = 30, games_per_period = 1\<rparr>
     \<noteq> Inl (RuntimeError message))"
  by (simp add: period_of_date_def WEEKLY_def)

subsection \<open>Ladder points never decrease\<close>

text \<open>
  Claim C3. Under a weekly configuration the default update rule never lowers a ladder
  point total. One call of \<open>update_players_basic\<close> on any two ledgers of any store
  either returns, and then every ledger of the store has at least the points it had, or
  raises the OverflowError of the float quotient, which takes a gap of at least
  \<open>2 ^ 1024\<close> points between the two ledgers. A fold over any results from any store
  either returns, with every player it started with still there and with at least the
  points it had, or raises that OverflowError. From the empty store, a fold over fewer
  than \<open>2 ^ 50\<close> results returns, every player has at least the initial 10 points after
  a prefix and at least as many points after the whole sequence.
\<close>

theorem ladder_points_never_decrease:
  assumes w: "period config = WEEKLY"
  shows "(a \<in> fst ` set h \<longrightarrow> b \<in> fst ` set h \<longrightarrow>
           (case update_players_basic h a b result config of
              Inr h' \<Rightarrow> \<forall>j. ladder_points (deref h j) \<le> ladder_points (deref h' j)
            | Inl e \<Rightarrow> e = OverflowError ''integer division result too large for a float''
                  \<and> 2 ^ 1024 \<le> \<bar>ladder_points (deref h a) - ladder_points (deref h b)\<bar>))
       \<and> (case standings_loop update_players_basic config store results of
              Inr store' \<Rightarrow> \<forall>j \<in> fst ` set store. j \<in> fst ` set store'
                  \<and> ladder_points (deref store j) \<le> ladder_points (deref store' j)
            | Inl e \<Rightarrow> e = OverflowError ''integer division result too large for a float'')
       \<and> (length (rs @ rs') < 2 ^ 50 \<longrightarrow>
            (\<exists>pm pm'.
               standings_loop update_players_basic config [] rs = Inr pm
             \<and> standings_loop update_players_basic config [] (rs @ rs') = Inr pm'
             \<and> (\<forall>j \<in> fst ` set pm. j \<in> fst ` set pm'
                   \<and> INITIAL_POINTS \<le> ladder_points (deref pm j)
                   \<and> ladder_points (deref pm j) \<le> ladder_points (deref pm' j))))"
proof (intro conjI impI)
  assume a: "a \<in> fst ` set h" and b: "b \<in> fst ` set h"
  obtain k where k: "period_of_date (match_date result) config = Inr k"
    using period_weekly_ex[OF w] by blast
  show "case update_players_basic h a b result config of
              Inr h' \<Rightarrow> \<forall>j. ladder_points (deref h j) \<le> ladder_points (deref h' j)
            | Inl e \<Rightarrow> e = OverflowError ''integer division result too large for a float''
                  \<and> 2 ^ 1024 \<le> \<bar>ladder_points (deref h a) - ladder_points (deref h b)\<bar>"
  proof (cases "update_players_basic h a b result config")
    case (Inl e)
    show ?thesis unfolding Inl sum.case by (rule upd_err[OF k a b Inl])
  next
    case (Inr h')
    show ?thesis unfolding Inr sum.case by (rule upd_step(3)[OF k a b Inr])
  qed
next
  show "case standings_loop update_players_basic config store results of
              Inr store' \<Rightarrow> \<forall>j \<in> fst ` set store. j \<in> fst ` set store'
                  \<and> ladder_points (deref store j) \<le> ladder_points (deref store' j)
            | Inl e \<Rightarrow> e = OverflowError ''integer division result too large for a float''"
  proof (cases "standings_loop update_players_basic config store results")
    case (Inl e)
    show ?thesis unfolding Inl sum.case by (rule standings_loop_err[OF w Inl])
  next
    case (Inr store')
    note inv = standings_loop_inv[OF w Inr]
    have "\<forall>j \<in> fst ` set store. j \<in> fst ` set store'
                  \<and> ladder_points (deref store j) \<le> ladder_points (deref store' j)"
      using inv[THEN conjunct1] inv[THEN conjunct2, THEN conjunct1] by blast
    then show ?thesis unfolding Inr sum.case .
  qed
next
  assume len: "length (rs @ rs') < 2 ^ 50"
  have e: "\<forall>j \<in> fst ` set ([] :: player_map).
      INITIAL_POINTS \<le> ladder_points (deref [] j) \<and> ladder_points (deref [] j) \<le> INITIAL_POINTS"
    by simp
  have "int (length rs) < 2 ^ 50" using len by simp
  then have l1: "INITIAL_POINTS + 5 * int (length rs) - INITIAL_POINTS < 2 ^ 53" by simp
  from standings_loop_bounded[OF w e _ l1] obtain pm where
    pm: "standings_loop update_players_basic config [] rs = Inr pm"
    and init: "\<forall>j \<in> fst ` set pm. INITIAL_POINTS \<le> ladder_points (deref pm j)
              \<and> ladder_points (deref pm j) \<le> INITIAL_POINTS + 5 * int (length rs)" by auto
  have "int (length (rs @ rs')) < 2 ^ 50" using len by simp
  then have l2: "INITIAL_POINTS + 5 * int (length (rs @ rs')) - INITIAL_POINTS < 2 ^ 53" by simp
  from standings_loop_bounded[OF w e _ l2] obtain pm' where
    app: "standings_loop update_players_basic config [] (rs @ rs') = Inr pm'" by auto
  have run': "standings_loop update_players_basic config pm rs' = Inr pm'"
    using app pm by (simp add: standings_loop_append)
  note inv = standings_loop_inv[OF w run']
  have "\<forall>j \<in> fst ` set pm. j \<in> fst ` set pm'
                 \<and> INITIAL_POINTS \<le> ladder_points (deref pm j)
                 \<and> ladder_points (deref pm j) \<le> ladder_points (deref pm' j)"
    using init inv[THEN conjunct1] inv[THEN conjunct2, THEN conjunct1] by blast
  then show "\<exists>pm pm'.
             standings_loop update_players_basic config [] rs = Inr pm
           \<and> standings_loop update_players_basic config [] (rs @ rs') = Inr pm'
           \<and> (\<forall>j \<in> fst ` set pm. j \<in> fst ` set pm'
                 \<and> INITIAL_POINTS \<le> ladder_points (deref pm j)
                 \<and> ladder_points (deref pm j) \<le> ladder_points (deref pm' j))"
    using pm app by (intro exI[of _ pm] exI[of _ pm'] conjI)
qed


theorem ladder_points_never_decrease_witness:
  "(case update_players_basic [(''A'', LadderPlayer_init ''A'' 10), (''B'', LadderPlayer_init ''B'' 14)] ''A'' ''B''
           \<lparr>player_name = ''A'', opponent_name = ''B'', player_won = True, player_vp = 0, opponent_vp = 0, was_draw = False, match_date = 1704067200000000\<rparr>
           \<lparr>start_date = 1704067200000000, end_date = 1711929600000000, period = 7, games_per_period = 1\<rparr> of
      Inr h' \<Rightarrow> \<forall>j. ladder_points (deref [(''A'', LadderPlayer_init ''A'' 10), (''B'', LadderPlayer_init ''B'' 14)] j) \<le> ladder_points (deref h' j)
    | Inl e \<Rightarrow> e = OverflowError ''integer division result too large for a float''
          \<and> 2 ^ 1024 \<le> \<bar>ladder_points (deref [(''A'', LadderPlayer_init ''A'' 10), (''B'', LadderPlayer_init ''B'' 14)] ''A'')
                          - ladder_points (deref [(''A'', LadderPlayer_init ''A'' 10), (''B'', LadderPlayer_init ''B'' 14)] ''B'')\<bar>)
   \<and> (case standings_loop update_players_basic
           \<lparr>start_date = 1704067200000000, end_date = 1711929600000000, period = 7, games_per_period = 1\<rparr>
           [(''A'', LadderPlayer_init ''A'' 10)]
           [\<lparr>player_name = ''A'', opponent_name = ''B'', player_won = True, player_vp = 0, opponent_vp = 0, was_draw = False, match_date = 1704067200000000\<rparr>] of
        Inr store' \<Rightarrow> \<forall>j \<in> fst ` set [(''A'', LadderPlayer_init ''A'' 10)]. j \<in> fst ` set store'
            \<and> ladder_points (deref [(''A'', LadderPlayer_init ''A'' 10)] j) \<le> ladder_points (deref store' j)
      | Inl e \<Rightarrow> e = OverflowError ''integer division result too large for a float'')
   \<and> (\<exists>pm pm'.
         standings_loop update_players_basic
           \<lparr>start_date = 1704067200000000, end_date = 1711929600000000, period = 7, games_per_period = 1\<rparr> []
           [\<lparr>player_name = ''A'', opponent_name = ''B'', player_won = True, player_vp = 0, opponent_vp = 0, was_draw = False, match_date = 1704067200000000\<rparr>] = Inr pm
       \<and> standings_loop update_players_basic
           \<lparr>start_date = 1704067200000000, end_date = 1711929600000000, period = 7, games_per_period = 1\<rparr> []
           ([\<lparr>player_name = ''A'', opponent_name = ''B'', player_won = True, player_vp = 0, opponent_vp = 0, was_draw = False, match_date = 1704067200000000\<rparr>] @
            [\<lparr>player_name = ''B'', opponent_name = ''A'', player_won = False, player_vp = 0, opponent_vp = 0, was_draw = True, match_date = 1704153600000000\<rparr>]) = Inr pm'
       \<and> (\<forall>j \<in> fst ` set pm. j \<in> fst ` set pm'
             \<and> INITIAL_POINTS \<le> ladder_points (deref pm j)
             \<and> ladder_points (deref pm j) \<le> ladder_points (deref pm' j)))"
proof -
  have w: "period \<lparr>start_date = 1704067200000000, end_date = 1711929600000000, period = 7, games_per_period = 1\<rparr> = WEEKLY"
    by (simp add: WEEKLY_def)
  have a: "''A'' \<in> fst ` set [(''A'', LadderPlayer_init ''A'' 10), (''B'', LadderPlayer_init ''B'' 14)]"
    and b: "''B'' \<in> fst ` set [(''A'', LadderPlayer_init ''A'' 10), (''B'', LadderPlayer_init ''B'' 14)]"
    by simp_all
  have len: "length ([\<lparr>player_name = ''A'', opponent_name = ''B'', player_won = True, player_vp = 0, opponent_vp = 0, was_draw = False, match_date = 1704067200000000\<rparr>] @
            [\<lparr>player_name = ''B'', opponent_name = ''A'', player_won = False, player_vp = 0, opponent_vp = 0, was_draw = True, match_date = 1704153600000000\<rparr>]) < 2 ^ 50"
    by simp
  note t = ladder_points_never_decrease[OF w,
      where a = "''A''" and b = "''B''"
        and h = "[(''A'', LadderPlayer_init ''A'' 10), (''B'', LadderPlayer_init ''B'' 14)]"
        and result = "\<lparr>player_name = ''A'', opponent_name = ''B'', player_won = True, player_vp = 0, opponent_vp = 0, was_draw = False, match_date = 1704067200000000\<rparr>"
        and store = "[(''A'', LadderPlayer_init ''A'' 10)]"
        and results = "[\<lparr>player_name = ''A'', opponent_name = ''B'', player_won = True, player_vp = 0, opponent_vp = 0, was_draw = False, match_date = 1704067200000000\<rparr>]"
        and rs = "[\<lparr>player_name = ''A'', opponent_name = ''B'', player_won = True, player_vp = 0, opponent_vp = 0, was_draw = False, match_date = 1704067200000000\<rparr>]"
        and rs' = "[\<lparr>player_name = ''B'', opponent_name = ''A'', player_won = False, player_vp = 0, opponent_vp = 0, was_draw = True, match_date = 1704153600000000\<rparr>]"]
  show ?thesis
    using t[THEN conjunct1, rule_format, OF a b] t[THEN conjunct2, THEN conjunct1]
      t[THEN conjunct2, THEN conjunct2, rule_format, OF len]
    by (intro conjI)
qed

subsection \<open>The period gate\<close>

lemma upd_deltas:
  assumes k: "period_of_date (match_date r) config = Inr k"
    and a: "a \<in> fst ` set h" and b: "b \<in> fst ` set h"
    and p: "p = a \<or> p = b"
    and run: "update_players_basic h a b r config = Inr h'"
  shows "\<exists>da db.
       Inr da = (if player_won r then
                   (case (if ladder_points (deref h b) > ladder_points (deref h a)
                          then ceil_half (ladder_points (deref h b) - ladder_points (deref h a))
                          else Inr 0) of
                      Inl e \<Rightarrow> Inl e | Inr bonus \<Rightarrow> Inr (bonus + 2))
                 else Inr 1)
     \<and> Inr db = (if player_won r \<or> was_draw r then Inr 1
                 else (case (if ladder_points (deref h a) > ladder_points (deref h b)
                             then ceil_half (ladder_points (deref h a) - ladder_points (deref h b))
                             else Inr 0) of
                         Inl e \<Rightarrow> Inl e | Inr bonus \<Rightarrow> Inr (bonus + 2)))
     \<and> ladder_points (deref h' p) = ladder_points (deref h p)
          + (if p = a then
               (if opponent_name r \<notin> set (opponents_played (deref h a)) then 1 else 0)
               + (if played_in (deref h p) k then 0 else da)
             else 0)
          + (if p = b then
               (if opponent_name r \<notin> set (opponents_played (deref h a)) then 1 else 0)
               + (if played_in (deref h p) k then 0 else db)
             else 0)
     \<and> games_played (deref h' p) = games_played (deref h p)
          + (if p = a then 1 else 0) + (if p = b then 1 else 0)
     \<and> total_vp (deref h' p) = total_vp (deref h p)
          + (if p = a then player_vp r else 0) + (if p = b then opponent_vp r else 0)
     \<and> games_won (deref h' p) = games_won (deref h p)
          + (if p = a \<and> player_won r then 1 else 0)
          + (if p = b \<and> \<not> player_won r \<and> \<not> was_draw r then 1 else 0)
     \<and> games_drawn (deref h' p) = games_drawn (deref h p)
          + (if p = a \<and> \<not> player_won r \<and> was_draw r then 1 else 0)
          + (if p = b \<and> \<not> player_won r \<and> was_draw r then 1 else 0)
     \<and> match_periods (deref h' p) k
          = Some ((if played_in (deref h p) k then the (match_periods (deref h p) k) else 0)
                  + (if p = a then 1 else 0) + (if p = b then 1 else 0))"
proof (cases "a = b")
  case True
  then have pa: "p = a" using p by simp
  from upd_eq[OF k a] obtain h'' where h'':
    "update_players_basic h a a r config = Inr h''"
    "games_played (deref h'' a) = games_played (deref h a) + 2"
    "games_won (deref h'' a) = games_won (deref h a) + (if \<not> player_won r \<and> was_draw r then 0 else 1)"
    "games_drawn (deref h'' a) = games_drawn (deref h a) + (if \<not> player_won r \<and> was_draw r then 2 else 0)"
    "total_vp (deref h'' a) = total_vp (deref h a) + player_vp r + opponent_vp r"
    "ladder_points (deref h'' a) = ladder_points (deref h a)
         + (if opponent_name r \<notin> set (opponents_played (deref h a)) then 2 else 0)
         + (if played_in (deref h a) k then 0 else if \<not> player_won r \<and> was_draw r then 2 else 3)"
    "match_periods (deref h'' a) = (match_periods (deref h a))
         (k \<mapsto> (if played_in (deref h a) k then the (match_periods (deref h a) k) else 0) + 2)"
    by blast
  have eq: "h'' = h'" using h''(1) run True by simp
  note h' = h''[unfolded eq]
  show ?thesis
    using h'(2-7) unfolding pa True[symmetric]
    by (intro exI[of _ "if player_won r then 2 else 1"]
          exI[of _ "if player_won r \<or> was_draw r then 1 else 2"]) simp
next
  case False
  from upd_neq_returns[OF k a b False run] obtain ga gb where
    ga: "player_won r \<Longrightarrow> ladder_points (deref h b) > ladder_points (deref h a) \<Longrightarrow>
       ceil_half (ladder_points (deref h b) - ladder_points (deref h a)) = Inr ga"
    and gb: "\<not> player_won r \<Longrightarrow> \<not> was_draw r \<Longrightarrow> ladder_points (deref h a) > ladder_points (deref h b) \<Longrightarrow>
       ceil_half (ladder_points (deref h a) - ladder_points (deref h b)) = Inr gb"
    by blast
  from upd_neq[OF k a b False ga gb] obtain h'' where h'':
    "update_players_basic h a b r config = Inr h''"
    "games_played (deref h'' a) = games_played (deref h a) + 1"
    "games_won (deref h'' a) = games_won (deref h a) + (if player_won r then 1 else 0)"
    "games_drawn (deref h'' a) = games_drawn (deref h a) + (if \<not> player_won r \<and> was_draw r then 1 else 0)"
    "total_vp (deref h'' a) = total_vp (deref h a) + player_vp r"
    "ladder_points (deref h'' a) = ladder_points (deref h a)
         + (if opponent_name r \<notin> set (opponents_played (deref h a)) then 1 else 0)
         + (if played_in (deref h a) k then 0
            else if player_won r then
              (if ladder_points (deref h b) > ladder_points (deref h a) then ga else 0) + 2
            else 1)"
    "match_periods (deref h'' a) = (match_periods (deref h a))
         (k \<mapsto> (if played_in (deref h a) k then the (match_periods (deref h a) k) else 0) + 1)"
    "games_played (deref h'' b) = games_played (deref h b) + 1"
    "games_won (deref h'' b) = games_won (deref h b) + (if \<not> player_won r \<and> \<not> was_draw r then 1 else 0)"
    "games_drawn (deref h'' b) = games_drawn (deref h b) + (if \<not> player_won r \<and> was_draw r then 1 else 0)"
    "total_vp (deref h'' b) = total_vp (deref h b) + opponent_vp r"
    "ladder_points (deref h'' b) = ladder_points (deref h b)
         + (if opponent_name r \<notin> set (opponents_played (deref h a)) then 1 else 0)
         + (if played_in (deref h b) k then 0
            else if player_won r \<or> was_draw r then 1
            else (if ladder_points (deref h a) > ladder_points (deref h b) then gb else 0) + 2)"
    "match_periods (deref h'' b) = (match_periods (deref h b))
         (k \<mapsto> (if played_in (deref h b) k then the (match_periods (deref h b) k) else 0) + 1)"
    by blast
  have eq: "h'' = h'" using h''(1) run by simp
  note h' = h''[unfolded eq]
  define da where "da = (if player_won r then
      (if ladder_points (deref h b) > ladder_points (deref h a) then ga else 0) + 2 else 1)"
  define db where "db = (if player_won r \<or> was_draw r then 1
      else (if ladder_points (deref h a) > ladder_points (deref h b) then gb else 0) + 2)"
  have A: "Inr da = (if player_won r then
                   (case (if ladder_points (deref h b) > ladder_points (deref h a)
                          then ceil_half (ladder_points (deref h b) - ladder_points (deref h a))
                          else Inr 0) of
                      Inl e \<Rightarrow> Inl e | Inr bonus \<Rightarrow> Inr (bonus + 2))
                 else (Inr 1 :: error + int))"
    using ga by (simp add: da_def)
  have B: "Inr db = (if player_won r \<or> was_draw r then (Inr 1 :: error + int)
                 else (case (if ladder_points (deref h a) > ladder_points (deref h b)
                             then ceil_half (ladder_points (deref h a) - ladder_points (deref h b))
                             else Inr 0) of
                         Inl e \<Rightarrow> Inl e | Inr bonus \<Rightarrow> Inr (bonus + 2)))"
    using gb by (simp add: db_def)
  have la: "ladder_points (deref h' a) = ladder_points (deref h a)
         + (if opponent_name r \<notin> set (opponents_played (deref h a)) then 1 else 0)
         + (if played_in (deref h a) k then 0 else da)"
    using h'(6) by (simp add: da_def)
  have lb: "ladder_points (deref h' b) = ladder_points (deref h b)
         + (if opponent_name r \<notin> set (opponents_played (deref h a)) then 1 else 0)
         + (if played_in (deref h b) k then 0 else db)"
    using h'(12) by (simp add: db_def)
  from p show ?thesis
  proof
    assume pa: "p = a"
    show ?thesis
      using A B la h'(2-5,7) False unfolding pa
      by (intro exI[of _ da] exI[of _ db]) simp
  next
    assume pb: "p = b"
    show ?thesis
      using A B lb h'(8-11,13) False unfolding pb
      by (intro exI[of _ da] exI[of _ db]) simp
  qed
qed


text \<open>
  Claim C1. In the standings fold under a weekly configuration, take a result \<open>r\<close> that
  follows the results \<open>rs\<close>, and a player \<open>p\<close> of \<open>r\<close>. The fold returns, unless a float
  quotient overflows, which takes at least \<open>2 ^ 50\<close> results. Let \<open>before\<close> be the store
  when \<open>update_players_basic\<close> is called for \<open>r\<close> (the store after \<open>rs\<close>, with the two
  players of \<open>r\<close> added at 10 points if new), and let \<open>earlier\<close> say that some result of
  \<open>rs\<close> involves \<open>p\<close> and falls in the period index \<open>k\<close> of \<open>r\<close>. Then the gate
  \<open>played_in\<close> that the code reads for \<open>p\<close> is exactly \<open>earlier\<close>, and \<open>r\<close> changes \<open>p\<close>'s
  ledger as follows. The ladder points grow by the new-matchup bonus, and, only when
  there is no earlier result, by the pending delta \<^verbatim>\<open>a_addtl_lp\<close> or \<^verbatim>\<open>b_addtl_lp\<close> of
  the play, win and gap bonuses of \<open>r\<close>: for the winner 2 plus
  \<^verbatim>\<open>math.ceil(gap / 2)\<close> of the gap to a higher-placed loser, and 1 for any other
  player; with fewer than \<open>2 ^ 50\<close> results the quotient is exact and the gap bonus is
  half the gap, rounded up. Games played, victory points, the win or draw count and the
  period counter are advanced in both cases. A player is counted once for each side of
  \<open>r\<close> it is on.
\<close>

theorem only_first_result_of_period_scores:
  assumes w: "period config = WEEKLY"
    and pr: "p = player_name r \<or> p = opponent_name r"
  shows "case standings_loop update_players_basic config [] (rs @ [r]) of
      Inl e \<Rightarrow> e = OverflowError ''integer division result too large for a float'' \<and> 2 ^ 50 \<le> length rs
    | Inr pm' \<Rightarrow>
        (\<exists>pm k before la lb matchup earlier a_addtl_lp b_addtl_lp.
            standings_loop update_players_basic config [] rs = Inr pm
          \<and> period_of_date (match_date r) config = Inr k
          \<and> before = ensure_player (opponent_name r) (ensure_player (player_name r) pm)
          \<and> la = ladder_points (deref before (player_name r))
          \<and> lb = ladder_points (deref before (opponent_name r))
          \<and> matchup = (if opponent_name r \<notin> set (opponents_played (deref before (player_name r)))
                        then 1 else 0)
          \<and> earlier = (\<exists>e \<in> set rs. (p = player_name e \<or> p = opponent_name e)
                          \<and> period_of_date (match_date e) config = Inr k)
          \<and> played_in (deref before p) k = earlier
          \<and> Inr a_addtl_lp =
               (if player_won r then
                  (case (if lb > la then ceil_half (lb - la) else Inr 0) of
                     Inl e \<Rightarrow> Inl e | Inr bonus \<Rightarrow> Inr (bonus + 2))
                else Inr 1)
          \<and> Inr b_addtl_lp =
               (if player_won r \<or> was_draw r then Inr 1
                else (case (if la > lb then ceil_half (la - lb) else Inr 0) of
                        Inl e \<Rightarrow> Inl e | Inr bonus \<Rightarrow> Inr (bonus + 2)))
          \<and> (length rs < 2 ^ 50 \<longrightarrow>
                a_addtl_lp = (if player_won r
                              then (if lb > la then (lb - la + 1) div 2 else 0) + 2 else 1)
              \<and> b_addtl_lp = (if player_won r \<or> was_draw r then 1
                              else (if la > lb then (la - lb + 1) div 2 else 0) + 2))
          \<and> ladder_points (deref pm' p) = ladder_points (deref before p)
                + (if p = player_name r then matchup + (if earlier then 0 else a_addtl_lp) else 0)
                + (if p = opponent_name r then matchup + (if earlier then 0 else b_addtl_lp) else 0)
          \<and> games_played (deref pm' p) = games_played (deref before p)
                + (if p = player_name r then 1 else 0) + (if p = opponent_name r then 1 else 0)
          \<and> total_vp (deref pm' p) = total_vp (deref before p)
                + (if p = player_name r then player_vp r else 0)
                + (if p = opponent_name r then opponent_vp r else 0)
          \<and> games_won (deref pm' p) = games_won (deref before p)
                + (if p = player_name r \<and> player_won r then 1 else 0)
                + (if p = opponent_name r \<and> \<not> player_won r \<and> \<not> was_draw r then 1 else 0)
          \<and> games_drawn (deref pm' p) = games_drawn (deref before p)
                + (if p = player_name r \<and> \<not> player_won r \<and> was_draw r then 1 else 0)
                + (if p = opponent_name r \<and> \<not> player_won r \<and> was_draw r then 1 else 0)
          \<and> match_periods (deref pm' p) k
                = Some ((if earlier then the (match_periods (deref before p) k) else 0)
                        + (if p = player_name r then 1 else 0)
                        + (if p = opponent_name r then 1 else 0)))"
proof (cases "standings_loop update_players_basic config [] (rs @ [r])")
  case (Inl e)
  have e: "e = OverflowError ''integer division result too large for a float''"
    by (rule standings_loop_err[OF w Inl])
  have "2 ^ 50 \<le> length rs"
  proof (rule ccontr)
    assume "\<not> 2 ^ 50 \<le> length rs"
    then have "int (length rs) < 2 ^ 50" by simp
    then have l: "INITIAL_POINTS + 5 * int (length (rs @ [r])) - INITIAL_POINTS < 2 ^ 53" by simp
    have emp: "\<forall>j \<in> fst ` set ([] :: player_map).
        INITIAL_POINTS \<le> ladder_points (deref [] j) \<and> ladder_points (deref [] j) \<le> INITIAL_POINTS"
      by simp
    from standings_loop_bounded[OF w emp _ l] obtain q where
      "standings_loop update_players_basic config [] (rs @ [r]) = Inr q" by auto
    then show False using Inl by simp
  qed
  then show ?thesis unfolding Inl sum.case using e by (intro conjI)
next
  case (Inr pm')
  obtain k where k: "period_of_date (match_date r) config = Inr k"
    using period_weekly_ex[OF w] by blast
  obtain pm where pm: "standings_loop update_players_basic config [] rs = Inr pm"
    and last: "standings_loop update_players_basic config pm [r] = Inr pm'"
    using Inr by (auto simp: standings_loop_append[of _ _ _ rs "[r]"] split: sum.splits)
  note inv = standings_loop_inv[OF w pm]
  define before where "before = ensure_player (opponent_name r) (ensure_player (player_name r) pm)"
  define earlier where "earlier = (\<exists>e \<in> set rs. (p = player_name e \<or> p = opponent_name e)
                    \<and> period_of_date (match_date e) config = Inr k)"
  have run1: "update_players_basic before (player_name r) (opponent_name r) r config = Inr pm'"
    using last by (simp add: before_def Let_def split: sum.splits)
  have keys2: "fst ` set before = insert (opponent_name r) (insert (player_name r) (fst ` set pm))"
    by (simp add: before_def keys_ensure_player)
  have ka: "player_name r \<in> fst ` set before" and kb: "opponent_name r \<in> fst ` set before"
    using keys2 by simp_all
  have old2: "deref before j = deref pm j" if "j \<in> fst ` set pm" for j
    using that by (simp add: before_def deref_ensure_twice)
  have new2: "deref before j = LadderPlayer_init j INITIAL_POINTS"
    if "j \<in> fst ` set before" "j \<notin> fst ` set pm" for j
    using that keys2 by (auto simp: before_def deref_ensure_twice)
  have pin: "p \<in> fst ` set before" using pr ka kb by auto
  have gate: "played_in (deref before p) k = earlier"
  proof
    assume pl: "played_in (deref before p) k"
    show earlier
    proof (cases "p \<in> fst ` set pm")
      case True
      then have "played_in (deref pm p) k" using pl old2[OF True] by simp
      then have "(p \<in> fst ` set ([] :: player_map) \<and> played_in (deref [] p) k)
          \<or> (\<exists>e \<in> set rs. (p = player_name e \<or> p = opponent_name e)
                \<and> period_of_date (match_date e) config = Inr k)"
        using inv[THEN conjunct2, THEN conjunct2, THEN conjunct2] True by blast
      then show ?thesis unfolding earlier_def by simp
    next
      case False
      from new2[OF pin False] pl show ?thesis
        by (simp add: LadderPlayer_init_def played_in_def)
    qed
  next
    assume earlier
    then obtain e where e: "e \<in> set rs" "p = player_name e \<or> p = opponent_name e"
      "period_of_date (match_date e) config = Inr k"
      unfolding earlier_def by blast
    have "player_name e \<in> fst ` set pm \<and> played_in (deref pm (player_name e)) k
          \<and> opponent_name e \<in> fst ` set pm \<and> played_in (deref pm (opponent_name e)) k"
      using inv[THEN conjunct2, THEN conjunct2, THEN conjunct1] e(1,3) by blast
    then have "p \<in> fst ` set pm \<and> played_in (deref pm p) k" using e(2) by auto
    then show "played_in (deref before p) k" using old2[of p] by simp
  qed
  from upd_deltas[OF k ka kb pr run1] obtain da db where G:
    "Inr da = (if player_won r then
                   (case (if ladder_points (deref before (opponent_name r)) > ladder_points (deref before (player_name r))
                          then ceil_half (ladder_points (deref before (opponent_name r)) - ladder_points (deref before (player_name r)))
                          else Inr 0) of
                      Inl e \<Rightarrow> Inl e | Inr bonus \<Rightarrow> Inr (bonus + 2))
                 else Inr 1)
     \<and> Inr db = (if player_won r \<or> was_draw r then Inr 1
                 else (case (if ladder_points (deref before (player_name r)) > ladder_points (deref before (opponent_name r))
                             then ceil_half (ladder_points (deref before (player_name r)) - ladder_points (deref before (opponent_name r)))
                             else Inr 0) of
                         Inl e \<Rightarrow> Inl e | Inr bonus \<Rightarrow> Inr (bonus + 2)))
     \<and> ladder_points (deref pm' p) = ladder_points (deref before p)
          + (if p = player_name r then
               (if opponent_name r \<notin> set (opponents_played (deref before (player_name r))) then 1 else 0)
               + (if played_in (deref before p) k then 0 else da)
             else 0)
          + (if p = opponent_name r then
               (if opponent_name r \<notin> set (opponents_played (deref before (player_name r))) then 1 else 0)
               + (if played_in (deref before p) k then 0 else db)
             else 0)
     \<and> games_played (deref pm' p) = games_played (deref before p)
          + (if p = player_name r then 1 else 0) + (if p = opponent_name r then 1 else 0)
     \<and> total_vp (deref pm' p) = total_vp (deref before p)
          + (if p = player_name r then player_vp r else 0) + (if p = opponent_name r then opponent_vp r else 0)
     \<and> games_won (deref pm' p) = games_won (deref before p)
          + (if p = player_name r \<and> player_won r then 1 else 0)
          + (if p = opponent_name r \<and> \<not> player_won r \<and> \<not> was_draw r then 1 else 0)
     \<and> games_drawn (deref pm' p) = games_drawn (deref before p)
          + (if p = player_name r \<and> \<not> player_won r \<and> was_draw r then 1 else 0)
          + (if p = opponent_name r \<and> \<not> player_won r \<and> was_draw r then 1 else 0)
     \<and> match_periods (deref pm' p) k
          = Some ((if played_in (deref before p) k then the (match_periods (deref before p) k) else 0)
                  + (if p = player_name r then 1 else 0) + (if p = opponent_name r then 1 else 0))"
    by blast
  note G' = G[unfolded gate]
  have exact: "da = (if player_won r
                     then (if ladder_points (deref before (opponent_name r)) > ladder_points (deref before (player_name r))
                           then (ladder_points (deref before (opponent_name r)) - ladder_points (deref before (player_name r)) + 1) div 2
                           else 0) + 2 else 1)
             \<and> db = (if player_won r \<or> was_draw r then 1
                     else (if ladder_points (deref before (player_name r)) > ladder_points (deref before (opponent_name r))
                           then (ladder_points (deref before (player_name r)) - ladder_points (deref before (opponent_name r)) + 1) div 2
                           else 0) + 2)"
    if len: "length rs < 2 ^ 50"
  proof -
    have li: "int (length rs) < 2 ^ 50" using len by simp
    then have l1: "INITIAL_POINTS + 5 * int (length rs) - INITIAL_POINTS < 2 ^ 53" by simp
    have emp: "\<forall>j \<in> fst ` set ([] :: player_map).
        INITIAL_POINTS \<le> ladder_points (deref [] j) \<and> ladder_points (deref [] j) \<le> INITIAL_POINTS"
      by simp
    from standings_loop_bounded[OF w emp _ l1] pm have
      bnd: "\<forall>j \<in> fst ` set pm. INITIAL_POINTS \<le> ladder_points (deref pm j)
              \<and> ladder_points (deref pm j) \<le> INITIAL_POINTS + 5 * int (length rs)" by auto
    have b2: "INITIAL_POINTS \<le> ladder_points (deref before j)
          \<and> ladder_points (deref before j) \<le> INITIAL_POINTS + 5 * int (length rs)"
      if "j \<in> fst ` set before" for j
    proof (cases "j \<in> fst ` set pm")
      case True
      then show ?thesis using bnd old2[OF True] by auto
    next
      case False
      show ?thesis using new2[OF that False] by (simp add: LadderPlayer_init_def)
    qed
    have p53: "(2::int) ^ 53 = 8 * 2 ^ 50" by simp
    have s1: "\<bar>ladder_points (deref before (player_name r))
                - ladder_points (deref before (opponent_name r))\<bar> < 2 ^ 53"
      using b2[OF ka] b2[OF kb] li p53 by linarith
    have s2: "\<bar>ladder_points (deref before (opponent_name r))
                - ladder_points (deref before (player_name r))\<bar> < 2 ^ 53"
      using s1 by (simp add: abs_minus_commute)
    show ?thesis
      using G[THEN conjunct1] G[THEN conjunct2, THEN conjunct1]
      unfolding ceil_half_small[OF s1] ceil_half_small[OF s2]
      by (simp split: if_splits)
  qed
  show ?thesis
    unfolding Inr sum.case
    apply (rule exI[of _ pm], rule exI[of _ k], rule exI[of _ before])
    apply (rule exI[of _ "ladder_points (deref before (player_name r))"])
    apply (rule exI[of _ "ladder_points (deref before (opponent_name r))"])
    apply (rule exI[of _ "if opponent_name r \<notin> set (opponents_played (deref before (player_name r))) then 1 else 0"])
    apply (rule exI[of _ earlier], rule exI[of _ da], rule exI[of _ db])
    apply (intro conjI)
                    apply (rule pm)
                   apply (rule k)
                  apply (rule before_def)
                 apply (rule refl)
                apply (rule refl)
               apply (rule refl)
              apply (rule earlier_def)
             apply (rule gate)
            apply (rule G'[THEN conjunct1])
           apply (rule G'[THEN conjunct2, THEN conjunct1])
          apply (rule impI, erule exact)
         apply (rule G'[THEN conjunct2, THEN conjunct2, THEN conjunct1])
        apply (rule G'[THEN conjunct2, THEN conjunct2, THEN conjunct2, THEN conjunct1])
       apply (rule G'[THEN conjunct2, THEN conjunct2, THEN conjunct2, THEN conjunct2, THEN conjunct1])
      apply (rule G'[THEN conjunct2, THEN conjunct2, THEN conjunct2, THEN conjunct2, THEN conjunct2, THEN conjunct1])
     apply (rule G'[THEN conjunct2, THEN conjunct2, THEN conjunct2, THEN conjunct2, THEN conjunct2, THEN conjunct2, THEN conjunct1])
    apply (rule G'[THEN conjunct2, THEN conjunct2, THEN conjunct2, THEN conjunct2, THEN conjunct2, THEN conjunct2, THEN conjunct2])
    done
qed


theorem only_first_result_of_period_scores_witness:
  "length [\<lparr>player_name = ''A'', opponent_name = ''B'', player_won = True, player_vp = 3, opponent_vp = 1, was_draw = False, match_date = 1704067200000000\<rparr>] < 2 ^ 50
   \<and> (\<exists>pm'. standings_loop update_players_basic
        \<lparr>start_date = 1704067200000000, end_date = 1711929600000000, period = 7, games_per_period = 1\<rparr> []
        ([\<lparr>player_name = ''A'', opponent_name = ''B'', player_won = True, player_vp = 3, opponent_vp = 1, was_draw = False, match_date = 1704067200000000\<rparr>] @
         [\<lparr>player_name = ''C'', opponent_name = ''A'', player_won = False, player_vp = 2, opponent_vp = 5, was_draw = False, match_date = 1704672000000000\<rparr>]) = Inr pm'
      \<and> (\<exists>pm k before la lb matchup earlier a_addtl_lp b_addtl_lp.
            standings_loop update_players_basic 
        \<lparr>start_date = 1704067200000000, end_date = 1711929600000000, period = 7, games_per_period = 1\<rparr> [] 
        [\<lparr>player_name = ''A'', opponent_name = ''B'', player_won = True, player_vp = 3, opponent_vp = 1, was_draw = False, match_date = 1704067200000000\<rparr>] = Inr pm
          \<and> period_of_date (match_date 
        \<lparr>player_name = ''C'', opponent_name = ''A'', player_won = False, player_vp = 2, opponent_vp = 5, was_draw = False, match_date = 1704672000000000\<rparr>) 
        \<lparr>start_date = 1704067200000000, end_date = 1711929600000000, period = 7, games_per_period = 1\<rparr> = Inr k
          \<and> before = ensure_player (opponent_name 
        \<lparr>player_name = ''C'', opponent_name = ''A'', player_won = False, player_vp = 2, opponent_vp = 5, was_draw = False, match_date = 1704672000000000\<rparr>) (ensure_player (player_name 
        \<lparr>player_name = ''C'', opponent_name = ''A'', player_won = False, player_vp = 2, opponent_vp = 5, was_draw = False, match_date = 1704672000000000\<rparr>) pm)
          \<and> la = ladder_points (deref before (player_name 
        \<lparr>player_name = ''C'', opponent_name = ''A'', player_won = False, player_vp = 2, opponent_vp = 5, was_draw = False, match_date = 1704672000000000\<rparr>))
          \<and> lb = ladder_points (deref before (opponent_name 
        \<lparr>player_name = ''C'', opponent_name = ''A'', player_won = False, player_vp = 2, opponent_vp = 5, was_draw = False, match_date = 1704672000000000\<rparr>))
          \<and> matchup = (if opponent_name 
        \<lparr>player_name = ''C'', opponent_name = ''A'', player_won = False, player_vp = 2, opponent_vp = 5, was_draw = False, match_date = 1704672000000000\<rparr> \<notin> set (opponents_played (deref before (player_name 
        \<lparr>player_name = ''C'', opponent_name = ''A'', player_won = False, player_vp = 2, opponent_vp = 5, was_draw = False, match_date = 1704672000000000\<rparr>)))
                        then 1 else 0)
          \<and> earlier = (\<exists>e \<in> set 
        [\<lparr>player_name = ''A'', opponent_name = ''B'', player_won = True, player_vp = 3, opponent_vp = 1, was_draw = False, match_date = 1704067200000000\<rparr>]. (''A'' = player_name e \<or> ''A'' = opponent_name e)
                          \<and> period_of_date (match_date e) 
        \<lparr>start_date = 1704067200000000, end_date = 1711929600000000, period = 7, games_per_period = 1\<rparr> = Inr k)
          \<and> played_in (deref before ''A'') k = earlier
          \<and> Inr a_addtl_lp =
               (if player_won 
        \<lparr>player_name = ''C'', opponent_name = ''A'', player_won = False, player_vp = 2, opponent_vp = 5, was_draw = False, match_date = 1704672000000000\<rparr> then
                  (case (if lb > la then ceil_half (lb - la) else Inr 0) of
                     Inl e \<Rightarrow> Inl e | Inr bonus \<Rightarrow> Inr (bonus + 2))
                else Inr 1)
          \<and> Inr b_addtl_lp =
               (if player_won 
        \<lparr>player_name = ''C'', opponent_name = ''A'', player_won = False, player_vp = 2, opponent_vp = 5, was_draw = False, match_date = 1704672000000000\<rparr> \<or> was_draw 
        \<lparr>player_name = ''C'', opponent_name = ''A'', player_won = False, player_vp = 2, opponent_vp = 5, was_draw = False, match_date = 1704672000000000\<rparr> then Inr 1
                else (case (if la > lb then ceil_half (la - lb) else Inr 0) of
                        Inl e \<Rightarrow> Inl e | Inr bonus \<Rightarrow> Inr (bonus + 2)))
          \<and> (length 
        [\<lparr>player_name = ''A'', opponent_name = ''B'', player_won = True, player_vp = 3, opponent_vp = 1, was_draw = False, match_date = 1704067200000000\<rparr>] < 2 ^ 50 \<longrightarrow>
                a_addtl_lp = (if player_won 
        \<lparr>player_name = ''C'', opponent_name = ''A'', player_won = False, player_vp = 2, opponent_vp = 5, was_draw = False, match_date = 1704672000000000\<rparr>
                              then (if lb > la then (lb - la + 1) div 2 else 0) + 2 else 1)
              \<and> b_addtl_lp = (if player_won 
        \<lparr>player_name = ''C'', opponent_name = ''A'', player_won = False, player_vp = 2, opponent_vp = 5, was_draw = False, match_date = 1704672000000000\<rparr> \<or> was_draw 
        \<lparr>player_name = ''C'', opponent_name = ''A'', player_won = False, player_vp = 2, opponent_vp = 5, was_draw = False, match_date = 1704672000000000\<rparr> then 1
                              else (if la > lb then (la - lb + 1) div 2 else 0) + 2))
          \<and> ladder_points (deref pm' ''A'') = ladder_points (deref before ''A'')
                + (if ''A'' = player_name 
        \<lparr>player_name = ''C'', opponent_name = ''A'', player_won = False, player_vp = 2, opponent_vp = 5, was_draw = False, match_date = 1704672000000000\<rparr> then matchup + (if earlier then 0 else a_addtl_lp) else 0)
                + (if ''A'' = opponent_name 
        \<lparr>player_name = ''C'', opponent_name = ''A'', player_won = False, player_vp = 2, opponent_vp = 5, was_draw = False, match_date = 1704672000000000\<rparr> then matchup + (if earlier then 0 else b_addtl_lp) else 0)
          \<and> games_played (deref pm' ''A'') = games_played (deref before ''A'')
                + (if ''A'' = player_name 
        \<lparr>player_name = ''C'', opponent_name = ''A'', player_won = False, player_vp = 2, opponent_vp = 5, was_draw = False, match_date = 1704672000000000\<rparr> then 1 else 0) + (if ''A'' = opponent_name 
        \<lparr>player_name = ''C'', opponent_name = ''A'', player_won = False, player_vp = 2, opponent_vp = 5, was_draw = False, match_date = 1704672000000000\<rparr> then 1 else 0)
          \<and> total_vp (deref pm' ''A'') = total_vp (deref before ''A'')
                + (if ''A'' = player_name 
        \<lparr>player_name = ''C'', opponent_name = ''A'', player_won = False, player_vp = 2, opponent_vp = 5, was_draw = False, match_date = 1704672000000000\<rparr> then player_vp 
        \<lparr>player_name = ''C'', opponent_name = ''A'', player_won = False, player_vp = 2, opponent_vp = 5, was_draw = False, match_date = 1704672000000000\<rparr> else 0)
                + (if ''A'' = opponent_name 
        \<lparr>player_name = ''C'', opponent_name = ''A'', player_won = False, player_vp = 2, opponent_vp = 5, was_draw = False, match_date = 1704672000000000\<rparr> then opponent_vp 
        \<lparr>player_name = ''C'', opponent_name = ''A'', player_won = False, player_vp = 2, opponent_vp = 5, was_draw = False, match_date = 1704672000000000\<rparr> else 0)
          \<and> games_won (deref pm' ''A'') = games_won (deref before ''A'')
                + (if ''A'' = player_name 
        \<lparr>player_name = ''C'', opponent_name = ''A'', player_won = False, player_vp = 2, opponent_vp = 5, was_draw = False, match_date = 1704672000000000\<rparr> \<and> player_won 
        \<lparr>player_name = ''C'', opponent_name = ''A'', player_won = False, player_vp = 2, opponent_vp = 5, was_draw = False, match_date = 1704672000000000\<rparr> then 1 else 0)
                + (if ''A'' = opponent_name 
        \<lparr>player_name = ''C'', opponent_name = ''A'', player_won = False, player_vp = 2, opponent_vp = 5, was_draw = False, match_date = 1704672000000000\<rparr> \<and> \<not> player_won 
        \<lparr>player_name = ''C'', opponent_name = ''A'', player_won = False, player_vp = 2, opponent_vp = 5, was_draw = False, match_date = 1704672000000000\<rparr> \<and> \<not> was_draw 
        \<lparr>player_name = ''C'', opponent_name = ''A'', player_won = False, player_vp = 2, opponent_vp = 5, was_draw = False, match_date = 1704672000000000\<rparr> then 1 else 0)
          \<and> games_drawn (deref pm' ''A'') = games_drawn (deref before ''A'')
                + (if ''A'' = player_name 
        \<lparr>player_name = ''C'', opponent_name = ''A'', player_won = False, player_vp = 2, opponent_vp = 5, was_draw = False, match_date = 1704672000000000\<rparr> \<and> \<not> player_won 
        \<lparr>player_name = ''C'', opponent_name = ''A'', player_won = False, player_vp = 2, opponent_vp = 5, was_draw = False, match_date = 1704672000000000\<rparr> \<and> was_draw 
        \<lparr>player_name = ''C'', opponent_name = ''A'', player_won = False, player_vp = 2, opponent_vp = 5, was_draw = False, match_date = 1704672000000000\<rparr> then 1 else 0)
                + (if ''A'' = opponent_name 
        \<lparr>player_name = ''C'', opponent_name = ''A'', player_won = False, player_vp = 2, opponent_vp = 5, was_draw = False, match_date = 1704672000000000\<rparr> \<and> \<not> player_won 
        \<lparr>player_name = ''C'', opponent_name = ''A'', player_won = False, player_vp = 2, opponent_vp = 5, was_draw = False, match_date = 1704672000000000\<rparr> \<and> was_draw 
        \<lparr>player_name = ''C'', opponent_name = ''A'', player_won = False, player_vp = 2, opponent_vp = 5, was_draw = False, match_date = 1704672000000000\<rparr> then 1 else 0)
          \<and> match_periods (deref pm' ''A'') k
                = Some ((if earlier then the (match_periods (deref before ''A'') k) else 0)
                        + (if ''A'' = player_name 
        \<lparr>player_name = ''C'', opponent_name = ''A'', player_won = False, player_vp = 2, opponent_vp = 5, was_draw = False, match_date = 1704672000000000\<rparr> then 1 else 0)
                        + (if ''A'' = opponent_name 
        \<lparr>player_name = ''C'', opponent_name = ''A'', player_won = False, player_vp = 2, opponent_vp = 5, was_draw = False, match_date = 1704672000000000\<rparr> then 1 else 0))))
   \<and> (\<exists>pm'. standings_loop update_players_basic
        \<lparr>start_date = 1704067200000000, end_date = 1711929600000000, period = 7, games_per_period = 1\<rparr> []
        ([\<lparr>player_name = ''A'', opponent_name = ''B'', player_won = True, player_vp = 3, opponent_vp = 1, was_draw = False, match_date = 1704067200000000\<rparr>] @
         [\<lparr>player_name = ''B'', opponent_name = ''A'', player_won = False, player_vp = 2, opponent_vp = 5, was_draw = False, match_date = 1704153600000000\<rparr>]) = Inr pm'
      \<and> (\<exists>pm k before la lb matchup earlier a_addtl_lp b_addtl_lp.
            standings_loop update_players_basic 
        \<lparr>start_date = 1704067200000000, end_date = 1711929600000000, period = 7, games_per_period = 1\<rparr> [] 
        [\<lparr>player_name = ''A'', opponent_name = ''B'', player_won = True, player_vp = 3, opponent_vp = 1, was_draw = False, match_date = 1704067200000000\<rparr>] = Inr pm
          \<and> period_of_date (match_date 
        \<lparr>player_name = ''B'', opponent_name = ''A'', player_won = False, player_vp = 2, opponent_vp = 5, was_draw = False, match_date = 1704153600000000\<rparr>) 
        \<lparr>start_date = 1704067200000000, end_date = 1711929600000000, period = 7, games_per_period = 1\<rparr> = Inr k
          \<and> before = ensure_player (opponent_name 
        \<lparr>player_name = ''B'', opponent_name = ''A'', player_won = False, player_vp = 2, opponent_vp = 5, was_draw = False, match_date = 1704153600000000\<rparr>) (ensure_player (player_name 
        \<lparr>player_name = ''B'', opponent_name = ''A'', player_won = False, player_vp = 2, opponent_vp = 5, was_draw = False, match_date = 1704153600000000\<rparr>) pm)
          \<and> la = ladder_points (deref before (player_name 
        \<lparr>player_name = ''B'', opponent_name = ''A'', player_won = False, player_vp = 2, opponent_vp = 5, was_draw = False, match_date = 1704153600000000\<rparr>))
          \<and> lb = ladder_points (deref before (opponent_name 
        \<lparr>player_name = ''B'', opponent_name = ''A'', player_won = False, player_vp = 2, opponent_vp = 5, was_draw = False, match_date = 1704153600000000\<rparr>))
          \<and> matchup = (if opponent_name 
        \<lparr>player_name = ''B'', opponent_name = ''A'', player_won = False, player_vp = 2, opponent_vp = 5, was_draw = False, match_date = 1704153600000000\<rparr> \<notin> set (opponents_played (deref before (player_name 
        \<lparr>player_name = ''B'', opponent_name = ''A'', player_won = False, player_vp = 2, opponent_vp = 5, was_draw = False, match_date = 1704153600000000\<rparr>)))
                        then 1 else 0)
          \<and> earlier = (\<exists>e \<in> set 
        [\<lparr>player_name = ''A'', opponent_name = ''B'', player_won = True, player_vp = 3, opponent_vp = 1, was_draw = False, match_date = 1704067200000000\<rparr>]. (''A'' = player_name e \<or> ''A'' = opponent_name e)
                          \<and> period_of_date (match_date e) 
        \<lparr>start_date = 1704067200000000, end_date = 1711929600000000, period = 7, games_per_period = 1\<rparr> = Inr k)
          \<and> played_in (deref before ''A'') k = earlier
          \<and> Inr a_addtl_lp =
               (if player_won 
        \<lparr>player_name = ''B'', opponent_name = ''A'', player_won = False, player_vp = 2, opponent_vp = 5, was_draw = False, match_date = 1704153600000000\<rparr> then
                  (case (if lb > la then ceil_half (lb - la) else Inr 0) of
                     Inl e \<Rightarrow> Inl e | Inr bonus \<Rightarrow> Inr (bonus + 2))
                else Inr 1)
          \<and> Inr b_addtl_lp =
               (if player_won 
        \<lparr>player_name = ''B'', opponent_name = ''A'', player_won = False, player_vp = 2, opponent_vp = 5, was_draw = False, match_date = 1704153600000000\<rparr> \<or> was_draw 
        \<lparr>player_name = ''B'', opponent_name = ''A'', player_won = False, player_vp = 2, opponent_vp = 5, was_draw = False, match_date = 1704153600000000\<rparr> then Inr 1
                else (case (if la > lb then ceil_half (la - lb) else Inr 0) of
                        Inl e \<Rightarrow> Inl e | Inr bonus \<Rightarrow> Inr (bonus + 2)))
          \<and> (length 
        [\<lparr>player_name = ''A'', opponent_name = ''B'', player_won = True, player_vp = 3, opponent_vp = 1, was_draw = False, match_date = 1704067200000000\<rparr>] < 2 ^ 50 \<longrightarrow>
                a_addtl_lp = (if player_won 
        \<lparr>player_name = ''B'', opponent_name = ''A'', player_won = False, player_vp = 2, opponent_vp = 5, was_draw = False, match_date = 1704153600000000\<rparr>
                              then (if lb > la then (lb - la + 1) div 2 else 0) + 2 else 1)
              \<and> b_addtl_lp = (if player_won 
        \<lparr>player_name = ''B'', opponent_name = ''A'', player_won = False, player_vp = 2, opponent_vp = 5, was_draw = False, match_date = 1704153600000000\<rparr> \<or> was_draw 
        \<lparr>player_name = ''B'', opponent_name = ''A'', player_won = False, player_vp = 2, opponent_vp = 5, was_draw = False, match_date = 1704153600000000\<rparr> then 1
                              else (if la > lb then (la - lb + 1) div 2 else 0) + 2))
          \<and> ladder_points (deref pm' ''A'') = ladder_points (deref before ''A'')
                + (if ''A'' = player_name 
        \<lparr>player_name = ''B'', opponent_name = ''A'', player_won = False, player_vp = 2, opponent_vp = 5, was_draw = False, match_date = 1704153600000000\<rparr> then matchup + (if earlier then 0 else a_addtl_lp) else 0)
                + (if ''A'' = opponent_name 
        \<lparr>player_name = ''B'', opponent_name = ''A'', player_won = False, player_vp = 2, opponent_vp = 5, was_draw = False, match_date = 1704153600000000\<rparr> then matchup + (if earlier then 0 else b_addtl_lp) else 0)
          \<and> games_played (deref pm' ''A'') = games_played (deref before ''A'')
                + (if ''A'' = player_name 
        \<lparr>player_name = ''B'', opponent_name = ''A'', player_won = False, player_vp = 2, opponent_vp = 5, was_draw = False, match_date = 1704153600000000\<rparr> then 1 else 0) + (if ''A'' = opponent_name 
        \<lparr>player_name = ''B'', opponent_name = ''A'', player_won = False, player_vp = 2, opponent_vp = 5, was_draw = False, match_date = 1704153600000000\<rparr> then 1 else 0)
          \<and> total_vp (deref pm' ''A'') = total_vp (deref before ''A'')
                + (if ''A'' = player_name 
        \<lparr>player_name = ''B'', opponent_name = ''A'', player_won = False, player_vp = 2, opponent_vp = 5, was_draw = False, match_date = 1704153600000000\<rparr> then player_vp 
        \<lparr>player_name = ''B'', opponent_name = ''A'', player_won = False, player_vp = 2, opponent_vp = 5, was_draw = False, match_date = 1704153600000000\<rparr> else 0)
                + (if ''A'' = opponent_name 
        \<lparr>player_name = ''B'', opponent_name = ''A'', player_won = False, player_vp = 2, opponent_vp = 5, was_draw = False, match_date = 1704153600000000\<rparr> then opponent_vp 
        \<lparr>player_name = ''B'', opponent_name = ''A'', player_won = False, player_vp = 2, opponent_vp = 5, was_draw = False, match_date = 1704153600000000\<rparr> else 0)
          \<and> games_won (deref pm' ''A'') = games_won (deref before ''A'')
                + (if ''A'' = player_name 
        \<lparr>player_name = ''B'', opponent_name = ''A'', player_won = False, player_vp = 2, opponent_vp = 5, was_draw = False, match_date = 1704153600000000\<rparr> \<and> player_won 
        \<lparr>player_name = ''B'', opponent_name = ''A'', player_won = False, player_vp = 2, opponent_vp = 5, was_draw = False, match_date = 1704153600000000\<rparr> then 1 else 0)
                + (if ''A'' = opponent_name 
        \<lparr>player_name = ''B'', opponent_name = ''A'', player_won = False, player_vp = 2, opponent_vp = 5, was_draw = False, match_date = 1704153600000000\<rparr> \<and> \<not> player_won 
        \<lparr>player_name = ''B'', opponent_name = ''A'', player_won = False, player_vp = 2, opponent_vp = 5, was_draw = False, match_date = 1704153600000000\<rparr> \<and> \<not> was_draw 
        \<lparr>player_name = ''B'', opponent_name = ''A'', player_won = False, player_vp = 2, opponent_vp = 5, was_draw = False, match_date = 1704153600000000\<rparr> then 1 else 0)
          \<and> games_drawn (deref pm' ''A'') = games_drawn (deref before ''A'')
                + (if ''A'' = player_name 
        \<lparr>player_name = ''B'', opponent_name = ''A'', player_won = False, player_vp = 2, opponent_vp = 5, was_draw = False, match_date = 1704153600000000\<rparr> \<and> \<not> player_won 
        \<lparr>player_name = ''B'', opponent_name = ''A'', player_won = False, player_vp = 2, opponent_vp = 5, was_draw = False, match_date = 1704153600000000\<rparr> \<and> was_draw 
        \<lparr>player_name = ''B'', opponent_name = ''A'', player_won = False, player_vp = 2, opponent_vp = 5, was_draw = False, match_date = 1704153600000000\<rparr> then 1 else 0)
                + (if ''A'' = opponent_name 
        \<lparr>player_name = ''B'', opponent_name = ''A'', player_won = False, player_vp = 2, opponent_vp = 5, was_draw = False, match_date = 1704153600000000\<rparr> \<and> \<not> player_won 
        \<lparr>player_name = ''B'', opponent_name = ''A'', player_won = False, player_vp = 2, opponent_vp = 5, was_draw = False, match_date = 1704153600000000\<rparr> \<and> was_draw 
        \<lparr>player_name = ''B'', opponent_name = ''A'', player_won = False, player_vp = 2, opponent_vp = 5, was_draw = False, match_date = 1704153600000000\<rparr> then 1 else 0)
          \<and> match_periods (deref pm' ''A'') k
                = Some ((if earlier then the (match_periods (deref before ''A'') k) else 0)
                        + (if ''A'' = player_name 
        \<lparr>player_name = ''B'', opponent_name = ''A'', player_won = False, player_vp = 2, opponent_vp = 5, was_draw = False, match_date = 1704153600000000\<rparr> then 1 else 0)
                        + (if ''A'' = opponent_name 
        \<lparr>player_name = ''B'', opponent_name = ''A'', player_won = False, player_vp = 2, opponent_vp = 5, was_draw = False, match_date = 1704153600000000\<rparr> then 1 else 0))))"
proof -
  have w: "period \<lparr>start_date = 1704067200000000, end_date = 1711929600000000, period = 7, games_per_period = 1\<rparr> = WEEKLY"
    by (simp add: WEEKLY_def)
  have pa: "''A'' = player_name \<lparr>player_name = ''C'', opponent_name = ''A'', player_won = False, player_vp = 2, opponent_vp = 5, was_draw = False, match_date = 1704672000000000\<rparr>
      \<or> ''A'' = opponent_name \<lparr>player_name = ''C'', opponent_name = ''A'', player_won = False, player_vp = 2, opponent_vp = 5, was_draw = False, match_date = 1704672000000000\<rparr>"
    by simp
  have pb: "''A'' = player_name \<lparr>player_name = ''B'', opponent_name = ''A'', player_won = False, player_vp = 2, opponent_vp = 5, was_draw = False, match_date = 1704153600000000\<rparr>
      \<or> ''A'' = opponent_name \<lparr>player_name = ''B'', opponent_name = ''A'', player_won = False, player_vp = 2, opponent_vp = 5, was_draw = False, match_date = 1704153600000000\<rparr>"
    by simp
  have A: "(\<exists>pm'. standings_loop update_players_basic
        \<lparr>start_date = 1704067200000000, end_date = 1711929600000000, period = 7, games_per_period = 1\<rparr> []
        ([\<lparr>player_name = ''A'', opponent_name = ''B'', player_won = True, player_vp = 3, opponent_vp = 1, was_draw = False, match_date = 1704067200000000\<rparr>] @
         [\<lparr>player_name = ''C'', opponent_name = ''A'', player_won = False, player_vp = 2, opponent_vp = 5, was_draw = False, match_date = 1704672000000000\<rparr>]) = Inr pm'
      \<and> (\<exists>pm k before la lb matchup earlier a_addtl_lp b_addtl_lp.
            standings_loop update_players_basic 
        \<lparr>start_date = 1704067200000000, end_date = 1711929600000000, period = 7, games_per_period = 1\<rparr> [] 
        [\<lparr>player_name = ''A'', opponent_name = ''B'', player_won = True, player_vp = 3, opponent_vp = 1, was_draw = False, match_date = 1704067200000000\<rparr>] = Inr pm
          \<and> period_of_date (match_date 
        \<lparr>player_name = ''C'', opponent_name = ''A'', player_won = False, player_vp = 2, opponent_vp = 5, was_draw = False, match_date = 1704672000000000\<rparr>) 
        \<lparr>start_date = 1704067200000000, end_date = 1711929600000000, period = 7, games_per_period = 1\<rparr> = Inr k
          \<and> before = ensure_player (opponent_name 
        \<lparr>player_name = ''C'', opponent_name = ''A'', player_won = False, player_vp = 2, opponent_vp = 5, was_draw = False, match_date = 1704672000000000\<rparr>) (ensure_player (player_name 
        \<lparr>player_name = ''C'', opponent_name = ''A'', player_won = False, player_vp = 2, opponent_vp = 5, was_draw = False, match_date = 1704672000000000\<rparr>) pm)
          \<and> la = ladder_points (deref before (player_name 
        \<lparr>player_name = ''C'', opponent_name = ''A'', player_won = False, player_vp = 2, opponent_vp = 5, was_draw = False, match_date = 1704672000000000\<rparr>))
          \<and> lb = ladder_points (deref before (opponent_name 
        \<lparr>player_name = ''C'', opponent_name = ''A'', player_won = False, player_vp = 2, opponent_vp = 5, was_draw = False, match_date = 1704672000000000\<rparr>))
          \<and> matchup = (if opponent_name 
        \<lparr>player_name = ''C'', opponent_name = ''A'', player_won = False, player_vp = 2, opponent_vp = 5, was_draw = False, match_date = 1704672000000000\<rparr> \<notin> set (opponents_played (deref before (player_name 
        \<lparr>player_name = ''C'', opponent_name = ''A'', player_won = False, player_vp = 2, opponent_vp = 5, was_draw = False, match_date = 1704672000000000\<rparr>)))
                        then 1 else 0)
          \<and> earlier = (\<exists>e \<in> set 
        [\<lparr>player_name = ''A'', opponent_name = ''B'', player_won = True, player_vp = 3, opponent_vp = 1, was_draw = False, match_date = 1704067200000000\<rparr>]. (''A'' = player_name e \<or> ''A'' = opponent_name e)
                          \<and> period_of_date (match_date e) 
        \<lparr>start_date = 1704067200000000, end_date = 1711929600000000, period = 7, games_per_period = 1\<rparr> = Inr k)
          \<and> played_in (deref before ''A'') k = earlier
          \<and> Inr a_addtl_lp =
               (if player_won 
        \<lparr>player_name = ''C'', opponent_name = ''A'', player_won = False, player_vp = 2, opponent_vp = 5, was_draw = False, match_date = 1704672000000000\<rparr> then
                  (case (if lb > la then ceil_half (lb - la) else Inr 0) of
                     Inl e \<Rightarrow> Inl e | Inr bonus \<Rightarrow> Inr (bonus + 2))
                else Inr 1)
          \<and> Inr b_addtl_lp =
               (if player_won 
        \<lparr>player_name = ''C'', opponent_name = ''A'', player_won = False, player_vp = 2, opponent_vp = 5, was_draw = False, match_date = 1704672000000000\<rparr> \<or> was_draw 
        \<lparr>player_name = ''C'', opponent_name = ''A'', player_won = False, player_vp = 2, opponent_vp = 5, was_draw = False, match_date = 1704672000000000\<rparr> then Inr 1
                else (case (if la > lb then ceil_half (la - lb) else Inr 0) of
                        Inl e \<Rightarrow> Inl e | Inr bonus \<Rightarrow> Inr (bonus + 2)))
          \<and> (length 
        [\<lparr>player_name = ''A'', opponent_name = ''B'', player_won = True, player_vp = 3, opponent_vp = 1, was_draw = False, match_date = 1704067200000000\<rparr>] < 2 ^ 50 \<longrightarrow>
                a_addtl_lp = (if player_won 
        \<lparr>player_name = ''C'', opponent_name = ''A'', player_won = False, player_vp = 2, opponent_vp = 5, was_draw = False, match_date = 1704672000000000\<rparr>
                              then (if lb > la then (lb - la + 1) div 2 else 0) + 2 else 1)
              \<and> b_addtl_lp = (if player_won 
        \<lparr>player_name = ''C'', opponent_name = ''A'', player_won = False, player_vp = 2, opponent_vp = 5, was_draw = False, match_date = 1704672000000000\<rparr> \<or> was_draw 
        \<lparr>player_name = ''C'', opponent_name = ''A'', player_won = False, player_vp = 2, opponent_vp = 5, was_draw = False, match_date = 1704672000000000\<rparr> then 1
                              else (if la > lb then (la - lb + 1) div 2 else 0) + 2))
          \<and> ladder_points (deref pm' ''A'') = ladder_points (deref before ''A'')
                + (if ''A'' = player_name 
        \<lparr>player_name = ''C'', opponent_name = ''A'', player_won = False, player_vp = 2, opponent_vp = 5, was_draw = False, match_date = 1704672000000000\<rparr> then matchup + (if earlier then 0 else a_addtl_lp) else 0)
                + (if ''A'' = opponent_name 
        \<lparr>player_name = ''C'', opponent_name = ''A'', player_won = False, player_vp = 2, opponent_vp = 5, was_draw = False, match_date = 1704672000000000\<rparr> then matchup + (if earlier then 0 else b_addtl_lp) else 0)
          \<and> games_played (deref pm' ''A'') = games_played (deref before ''A'')
                + (if ''A'' = player_name 
        \<lparr>player_name = ''C'', opponent_name = ''A'', player_won = False, player_vp = 2, opponent_vp = 5, was_draw = False, match_date = 1704672000000000\<rparr> then 1 else 0) + (if ''A'' = opponent_name 
        \<lparr>player_name = ''C'', opponent_name = ''A'', player_won = False, player_vp = 2, opponent_vp = 5, was_draw = False, match_date = 1704672000000000\<rparr> then 1 else 0)
          \<and> total_vp (deref pm' ''A'') = total_vp (deref before ''A'')
                + (if ''A'' = player_name 
        \<lparr>player_name = ''C'', opponent_name = ''A'', player_won = False, player_vp = 2, opponent_vp = 5, was_draw = False, match_date = 1704672000000000\<rparr> then player_vp 
        \<lparr>player_name = ''C'', opponent_name = ''A'', player_won = False, player_vp = 2, opponent_vp = 5, was_draw = False, match_date = 1704672000000000\<rparr> else 0)
                + (if ''A'' = opponent_name 
        \<lparr>player_name = ''C'', opponent_name = ''A'', player_won = False, player_vp = 2, opponent_vp = 5, was_draw = False, match_date = 1704672000000000\<rparr> then opponent_vp 
        \<lparr>player_name = ''C'', opponent_name = ''A'', player_won = False, player_vp = 2, opponent_vp = 5, was_draw = False, match_date = 1704672000000000\<rparr> else 0)
          \<and> games_won (deref pm' ''A'') = games_won (deref before ''A'')
                + (if ''A'' = player_name 
        \<lparr>player_name = ''C'', opponent_name = ''A'', player_won = False, player_vp = 2, opponent_vp = 5, was_draw = False, match_date = 1704672000000000\<rparr> \<and> player_won 
        \<lparr>player_name = ''C'', opponent_name = ''A'', player_won = False, player_vp = 2, opponent_vp = 5, was_draw = False, match_date = 1704672000000000\<rparr> then 1 else 0)
                + (if ''A'' = opponent_name 
        \<lparr>player_name = ''C'', opponent_name = ''A'', player_won = False, player_vp = 2, opponent_vp = 5, was_draw = False, match_date = 1704672000000000\<rparr> \<and> \<not> player_won 
        \<lparr>player_name = ''C'', opponent_name = ''A'', player_won = False, player_vp = 2, opponent_vp = 5, was_draw = False, match_date = 1704672000000000\<rparr> \<and> \<not> was_draw 
        \<lparr>player_name = ''C'', opponent_name = ''A'', player_won = False, player_vp = 2, opponent_vp = 5, was_draw = False, match_date = 1704672000000000\<rparr> then 1 else 0)
          \<and> games_drawn (deref pm' ''A'') = games_drawn (deref before ''A'')
                + (if ''A'' = player_name 
        \<lparr>player_name = ''C'', opponent_name = ''A'', player_won = False, player_vp = 2, opponent_vp = 5, was_draw = False, match_date = 1704672000000000\<rparr> \<and> \<not> player_won 
        \<lparr>player_name = ''C'', opponent_name = ''A'', player_won = False, player_vp = 2, opponent_vp = 5, was_draw = False, match_date = 1704672000000000\<rparr> \<and> was_draw 
        \<lparr>player_name = ''C'', opponent_name = ''A'', player_won = False, player_vp = 2, opponent_vp = 5, was_draw = False, match_date = 1704672000000000\<rparr> then 1 else 0)
                + (if ''A'' = opponent_name 
        \<lparr>player_name = ''C'', opponent_name = ''A'', player_won = False, player_vp = 2, opponent_vp = 5, was_draw = False, match_date = 1704672000000000\<rparr> \<and> \<not> player_won 
        \<lparr>player_name = ''C'', opponent_name = ''A'', player_won = False, player_vp = 2, opponent_vp = 5, was_draw = False, match_date = 1704672000000000\<rparr> \<and> was_draw 
        \<lparr>player_name = ''C'', opponent_name = ''A'', player_won = False, player_vp = 2, opponent_vp = 5, was_draw = False, match_date = 1704672000000000\<rparr> then 1 else 0)
          \<and> match_periods (deref pm' ''A'') k
                = Some ((if earlier then the (match_periods (deref before ''A'') k) else 0)
                        + (if ''A'' = player_name 
        \<lparr>player_name = ''C'', opponent_name = ''A'', player_won = False, player_vp = 2, opponent_vp = 5, was_draw = False, match_date = 1704672000000000\<rparr> then 1 else 0)
                        + (if ''A'' = opponent_name 
        \<lparr>player_name = ''C'', opponent_name = ''A'', player_won = False, player_vp = 2, opponent_vp = 5, was_draw = False, match_date = 1704672000000000\<rparr> then 1 else 0))))"
  proof (cases "standings_loop update_players_basic
        \<lparr>start_date = 1704067200000000, end_date = 1711929600000000, period = 7, games_per_period = 1\<rparr> []
        ([\<lparr>player_name = ''A'', opponent_name = ''B'', player_won = True, player_vp = 3, opponent_vp = 1, was_draw = False, match_date = 1704067200000000\<rparr>] @
         [\<lparr>player_name = ''C'', opponent_name = ''A'', player_won = False, player_vp = 2, opponent_vp = 5, was_draw = False, match_date = 1704672000000000\<rparr>])")
    case (Inl e)
    from only_first_result_of_period_scores[where rs = "[\<lparr>player_name = ''A'', opponent_name = ''B'', player_won = True, player_vp = 3, opponent_vp = 1, was_draw = False, match_date = 1704067200000000\<rparr>]"
        and r = "\<lparr>player_name = ''C'', opponent_name = ''A'', player_won = False, player_vp = 2, opponent_vp = 5, was_draw = False, match_date = 1704672000000000\<rparr>"
        and p = "''A''"
        and config = "\<lparr>start_date = 1704067200000000, end_date = 1711929600000000, period = 7, games_per_period = 1\<rparr>", OF w pa, unfolded Inl sum.case]
    show ?thesis by simp
  next
    case (Inr pm')
    note q = only_first_result_of_period_scores[where rs = "[\<lparr>player_name = ''A'', opponent_name = ''B'', player_won = True, player_vp = 3, opponent_vp = 1, was_draw = False, match_date = 1704067200000000\<rparr>]"
        and r = "\<lparr>player_name = ''C'', opponent_name = ''A'', player_won = False, player_vp = 2, opponent_vp = 5, was_draw = False, match_date = 1704672000000000\<rparr>"
        and p = "''A''"
        and config = "\<lparr>start_date = 1704067200000000, end_date = 1711929600000000, period = 7, games_per_period = 1\<rparr>", OF w pa, unfolded Inr sum.case]
    show ?thesis by (rule exI[of _ pm'], rule conjI, rule Inr, rule q)
  qed
  have B: "(\<exists>pm'. standings_loop update_players_basic
        \<lparr>start_date = 1704067200000000, end_date = 1711929600000000, period = 7, games_per_period = 1\<rparr> []
        ([\<lparr>player_name = ''A'', opponent_name = ''B'', player_won = True, player_vp = 3, opponent_vp = 1, was_draw = False, match_date = 1704067200000000\<rparr>] @
         [\<lparr>player_name = ''B'', opponent_name = ''A'', player_won = False, player_vp = 2, opponent_vp = 5, was_draw = False, match_date = 1704153600000000\<rparr>]) = Inr pm'
      \<and> (\<exists>pm k before la lb matchup earlier a_addtl_lp b_addtl_lp.
            standings_loop update_players_basic 
        \<lparr>start_date = 1704067200000000, end_date = 1711929600000000, period = 7, games_per_period = 1\<rparr> [] 
        [\<lparr>player_name = ''A'', opponent_name = ''B'', player_won = True, player_vp = 3, opponent_vp = 1, was_draw = False, match_date = 1704067200000000\<rparr>] = Inr pm
          \<and> period_of_date (match_date 
        \<lparr>player_name = ''B'', opponent_name = ''A'', player_won = False, player_vp = 2, opponent_vp = 5, was_draw = False, match_date = 1704153600000000\<rparr>) 
        \<lparr>start_date = 1704067200000000, end_date = 1711929600000000, period = 7, games_per_period = 1\<rparr> = Inr k
          \<and> before = ensure_player (opponent_name 
        \<lparr>player_name = ''B'', opponent_name = ''A'', player_won = False, player_vp = 2, opponent_vp = 5, was_draw = False, match_date = 1704153600000000\<rparr>) (ensure_player (player_name 
        \<lparr>player_name = ''B'', opponent_name = ''A'', player_won = False, player_vp = 2, opponent_vp = 5, was_draw = False, match_date = 1704153600000000\<rparr>) pm)
          \<and> la = ladder_points (deref before (player_name 
        \<lparr>player_name = ''B'', opponent_name = ''A'', player_won = False, player_vp = 2, opponent_vp = 5, was_draw = False, match_date = 1704153600000000\<rparr>))
          \<and> lb = ladder_points (deref before (opponent_name 
        \<lparr>player_name = ''B'', opponent_name = ''A'', player_won = False, player_vp = 2, opponent_vp = 5, was_draw = False, match_date = 1704153600000000\<rparr>))
          \<and> matchup = (if opponent_name 
        \<lparr>player_name = ''B'', opponent_name = ''A'', player_won = False, player_vp = 2, opponent_vp = 5, was_draw = False, match_date = 1704153600000000\<rparr> \<notin> set (opponents_played (deref before (player_name 
        \<lparr>player_name = ''B'', opponent_name = ''A'', player_won = False, player_vp = 2, opponent_vp = 5, was_draw = False, match_date = 1704153600000000\<rparr>)))
                        then 1 else 0)
          \<and> earlier = (\<exists>e \<in> set 
        [\<lparr>player_name = ''A'', opponent_name = ''B'', player_won = True, player_vp = 3, opponent_vp = 1, was_draw = False, match_date = 1704067200000000\<rparr>]. (''A'' = player_name e \<or> ''A'' = opponent_name e)
                          \<and> period_of_date (match_date e) 
        \<lparr>start_date = 1704067200000000, end_date = 1711929600000000, period = 7, games_per_period = 1\<rparr> = Inr k)
          \<and> played_in (deref before ''A'') k = earlier
          \<and> Inr a_addtl_lp =
               (if player_won 
        \<lparr>player_name = ''B'', opponent_name = ''A'', player_won = False, player_vp = 2, opponent_vp = 5, was_draw = False, match_date = 1704153600000000\<rparr> then
                  (case (if lb > la then ceil_half (lb - la) else Inr 0) of
                     Inl e \<Rightarrow> Inl e | Inr bonus \<Rightarrow> Inr (bonus + 2))
                else Inr 1)
          \<and> Inr b_addtl_lp =
               (if player_won 
        \<lparr>player_name = ''B'', opponent_name = ''A'', player_won = False, player_vp = 2, opponent_vp = 5, was_draw = False, match_date = 1704153600000000\<rparr> \<or> was_draw 
        \<lparr>player_name = ''B'', opponent_name = ''A'', player_won = False, player_vp = 2, opponent_vp = 5, was_draw = False, match_date = 1704153600000000\<rparr> then Inr 1
                else (case (if la > lb then ceil_half (la - lb) else Inr 0) of
                        Inl e \<Rightarrow> Inl e | Inr bonus \<Rightarrow> Inr (bonus + 2)))
          \<and> (length 
        [\<lparr>player_name = ''A'', opponent_name = ''B'', player_won = True, player_vp = 3, opponent_vp = 1, was_draw = False, match_date = 1704067200000000\<rparr>] < 2 ^ 50 \<longrightarrow>
                a_addtl_lp = (if player_won 
        \<lparr>player_name = ''B'', opponent_name = ''A'', player_won = False, player_vp = 2, opponent_vp = 5, was_draw = False, match_date = 1704153600000000\<rparr>
                              then (if lb > la then (lb - la + 1) div 2 else 0) + 2 else 1)
              \<and> b_addtl_lp = (if player_won 
        \<lparr>player_name = ''B'', opponent_name = ''A'', player_won = False, player_vp = 2, opponent_vp = 5, was_draw = False, match_date = 1704153600000000\<rparr> \<or> was_draw 
        \<lparr>player_name = ''B'', opponent_name = ''A'', player_won = False, player_vp = 2, opponent_vp = 5, was_draw = False, match_date = 1704153600000000\<rparr> then 1
                              else (if la > lb then (la - lb + 1) div 2 else 0) + 2))
          \<and> ladder_points (deref pm' ''A'') = ladder_points (deref before ''A'')
                + (if ''A'' = player_name 
        \<lparr>player_name = ''B'', opponent_name = ''A'', player_won = False, player_vp = 2, opponent_vp = 5, was_draw = False, match_date = 1704153600000000\<rparr> then matchup + (if earlier then 0 else a_addtl_lp) else 0)
                + (if ''A'' = opponent_name 
        \<lparr>player_name = ''B'', opponent_name = ''A'', player_won = False, player_vp = 2, opponent_vp = 5, was_draw = False, match_date = 1704153600000000\<rparr> then matchup + (if earlier then 0 else b_addtl_lp) else 0)
          \<and> games_played (deref pm' ''A'') = games_played (deref before ''A'')
                + (if ''A'' = player_name 
        \<lparr>player_name = ''B'', opponent_name = ''A'', player_won = False, player_vp = 2, opponent_vp = 5, was_draw = False, match_date = 1704153600000000\<rparr> then 1 else 0) + (if ''A'' = opponent_name 
        \<lparr>player_name = ''B'', opponent_name = ''A'', player_won = False, player_vp = 2, opponent_vp = 5, was_draw = False, match_date = 1704153600000000\<rparr> then 1 else 0)
          \<and> total_vp (deref pm' ''A'') = total_vp (deref before ''A'')
                + (if ''A'' = player_name 
        \<lparr>player_name = ''B'', opponent_name = ''A'', player_won = False, player_vp = 2, opponent_vp = 5, was_draw = False, match_date = 1704153600000000\<rparr> then player_vp 
        \<lparr>player_name = ''B'', opponent_name = ''A'', player_won = False, player_vp = 2, opponent_vp = 5, was_draw = False, match_date = 1704153600000000\<rparr> else 0)
                + (if ''A'' = opponent_name 
        \<lparr>player_name = ''B'', opponent_name = ''A'', player_won = False, player_vp = 2, opponent_vp = 5, was_draw = False, match_date = 1704153600000000\<rparr> then opponent_vp 
        \<lparr>player_name = ''B'', opponent_name = ''A'', player_won = False, player_vp = 2, opponent_vp = 5, was_draw = False, match_date = 1704153600000000\<rparr> else 0)
          \<and> games_won (deref pm' ''A'') = games_won (deref before ''A'')
                + (if ''A'' = player_name 
        \<lparr>player_name = ''B'', opponent_name = ''A'', player_won = False, player_vp = 2, opponent_vp = 5, was_draw = False, match_date = 1704153600000000\<rparr> \<and> player_won 
        \<lparr>player_name = ''B'', opponent_name = ''A'', player_won = False, player_vp = 2, opponent_vp = 5, was_draw = False, match_date = 1704153600000000\<rparr> then 1 else 0)
                + (if ''A'' = opponent_name 
        \<lparr>player_name = ''B'', opponent_name = ''A'', player_won = False, player_vp = 2, opponent_vp = 5, was_draw = False, match_date = 1704153600000000\<rparr> \<and> \<not> player_won 
        \<lparr>player_name = ''B'', opponent_name = ''A'', player_won = False, player_vp = 2, opponent_vp = 5, was_draw = False, match_date = 1704153600000000\<rparr> \<and> \<not> was_draw 
        \<lparr>player_name = ''B'', opponent_name = ''A'', player_won = False, player_vp = 2, opponent_vp = 5, was_draw = False, match_date = 1704153600000000\<rparr> then 1 else 0)
          \<and> games_drawn (deref pm' ''A'') = games_drawn (deref before ''A'')
                + (if ''A'' = player_name 
        \<lparr>player_name = ''B'', opponent_name = ''A'', player_won = False, player_vp = 2, opponent_vp = 5, was_draw = False, match_date = 1704153600000000\<rparr> \<and> \<not> player_won 
        \<lparr>player_name = ''B'', opponent_name = ''A'', player_won = False, player_vp = 2, opponent_vp = 5, was_draw = False, match_date = 1704153600000000\<rparr> \<and> was_draw 
        \<lparr>player_name = ''B'', opponent_name = ''A'', player_won = False, player_vp = 2, opponent_vp = 5, was_draw = False, match_date = 1704153600000000\<rparr> then 1 else 0)
                + (if ''A'' = opponent_name 
        \<lparr>player_name = ''B'', opponent_name = ''A'', player_won = False, player_vp = 2, opponent_vp = 5, was_draw = False, match_date = 1704153600000000\<rparr> \<and> \<not> player_won 
        \<lparr>player_name = ''B'', opponent_name = ''A'', player_won = False, player_vp = 2, opponent_vp = 5, was_draw = False, match_date = 1704153600000000\<rparr> \<and> was_draw 
        \<lparr>player_name = ''B'', opponent_name = ''A'', player_won = False, player_vp = 2, opponent_vp = 5, was_draw = False, match_date = 1704153600000000\<rparr> then 1 else 0)
          \<and> match_periods (deref pm' ''A'') k
                = Some ((if earlier then the (match_periods (deref before ''A'') k) else 0)
                        + (if ''A'' = player_name 
        \<lparr>player_name = ''B'', opponent_name = ''A'', player_won = False, player_vp = 2, opponent_vp = 5, was_draw = False, match_date = 1704153600000000\<rparr> then 1 else 0)
                        + (if ''A'' = opponent_name 
        \<lparr>player_name = ''B'', opponent_name = ''A'', player_won = False, player_vp = 2, opponent_vp = 5, was_draw = False, match_date = 1704153600000000\<rparr> then 1 else 0))))"
  proof (cases "standings_loop update_players_basic
        \<lparr>start_date = 1704067200000000, end_date = 1711929600000000, period = 7, games_per_period = 1\<rparr> []
        ([\<lparr>player_name = ''A'', opponent_name = ''B'', player_won = True, player_vp = 3, opponent_vp = 1, was_draw = False, match_date = 1704067200000000\<rparr>] @
         [\<lparr>player_name = ''B'', opponent_name = ''A'', player_won = False, player_vp = 2, opponent_vp = 5, was_draw = False, match_date = 1704153600000000\<rparr>])")
    case (Inl e)
    from only_first_result_of_period_scores[where rs = "[\<lparr>player_name = ''A'', opponent_name = ''B'', player_won = True, player_vp = 3, opponent_vp = 1, was_draw = False, match_date = 1704067200000000\<rparr>]"
        and r = "\<lparr>player_name = ''B'', opponent_name = ''A'', player_won = False, player_vp = 2, opponent_vp = 5, was_draw = False, match_date = 1704153600000000\<rparr>"
        and p = "''A''"
        and config = "\<lparr>start_date = 1704067200000000, end_date = 1711929600000000, period = 7, games_per_period = 1\<rparr>", OF w pb, unfolded Inl sum.case]
    show ?thesis by simp
  next
    case (Inr pm')
    note q = only_first_result_of_period_scores[where rs = "[\<lparr>player_name = ''A'', opponent_name = ''B'', player_won = True, player_vp = 3, opponent_vp = 1, was_draw = False, match_date = 1704067200000000\<rparr>]"
        and r = "\<lparr>player_name = ''B'', opponent_name = ''A'', player_won = False, player_vp = 2, opponent_vp = 5, was_draw = False, match_date = 1704153600000000\<rparr>"
        and p = "''A''"
        and config = "\<lparr>start_date = 1704067200000000, end_date = 1711929600000000, period = 7, games_per_period = 1\<rparr>", OF w pb, unfolded Inr sum.case]
    show ?thesis by (rule exI[of _ pm'], rule conjI, rule Inr, rule q)
  qed
  have len: "length [\<lparr>player_name = ''A'', opponent_name = ''B'', player_won = True, player_vp = 3, opponent_vp = 1, was_draw = False, match_date = 1704067200000000\<rparr>] < 2 ^ 50"
    by simp
  show ?thesis
    by (rule conjI[OF len conjI[OF A B]])
qed

subsection \<open>The scenario of two games in the first week\<close>

lemmas eval_ladder =
  compute_standings_def ensure_player_def update_players_basic_def period_of_date_def
  WEEKLY_def timedelta_days_def INITIAL_POINTS_def LadderPlayer_init_def Let_def played_in_def
  mutate_def deref_def ceil_half_def

lemma scenario_first_game:
  "map_sum id (map (\<lambda>p. (name p, ladder_points p, games_played p)))
     (compute_standings
        [\<lparr>player_name = ''A'', opponent_name = ''B'', player_won = True, player_vp = 0,
          opponent_vp = 0, was_draw = False, match_date = 1704067200000000\<rparr>]
        \<lparr>start_date = 1704067200000000, end_date = 1711929600000000, period = WEEKLY,
          games_per_period = 1\<rparr>
        update_players_basic)
   = Inr [(''A'', 13, 1), (''B'', 12, 1)]"
  by (simp add: eval_ladder)

lemma scenario_second_game_same_day:
  "map_sum id (map (\<lambda>p. (name p, ladder_points p, games_played p)))
     (compute_standings
        [\<lparr>player_name = ''A'', opponent_name = ''B'', player_won = True, player_vp = 0,
          opponent_vp = 0, was_draw = False, match_date = 1704067200000000\<rparr>,
         \<lparr>player_name = ''A'', opponent_name = ''B'', player_won = True, player_vp = 0,
          opponent_vp = 0, was_draw = False, match_date = 1704070800000000\<rparr>]
        \<lparr>start_date = 1704067200000000, end_date = 1711929600000000, period = WEEKLY,
          games_per_period = 1\<rparr>
        update_players_basic)
   = Inr [(''A'', 13, 2), (''B'', 12, 2)]"
  by (simp add: eval_ladder)

text \<open>
  Claim C2. The league starts on 2024-01-01 UTC (instant 1704067200 s) and A beats B
  that day: A has 13 points and B has 12 (\<open>scenario_first_game\<close>). A second win of A
  one hour later leaves 13 and 12 with two games each (\<open>scenario_second_game_same_day\<close>).
  A second win of A on 2024-01-02, in the same week, is scored again, because the
  period index is the day offset modulo 7 and not the week: A has 15 and B has 13.
\<close>

theorem scenario_second_game_next_day:
  "map_sum id (map (\<lambda>p. (name p, ladder_points p, games_played p)))
     (compute_standings
        [\<lparr>player_name = ''A'', opponent_name = ''B'', player_won = True, player_vp = 0,
          opponent_vp = 0, was_draw = False, match_date = 1704067200000000\<rparr>,
         \<lparr>player_name = ''A'', opponent_name = ''B'', player_won = True, player_vp = 0,
          opponent_vp = 0, was_draw = False, match_date = 1704153600000000\<rparr>]
        \<lparr>start_date = 1704067200000000, end_date = 1711929600000000, period = WEEKLY,
          games_per_period = 1\<rparr>
        update_players_basic)
   = Inr [(''A'', 15, 2), (''B'', 13, 2)]"
  by (simp add: eval_ladder)

section \<open>Properties of the league manager\<close>

lemma read_results_frame:
  "message_records (snd (read_results m w)) = message_records w"
  "outbox (snd (read_results m w)) = outbox w"
  by (auto simp: read_results_def Let_def split: option.splits)

lemma manager_compute_standings_frame:
  "message_records (snd (manager_compute_standings m w)) = message_records w"
  "outbox (snd (manager_compute_standings m w)) = outbox w"
  using read_results_frame[of m w]
  by (auto simp: manager_compute_standings_def split: prod.splits sum.splits)

lemma private_post_standings_frame:
  assumes "private_post_standings client m w = (e, w')"
  shows "message_records w' = message_records w"
    and "outbox w' = outbox w \<or> (e = None \<and> (\<exists>msg. outbox w' = outbox w @ [msg]))"
  using assms manager_compute_standings_frame[of m w]
  by (auto simp: private_post_standings_def Let_def split: prod.splits sum.splits if_splits)

lemma post_standings_closed_gate:
  assumes "\<not> (start_date (mgr_config m) \<le> now \<and> now \<le> end_date (mgr_config m))"
  shows "post_standings client m now w = (None, w)"
  using assms by (auto simp: post_standings_def Let_def)

lemma post_standings_recorded:
  assumes "message_records w (sanitized_name (mgr_league_name m)) = Some weeks"
    and "isoweek now \<in> set weeks"
  shows "post_standings client m now w = (None, w)"
  using assms by (simp add: post_standings_def Let_def)

lemma post_standings_open:
  assumes "start_date (mgr_config m) \<le> now" "now \<le> end_date (mgr_config m)"
    and "posting_day m \<le> isoweekday now" "16 \<le> hour now"
    and "message_records w (sanitized_name (mgr_league_name m)) = Some weeks"
    and "isoweek now \<notin> set weeks"
  shows "post_standings client m now w =
     (case private_post_standings client m w of
        (Some e, w2) \<Rightarrow> (Some e, w2)
      | (None, w2) \<Rightarrow>
          (None, w2\<lparr>message_records := (message_records w2)
                      (sanitized_name (mgr_league_name m) := Some (weeks @ [isoweek now]))\<rparr>))"
  using assms by (simp add: post_standings_def Let_def)

lemma post_standings_open_new:
  assumes "start_date (mgr_config m) \<le> now" "now \<le> end_date (mgr_config m)"
    and "posting_day m \<le> isoweekday now" "16 \<le> hour now"
    and "message_records w (sanitized_name (mgr_league_name m)) = None"
  shows "post_standings client m now w =
     (case private_post_standings client m
             (w\<lparr>message_records := (message_records w)(sanitized_name (mgr_league_name m) := Some [])\<rparr>) of
        (Some e, w2) \<Rightarrow> (Some e, w2)
      | (None, w2) \<Rightarrow>
          (None, w2\<lparr>message_records := (message_records w2)
                      (sanitized_name (mgr_league_name m) := Some [isoweek now])\<rparr>))"
  using assms by (simp add: post_standings_def Let_def split: prod.splits option.splits)

lemma active_leagues_iff:
  "n \<in> set (active_leagues ms now) \<longleftrightarrow>
     (\<exists>m \<in> set ms. mgr_league_name m = n
         \<and> start_date (mgr_config m) \<le> now \<and> now \<le> end_date (mgr_config m))
   \<or> (\<not> (\<exists>m \<in> set ms. start_date (mgr_config m) \<le> now \<and> now \<le> end_date (mgr_config m))
        \<and> n = ''No active leagues available'')"
  by (auto simp: active_leagues_def Let_def filter_empty_conv)


lemmas eval_calendar =
  hour_def isoweekday_def isoweek_def isocalendar_def iso_thursday_def year_of_days_def
  days_of_jan1_def Let_def

lemmas eval_csv =
  read_results_def manager_compute_standings_def sanitized_name_def to_lower_def
  model_fields_def dict_reader_def model_validate_def field_of_def parse_int_def parse_bool_def
  digit_val_def as_LadderResult_def fromtimestamp_def



lemma calendar_eval:
  "isocalendar 1711904400000000 = (2024, 13, 7)" "isocalendar 1711908000000000 = (2024, 13, 7)"
  "hour 1711904400000000 = 17" "hour 1711908000000000 = 18"
proof -
  have t: "iso_thursday 1711904400000000 = 19810" "iso_thursday 1711908000000000 = 19810"
    by (simp_all add: iso_thursday_def)
  have y: "year_of_days 19810 = 2024" by code_simp
  have j: "days_of_jan1 2024 = 19723" by code_simp
  show "isocalendar 1711904400000000 = (2024, 13, 7)" "isocalendar 1711908000000000 = (2024, 13, 7)"
    by (simp_all add: isocalendar_def t y j isoweekday_def)
  show "hour 1711904400000000 = 17" "hour 1711908000000000 = 18"
    by (simp_all add: hour_def)
qed

lemma sanitized_name_Spring: "sanitized_name ''Spring'' = ''spring''"
  by (simp add: sanitized_name_def to_lower_def)

lemma example_post:
  assumes "1711904400000000 \<le> e"
  shows "post_standings \<lparr>get_channel = (\<lambda>c. if c = 7 then Some TextChannel else None), can_open = (\<lambda>p. True)\<rparr>
      \<lparr>mgr_config = \<lparr>start_date = 1704067200000000, end_date = e, period = 7,
        games_per_period = 1\<rparr>,
      mgr_channel_id = 7, mgr_league_name = ''Spring'', posting_day = 1\<rparr> 1711904400000000
      \<lparr>results_files = (\<lambda>f. None)(''spring'' := Some [model_fields,
          [''A'', ''B'', ''1704067200'', ''True'', ''False'', ''0'', ''0'', ''Spring'']]),
        message_records = (\<lambda>f. None),
        job_dir = [], finished_dir = [], jobs = [], outbox = []\<rparr>
    = (None, \<lparr>results_files = (\<lambda>f. None)(''spring'' := Some [model_fields,
          [''A'', ''B'', ''1704067200'', ''True'', ''False'', ''0'', ''0'', ''Spring'']]),
        message_records = (\<lambda>f. None)(''spring'' := Some [13]),
        job_dir = [], finished_dir = [], jobs = [], outbox = [(7, StandingsMessage ''Spring'' [(''A'', 13), (''B'', 12)])]\<rparr>)"
proof -
  have pps: "private_post_standings \<lparr>get_channel = (\<lambda>c. if c = 7 then Some TextChannel else None), can_open = (\<lambda>p. True)\<rparr>
      \<lparr>mgr_config = \<lparr>start_date = 1704067200000000, end_date = e, period = 7,
        games_per_period = 1\<rparr>,
      mgr_channel_id = 7, mgr_league_name = ''Spring'', posting_day = 1\<rparr>
      \<lparr>results_files = (\<lambda>f. None)(''spring'' := Some [model_fields,
          [''A'', ''B'', ''1704067200'', ''True'', ''False'', ''0'', ''0'', ''Spring'']]),
        message_records = (\<lambda>f. None)(''spring'' := Some []),
        job_dir = [], finished_dir = [], jobs = [], outbox = []\<rparr>
     = (None, \<lparr>results_files = (\<lambda>f. None)(''spring'' := Some [model_fields,
          [''A'', ''B'', ''1704067200'', ''True'', ''False'', ''0'', ''0'', ''Spring'']]),
        message_records = (\<lambda>f. None)(''spring'' := Some []),
        job_dir = [], finished_dir = [], jobs = [], outbox = [(7, StandingsMessage ''Spring'' [(''A'', 13), (''B'', 12)])]\<rparr>)"
    by (simp add: private_post_standings_def eval_csv eval_ladder)
  show ?thesis
    using assms
    by (subst post_standings_open_new)
       (simp_all add: sanitized_name_Spring pps isoweek_def calendar_eval isoweekday_def)
qed

text \<open>
  The window is not half-open. A league whose \<open>end_date\<close> is Sunday 2024-03-31, 17:00
  UTC, is offered in the submission form at that very instant, and a call of
  \<open>post_standings\<close> at that instant posts its standings.
\<close>

theorem league_active_at_end_date:
  "active_leagues [\<lparr>mgr_config = \<lparr>start_date = 1704067200000000, end_date = 1711904400000000, period = 7,
        games_per_period = 1\<rparr>,
      mgr_channel_id = 7, mgr_league_name = ''Spring'', posting_day = 1\<rparr>] 1711904400000000 = [''Spring'']
   \<and> outbox (snd (post_standings \<lparr>get_channel = (\<lambda>c. if c = 7 then Some TextChannel else None), can_open = (\<lambda>p. True)\<rparr>
      \<lparr>mgr_config = \<lparr>start_date = 1704067200000000, end_date = 1711904400000000, period = 7,
        games_per_period = 1\<rparr>,
      mgr_channel_id = 7, mgr_league_name = ''Spring'', posting_day = 1\<rparr> 1711904400000000
      \<lparr>results_files = (\<lambda>f. None)(''spring'' := Some [model_fields,
          [''A'', ''B'', ''1704067200'', ''True'', ''False'', ''0'', ''0'', ''Spring'']]),
        message_records = (\<lambda>f. None),
        job_dir = [], finished_dir = [], jobs = [], outbox = []\<rparr>))
     = [(7, StandingsMessage ''Spring'' [(''A'', 13), (''B'', 12)])]"
  by (simp add: active_leagues_def example_post)

lemma post_standings_frame:
  assumes "post_standings client m now w = (e, w')"
  shows "outbox w' = outbox w
     \<or> (e = None \<and> (\<exists>msg. outbox w' = outbox w @ [msg])
          \<and> (\<exists>weeks. message_records w' (sanitized_name (mgr_league_name m)) = Some weeks
                \<and> isoweek now \<in> set weeks))"
proof (cases "posting_day m \<le> isoweekday now \<and> 16 \<le> hour now
     \<and> now \<le> end_date (mgr_config m) \<and> start_date (mgr_config m) \<le> now")
  case False
  then have "post_standings client m now w = (None, w)"
    by (auto simp: post_standings_def Let_def)
  then show ?thesis using assms by simp
next
  case gates: True
  show ?thesis
  proof (cases "message_records w (sanitized_name (mgr_league_name m))")
    case None
    define w0 where "w0 = w\<lparr>message_records :=
        (message_records w)(sanitized_name (mgr_league_name m) := Some [])\<rparr>"
    obtain e2 w2 where p: "private_post_standings client m w0 = (e2, w2)"
      by (cases "private_post_standings client m w0") auto
    have ob: "outbox w2 = outbox w \<or> (e2 = None \<and> (\<exists>msg. outbox w2 = outbox w @ [msg]))"
      using private_post_standings_frame(2)[OF p] by (simp add: w0_def)
    have eq: "post_standings client m now w =
        (case e2 of Some e \<Rightarrow> (Some e, w2)
         | None \<Rightarrow> (None, w2\<lparr>message_records := (message_records w2)
                      (sanitized_name (mgr_league_name m) := Some [isoweek now])\<rparr>))"
      using gates None p
      by (simp add: post_standings_open_new w0_def[symmetric] split: option.splits)
    show ?thesis
    proof (cases e2)
      case None
      then show ?thesis using eq assms ob by auto
    next
      case (Some x)
      then show ?thesis using eq assms ob by auto
    qed
  next
    case (Some weeks)
    show ?thesis
    proof (cases "isoweek now \<in> set weeks")
      case True
      then show ?thesis using post_standings_recorded[OF Some True] assms by simp
    next
      case False
      obtain e2 w2 where p: "private_post_standings client m w = (e2, w2)"
        by (cases "private_post_standings client m w") auto
      have ob: "outbox w2 = outbox w \<or> (e2 = None \<and> (\<exists>msg. outbox w2 = outbox w @ [msg]))"
        using private_post_standings_frame(2)[OF p] by simp
      have eq: "post_standings client m now w =
        (case e2 of Some e \<Rightarrow> (Some e, w2)
         | None \<Rightarrow> (None, w2\<lparr>message_records := (message_records w2)
                      (sanitized_name (mgr_league_name m) := Some (weeks @ [isoweek now]))\<rparr>))"
        using gates Some False p
        by (simp add: post_standings_open split: option.splits)
      show ?thesis
      proof (cases e2)
        case None
        then show ?thesis using eq assms ob by auto
      next
        case (Some x)
        then show ?thesis using eq assms ob by auto
      qed
    qed
  qed
qed

text \<open>
  Claim C8. Take two instants of the same ISO calendar week (the same ISO year and week
  number) and any state of the league. A call of \<open>post_standings\<close> at the first instant
  sends at most one message; if it sent one, the week number is in the posted-week
  record afterwards, and a call at the second instant, in any state with that record,
  returns without sending or changing anything. So the two calls one after the other
  send at most one message.
\<close>

theorem no_second_post_in_same_iso_week:
  assumes year: "fst (isocalendar now1) = fst (isocalendar now2)"
    and week: "isoweek now1 = isoweek now2"
    and first: "post_standings client m now1 w = (e, w1)"
  shows "(outbox w1 = outbox w \<or> (\<exists>msg. outbox w1 = outbox w @ [msg]))
     \<and> (outbox w1 \<noteq> outbox w \<longrightarrow>
          (\<exists>weeks. message_records w1 (sanitized_name (mgr_league_name m)) = Some weeks
              \<and> isoweek now1 \<in> set weeks)
        \<and> (\<forall>w2. message_records w2 (sanitized_name (mgr_league_name m))
                    = message_records w1 (sanitized_name (mgr_league_name m))
                \<longrightarrow> post_standings client m now2 w2 = (None, w2)))
     \<and> length (outbox (snd (post_standings client m now2 w1))) \<le> length (outbox w) + 1"
proof -
  note f1 = post_standings_frame[OF first]
  have a: "outbox w1 = outbox w \<or> (\<exists>msg. outbox w1 = outbox w @ [msg])"
    using f1 by blast
  have b: "(\<exists>weeks. message_records w1 (sanitized_name (mgr_league_name m)) = Some weeks
              \<and> isoweek now1 \<in> set weeks)
        \<and> (\<forall>w2. message_records w2 (sanitized_name (mgr_league_name m))
                    = message_records w1 (sanitized_name (mgr_league_name m))
                \<longrightarrow> post_standings client m now2 w2 = (None, w2))"
    if sent: "outbox w1 \<noteq> outbox w"
  proof -
    obtain weeks where weeks:
      "message_records w1 (sanitized_name (mgr_league_name m)) = Some weeks"
      "isoweek now1 \<in> set weeks"
      using f1 sent by blast
    have "post_standings client m now2 w2 = (None, w2)"
      if "message_records w2 (sanitized_name (mgr_league_name m))
            = message_records w1 (sanitized_name (mgr_league_name m))" for w2
      using post_standings_recorded[of w2 m weeks now2 client] that weeks week by simp
    then show ?thesis using weeks by blast
  qed
  have c: "length (outbox (snd (post_standings client m now2 w1))) \<le> length (outbox w) + 1"
  proof (cases "outbox w1 = outbox w")
    case True
    obtain e2 w2 where second: "post_standings client m now2 w1 = (e2, w2)"
      by (cases "post_standings client m now2 w1") auto
    from post_standings_frame[OF second] have
      "outbox w2 = outbox w1 \<or> (\<exists>msg. outbox w2 = outbox w1 @ [msg])" by blast
    then show ?thesis using True second by auto
  next
    case False
    then have "post_standings client m now2 w1 = (None, w1)" using b by blast
    moreover have "\<exists>msg. outbox w1 = outbox w @ [msg]" using a False by blast
    ultimately show ?thesis by auto
  qed
  show ?thesis using a b c by blast
qed


lemma read_results_message_records:
  "read_results m (w\<lparr>message_records := r\<rparr>) =
     (fst (read_results m w), (snd (read_results m w))\<lparr>message_records := r\<rparr>)"
  by (simp add: read_results_def Let_def split: option.splits)

lemma compute_standings_Nil: "compute_standings [] c u = Inr []"
  by (simp add: compute_standings_def)

lemma private_post_standings_empty:
  assumes "fst (read_results m w) = Inr []"
  shows "private_post_standings client m w = (None, snd (read_results m w))"
  using assms
  by (cases "read_results m w")
     (simp add: private_post_standings_def manager_compute_standings_def compute_standings_Nil)

text \<open>
  Claim C9. When the date, weekday and hour gates pass, the week is not in the
  posted-week record (or the record file does not exist yet) and the result log has no
  results, \<open>post_standings\<close> sends no message and still appends the ISO week number to
  the record; any later call in a week of that number, whatever the result log then
  holds, finds the number in the record and posts nothing.
\<close>

theorem empty_log_records_week_without_post:
  assumes "start_date (mgr_config m) \<le> now" and "now \<le> end_date (mgr_config m)"
    and "posting_day m \<le> isoweekday now" and "16 \<le> hour now"
    and rec: "(message_records w (sanitized_name (mgr_league_name m)) = None \<and> weeks = [])
       \<or> (message_records w (sanitized_name (mgr_league_name m)) = Some weeks
            \<and> isoweek now \<notin> set weeks)"
    and empty: "fst (read_results m w) = Inr []"
  shows "\<exists>w'. post_standings client m now w = (None, w')
     \<and> outbox w' = outbox w
     \<and> message_records w' (sanitized_name (mgr_league_name m)) = Some (weeks @ [isoweek now])
     \<and> (\<forall>later w2. isoweek later = isoweek now
            \<and> message_records w2 (sanitized_name (mgr_league_name m))
                = message_records w' (sanitized_name (mgr_league_name m))
          \<longrightarrow> post_standings client m later w2 = (None, w2))"
proof -
  define key where "key = sanitized_name (mgr_league_name m)"
  define w' where "w' = (snd (read_results m w))\<lparr>message_records :=
      (message_records w)(key := Some (weeks @ [isoweek now]))\<rparr>"
  have run: "post_standings client m now w = (None, w')"
    using rec
  proof
    assume n: "message_records w (sanitized_name (mgr_league_name m)) = None \<and> weeks = []"
    have e0: "fst (read_results m (w\<lparr>message_records := (message_records w)(key := Some [])\<rparr>)) = Inr []"
      using empty by (simp add: read_results_message_records)
    show ?thesis
      using assms(1-4) n private_post_standings_empty[OF e0]
      by (simp add: post_standings_open_new key_def[symmetric] w'_def read_results_message_records)
  next
    assume s: "message_records w (sanitized_name (mgr_league_name m)) = Some weeks
            \<and> isoweek now \<notin> set weeks"
    show ?thesis
      using assms(1-4) s private_post_standings_empty[OF empty]
      by (simp add: post_standings_open[where weeks = weeks] key_def[symmetric] w'_def
            read_results_frame)
  qed
  have ob: "outbox w' = outbox w"
    by (simp add: w'_def read_results_frame)
  have mr: "message_records w' key = Some (weeks @ [isoweek now])"
    by (simp add: w'_def)
  have later: "post_standings client m later w2 = (None, w2)"
    if "isoweek later = isoweek now" "message_records w2 key = message_records w' key"
    for later w2
    using post_standings_recorded[of w2 m "weeks @ [isoweek now]" later client] that mr
    by (simp add: key_def)
  show ?thesis
    using run ob mr later unfolding key_def by blast
qed

text \<open>
  Claim C7, amended. The league window is the closed interval from \<open>start_date\<close> to
  \<open>end_date\<close>: a league is offered in the submission form exactly at the instants with
  \<open>start_date \<le> now \<le> end_date\<close> (the placeholder is offered when no league is active);
  outside the interval \<open>post_standings\<close> does nothing, and inside it, once the weekday
  and hour gates pass and the week is not recorded, the standings post is attempted.
\<close>

theorem league_window_is_closed:
  "(n \<in> set (active_leagues ms now) \<longleftrightarrow>
       (\<exists>l \<in> set ms. mgr_league_name l = n
           \<and> start_date (mgr_config l) \<le> now \<and> now \<le> end_date (mgr_config l))
     \<or> (\<not> (\<exists>l \<in> set ms. start_date (mgr_config l) \<le> now \<and> now \<le> end_date (mgr_config l))
          \<and> n = ''No active leagues available''))
   \<and> (\<not> (start_date (mgr_config m) \<le> now \<and> now \<le> end_date (mgr_config m))
        \<longrightarrow> post_standings client m now w = (None, w))
   \<and> (start_date (mgr_config m) \<le> now \<and> now \<le> end_date (mgr_config m)
        \<and> posting_day m \<le> isoweekday now \<and> 16 \<le> hour now
        \<and> message_records w (sanitized_name (mgr_league_name m)) = Some weeks
        \<and> isoweek now \<notin> set weeks
        \<longrightarrow> post_standings client m now w =
             (case private_post_standings client m w of
                (Some e, w2) \<Rightarrow> (Some e, w2)
              | (None, w2) \<Rightarrow>
                  (None, w2\<lparr>message_records := (message_records w2)
                      (sanitized_name (mgr_league_name m) := Some (weeks @ [isoweek now]))\<rparr>)))"
  using active_leagues_iff[of n ms now] post_standings_closed_gate[of m now client w]
    post_standings_open[of m now w weeks client]
  by (intro conjI impI) blast+


theorem league_window_is_closed_witness:
  "''Spring'' \<in> set (active_leagues [\<lparr>mgr_config = \<lparr>start_date = 1704067200000000, end_date = 1711904400000000, period = 7,
        games_per_period = 1\<rparr>,
      mgr_channel_id = 7, mgr_league_name = ''Spring'', posting_day = 1\<rparr>] 1711904400000000)
   \<and> post_standings \<lparr>get_channel = (\<lambda>c. if c = 7 then Some TextChannel else None), can_open = (\<lambda>p. True)\<rparr>
      \<lparr>mgr_config = \<lparr>start_date = 1704067200000000, end_date = 1711904400000000, period = 7,
        games_per_period = 1\<rparr>,
      mgr_channel_id = 7, mgr_league_name = ''Spring'', posting_day = 1\<rparr> (1711904400000000 + 1)
      \<lparr>results_files = (\<lambda>f. None)(''spring'' := Some [model_fields,
          [''A'', ''B'', ''1704067200'', ''True'', ''False'', ''0'', ''0'', ''Spring'']]),
        message_records = (\<lambda>f. None)(''spring'' := Some []),
        job_dir = [], finished_dir = [], jobs = [], outbox = []\<rparr>
     = (None, \<lparr>results_files = (\<lambda>f. None)(''spring'' := Some [model_fields,
          [''A'', ''B'', ''1704067200'', ''True'', ''False'', ''0'', ''0'', ''Spring'']]),
        message_records = (\<lambda>f. None)(''spring'' := Some []),
        job_dir = [], finished_dir = [], jobs = [], outbox = []\<rparr>)
   \<and> post_standings \<lparr>get_channel = (\<lambda>c. if c = 7 then Some TextChannel else None), can_open = (\<lambda>p. True)\<rparr>
      \<lparr>mgr_config = \<lparr>start_date = 1704067200000000, end_date = 1711904400000000, period = 7,
        games_per_period = 1\<rparr>,
      mgr_channel_id = 7, mgr_league_name = ''Spring'', posting_day = 1\<rparr> 1711904400000000
      \<lparr>results_files = (\<lambda>f. None)(''spring'' := Some [model_fields,
          [''A'', ''B'', ''1704067200'', ''True'', ''False'', ''0'', ''0'', ''Spring'']]),
        message_records = (\<lambda>f. None)(''spring'' := Some []),
        job_dir = [], finished_dir = [], jobs = [], outbox = []\<rparr>
     = (case private_post_standings \<lparr>get_channel = (\<lambda>c. if c = 7 then Some TextChannel else None), can_open = (\<lambda>p. True)\<rparr>
          \<lparr>mgr_config = \<lparr>start_date = 1704067200000000, end_date = 1711904400000000, period = 7,
        games_per_period = 1\<rparr>,
      mgr_channel_id = 7, mgr_league_name = ''Spring'', posting_day = 1\<rparr>
          \<lparr>results_files = (\<lambda>f. None)(''spring'' := Some [model_fields,
          [''A'', ''B'', ''1704067200'', ''True'', ''False'', ''0'', ''0'', ''Spring'']]),
        message_records = (\<lambda>f. None)(''spring'' := Some []),
        job_dir = [], finished_dir = [], jobs = [], outbox = []\<rparr> of
                (Some e, w2) \<Rightarrow> (Some e, w2)
              | (None, w2) \<Rightarrow>
                  (None, w2\<lparr>message_records := (message_records w2)
                      (sanitized_name (mgr_league_name \<lparr>mgr_config = \<lparr>start_date = 1704067200000000, end_date = 1711904400000000, period = 7,
        games_per_period = 1\<rparr>,
      mgr_channel_id = 7, mgr_league_name = ''Spring'', posting_day = 1\<rparr>)
                        := Some ([] @ [isoweek 1711904400000000]))\<rparr>))"
proof -
  note t1 = league_window_is_closed[where n = "''Spring''" and now = "1711904400000000"
      and ms = "[\<lparr>mgr_config = \<lparr>start_date = 1704067200000000, end_date = 1711904400000000, period = 7,
        games_per_period = 1\<rparr>,
      mgr_channel_id = 7, mgr_league_name = ''Spring'', posting_day = 1\<rparr>]"
      and m = "\<lparr>mgr_config = \<lparr>start_date = 1704067200000000, end_date = 1711904400000000, period = 7,
        games_per_period = 1\<rparr>,
      mgr_channel_id = 7, mgr_league_name = ''Spring'', posting_day = 1\<rparr>"
      and client = "\<lparr>get_channel = (\<lambda>c. if c = 7 then Some TextChannel else None), can_open = (\<lambda>p. True)\<rparr>"
      and w = "\<lparr>results_files = (\<lambda>f. None)(''spring'' := Some [model_fields,
          [''A'', ''B'', ''1704067200'', ''True'', ''False'', ''0'', ''0'', ''Spring'']]),
        message_records = (\<lambda>f. None)(''spring'' := Some []),
        job_dir = [], finished_dir = [], jobs = [], outbox = []\<rparr>"
      and weeks = "[]"]
  note t2 = league_window_is_closed[where n = "''Spring''" and now = "1711904400000000 + 1"
      and ms = "[\<lparr>mgr_config = \<lparr>start_date = 1704067200000000, end_date = 1711904400000000, period = 7,
        games_per_period = 1\<rparr>,
      mgr_channel_id = 7, mgr_league_name = ''Spring'', posting_day = 1\<rparr>]"
      and m = "\<lparr>mgr_config = \<lparr>start_date = 1704067200000000, end_date = 1711904400000000, period = 7,
        games_per_period = 1\<rparr>,
      mgr_channel_id = 7, mgr_league_name = ''Spring'', posting_day = 1\<rparr>"
      and client = "\<lparr>get_channel = (\<lambda>c. if c = 7 then Some TextChannel else None), can_open = (\<lambda>p. True)\<rparr>"
      and w = "\<lparr>results_files = (\<lambda>f. None)(''spring'' := Some [model_fields,
          [''A'', ''B'', ''1704067200'', ''True'', ''False'', ''0'', ''0'', ''Spring'']]),
        message_records = (\<lambda>f. None)(''spring'' := Some []),
        job_dir = [], finished_dir = [], jobs = [], outbox = []\<rparr>"
      and weeks = "[]"]
  have a: "''Spring'' \<in> set (active_leagues [\<lparr>mgr_config = \<lparr>start_date = 1704067200000000, end_date = 1711904400000000, period = 7,
        games_per_period = 1\<rparr>,
      mgr_channel_id = 7, mgr_league_name = ''Spring'', posting_day = 1\<rparr>] 1711904400000000)"
    using t1[THEN conjunct1] by simp
  have b: "post_standings \<lparr>get_channel = (\<lambda>c. if c = 7 then Some TextChannel else None), can_open = (\<lambda>p. True)\<rparr>
      \<lparr>mgr_config = \<lparr>start_date = 1704067200000000, end_date = 1711904400000000, period = 7,
        games_per_period = 1\<rparr>,
      mgr_channel_id = 7, mgr_league_name = ''Spring'', posting_day = 1\<rparr> (1711904400000000 + 1)
      \<lparr>results_files = (\<lambda>f. None)(''spring'' := Some [model_fields,
          [''A'', ''B'', ''1704067200'', ''True'', ''False'', ''0'', ''0'', ''Spring'']]),
        message_records = (\<lambda>f. None)(''spring'' := Some []),
        job_dir = [], finished_dir = [], jobs = [], outbox = []\<rparr>
     = (None, \<lparr>results_files = (\<lambda>f. None)(''spring'' := Some [model_fields,
          [''A'', ''B'', ''1704067200'', ''True'', ''False'', ''0'', ''0'', ''Spring'']]),
        message_records = (\<lambda>f. None)(''spring'' := Some []),
        job_dir = [], finished_dir = [], jobs = [], outbox = []\<rparr>)"
    using t2[THEN conjunct2, THEN conjunct1] by simp
  have c: "post_standings \<lparr>get_channel = (\<lambda>c. if c = 7 then Some TextChannel else None), can_open = (\<lambda>p. True)\<rparr>
      \<lparr>mgr_config = \<lparr>start_date = 1704067200000000, end_date = 1711904400000000, period = 7,
        games_per_period = 1\<rparr>,
      mgr_channel_id = 7, mgr_league_name = ''Spring'', posting_day = 1\<rparr> 1711904400000000
      \<lparr>results_files = (\<lambda>f. None)(''spring'' := Some [model_fields,
          [''A'', ''B'', ''1704067200'', ''True'', ''False'', ''0'', ''0'', ''Spring'']]),
        message_records = (\<lambda>f. None)(''spring'' := Some []),
        job_dir = [], finished_dir = [], jobs = [], outbox = []\<rparr>
     = (case private_post_standings \<lparr>get_channel = (\<lambda>c. if c = 7 then Some TextChannel else None), can_open = (\<lambda>p. True)\<rparr>
          \<lparr>mgr_config = \<lparr>start_date = 1704067200000000, end_date = 1711904400000000, period = 7,
        games_per_period = 1\<rparr>,
      mgr_channel_id = 7, mgr_league_name = ''Spring'', posting_day = 1\<rparr>
          \<lparr>results_files = (\<lambda>f. None)(''spring'' := Some [model_fields,
          [''A'', ''B'', ''1704067200'', ''True'', ''False'', ''0'', ''0'', ''Spring'']]),
        message_records = (\<lambda>f. None)(''spring'' := Some []),
        job_dir = [], finished_dir = [], jobs = [], outbox = []\<rparr> of
                (Some e, w2) \<Rightarrow> (Some e, w2)
              | (None, w2) \<Rightarrow>
                  (None, w2\<lparr>message_records := (message_records w2)
                      (sanitized_name (mgr_league_name \<lparr>mgr_config = \<lparr>start_date = 1704067200000000, end_date = 1711904400000000, period = 7,
        games_per_period = 1\<rparr>,
      mgr_channel_id = 7, mgr_league_name = ''Spring'', posting_day = 1\<rparr>)
                        := Some ([] @ [isoweek 1711904400000000]))\<rparr>))"
    by (rule t1[THEN conjunct2, THEN conjunct2, THEN mp])
       (simp add: sanitized_name_Spring isoweek_def calendar_eval isoweekday_def)
  show ?thesis using a b c by (intro conjI)
qed

theorem no_second_post_in_same_iso_week_witness:
  "(\<exists>weeks. message_records
        \<lparr>results_files = (\<lambda>f. None)(''spring'' := Some [model_fields,
          [''A'', ''B'', ''1704067200'', ''True'', ''False'', ''0'', ''0'', ''Spring'']]),
        message_records = (\<lambda>f. None)(''spring'' := Some [13]),
        job_dir = [], finished_dir = [], jobs = [], outbox = [(7, StandingsMessage ''Spring'' [(''A'', 13), (''B'', 12)])]\<rparr> ''spring'' = Some weeks \<and> isoweek 1711904400000000 \<in> set weeks)
   \<and> post_standings \<lparr>get_channel = (\<lambda>c. if c = 7 then Some TextChannel else None), can_open = (\<lambda>p. True)\<rparr>
      \<lparr>mgr_config = \<lparr>start_date = 1704067200000000, end_date = 1711929600000000, period = 7,
        games_per_period = 1\<rparr>,
      mgr_channel_id = 7, mgr_league_name = ''Spring'', posting_day = 1\<rparr> 1711908000000000
      \<lparr>results_files = (\<lambda>f. None)(''spring'' := Some [model_fields,
          [''A'', ''B'', ''1704067200'', ''True'', ''False'', ''0'', ''0'', ''Spring'']]),
        message_records = (\<lambda>f. None)(''spring'' := Some [13]),
        job_dir = [], finished_dir = [], jobs = [], outbox = [(7, StandingsMessage ''Spring'' [(''A'', 13), (''B'', 12)])]\<rparr>
     = (None, \<lparr>results_files = (\<lambda>f. None)(''spring'' := Some [model_fields,
          [''A'', ''B'', ''1704067200'', ''True'', ''False'', ''0'', ''0'', ''Spring'']]),
        message_records = (\<lambda>f. None)(''spring'' := Some [13]),
        job_dir = [], finished_dir = [], jobs = [], outbox = [(7, StandingsMessage ''Spring'' [(''A'', 13), (''B'', 12)])]\<rparr>)
   \<and> length (outbox (snd (post_standings \<lparr>get_channel = (\<lambda>c. if c = 7 then Some TextChannel else None), can_open = (\<lambda>p. True)\<rparr>
      \<lparr>mgr_config = \<lparr>start_date = 1704067200000000, end_date = 1711929600000000, period = 7,
        games_per_period = 1\<rparr>,
      mgr_channel_id = 7, mgr_league_name = ''Spring'', posting_day = 1\<rparr> 1711908000000000
      \<lparr>results_files = (\<lambda>f. None)(''spring'' := Some [model_fields,
          [''A'', ''B'', ''1704067200'', ''True'', ''False'', ''0'', ''0'', ''Spring'']]),
        message_records = (\<lambda>f. None)(''spring'' := Some [13]),
        job_dir = [], finished_dir = [], jobs = [], outbox = [(7, StandingsMessage ''Spring'' [(''A'', 13), (''B'', 12)])]\<rparr>)))
     \<le> length (outbox \<lparr>results_files = (\<lambda>f. None)(''spring'' := Some [model_fields,
          [''A'', ''B'', ''1704067200'', ''True'', ''False'', ''0'', ''0'', ''Spring'']]),
        message_records = (\<lambda>f. None),
        job_dir = [], finished_dir = [], jobs = [], outbox = []\<rparr>) + 1"
proof -
  have y: "fst (isocalendar 1711904400000000) = fst (isocalendar 1711908000000000)"
    by (simp add: calendar_eval)
  have wk: "isoweek 1711904400000000 = isoweek 1711908000000000"
    by (simp add: isoweek_def calendar_eval)
  have first: "post_standings \<lparr>get_channel = (\<lambda>c. if c = 7 then Some TextChannel else None), can_open = (\<lambda>p. True)\<rparr>
      \<lparr>mgr_config = \<lparr>start_date = 1704067200000000, end_date = 1711929600000000, period = 7,
        games_per_period = 1\<rparr>,
      mgr_channel_id = 7, mgr_league_name = ''Spring'', posting_day = 1\<rparr> 1711904400000000
      \<lparr>results_files = (\<lambda>f. None)(''spring'' := Some [model_fields,
          [''A'', ''B'', ''1704067200'', ''True'', ''False'', ''0'', ''0'', ''Spring'']]),
        message_records = (\<lambda>f. None),
        job_dir = [], finished_dir = [], jobs = [], outbox = []\<rparr>
    = (None, \<lparr>results_files = (\<lambda>f. None)(''spring'' := Some [model_fields,
          [''A'', ''B'', ''1704067200'', ''True'', ''False'', ''0'', ''0'', ''Spring'']]),
        message_records = (\<lambda>f. None)(''spring'' := Some [13]),
        job_dir = [], finished_dir = [], jobs = [], outbox = [(7, StandingsMessage ''Spring'' [(''A'', 13), (''B'', 12)])]\<rparr>)"
    by (rule example_post) simp
  note t = no_second_post_in_same_iso_week[OF y wk first]
  have sent: "outbox \<lparr>results_files = (\<lambda>f. None)(''spring'' := Some [model_fields,
          [''A'', ''B'', ''1704067200'', ''True'', ''False'', ''0'', ''0'', ''Spring'']]),
        message_records = (\<lambda>f. None)(''spring'' := Some [13]),
        job_dir = [], finished_dir = [], jobs = [], outbox = [(7, StandingsMessage ''Spring'' [(''A'', 13), (''B'', 12)])]\<rparr>
      \<noteq> outbox \<lparr>results_files = (\<lambda>f. None)(''spring'' := Some [model_fields,
          [''A'', ''B'', ''1704067200'', ''True'', ''False'', ''0'', ''0'', ''Spring'']]),
        message_records = (\<lambda>f. None),
        job_dir = [], finished_dir = [], jobs = [], outbox = []\<rparr>"
    by simp
  note b = t[THEN conjunct2, THEN conjunct1, rule_format, OF sent]
  have b1: "\<exists>weeks. message_records
        \<lparr>results_files = (\<lambda>f. None)(''spring'' := Some [model_fields,
          [''A'', ''B'', ''1704067200'', ''True'', ''False'', ''0'', ''0'', ''Spring'']]),
        message_records = (\<lambda>f. None)(''spring'' := Some [13]),
        job_dir = [], finished_dir = [], jobs = [], outbox = [(7, StandingsMessage ''Spring'' [(''A'', 13), (''B'', 12)])]\<rparr> ''spring'' = Some weeks \<and> isoweek 1711904400000000 \<in> set weeks"
    using b[THEN conjunct1] by (simp add: sanitized_name_Spring)
  have b2: "post_standings \<lparr>get_channel = (\<lambda>c. if c = 7 then Some TextChannel else None), can_open = (\<lambda>p. True)\<rparr>
      \<lparr>mgr_config = \<lparr>start_date = 1704067200000000, end_date = 1711929600000000, period = 7,
        games_per_period = 1\<rparr>,
      mgr_channel_id = 7, mgr_league_name = ''Spring'', posting_day = 1\<rparr> 1711908000000000
      \<lparr>results_files = (\<lambda>f. None)(''spring'' := Some [model_fields,
          [''A'', ''B'', ''1704067200'', ''True'', ''False'', ''0'', ''0'', ''Spring'']]),
        message_records = (\<lambda>f. None)(''spring'' := Some [13]),
        job_dir = [], finished_dir = [], jobs = [], outbox = [(7, StandingsMessage ''Spring'' [(''A'', 13), (''B'', 12)])]\<rparr>
     = (None, \<lparr>results_files = (\<lambda>f. None)(''spring'' := Some [model_fields,
          [''A'', ''B'', ''1704067200'', ''True'', ''False'', ''0'', ''0'', ''Spring'']]),
        message_records = (\<lambda>f. None)(''spring'' := Some [13]),
        job_dir = [], finished_dir = [], jobs = [], outbox = [(7, StandingsMessage ''Spring'' [(''A'', 13), (''B'', 12)])]\<rparr>)"
    by (rule b[THEN conjunct2, rule_format]) simp
  show ?thesis using b1 b2 t[THEN conjunct2, THEN conjunct2] by (intro conjI)
qed

theorem empty_log_records_week_without_post_witness:
  "\<exists>w'. post_standings \<lparr>get_channel = (\<lambda>c. if c = 7 then Some TextChannel else None), can_open = (\<lambda>p. True)\<rparr>
      \<lparr>mgr_config = \<lparr>start_date = 1704067200000000, end_date = 1711929600000000, period = 7,
        games_per_period = 1\<rparr>,
      mgr_channel_id = 7, mgr_league_name = ''Spring'', posting_day = 1\<rparr> 1711904400000000
      \<lparr>results_files = (\<lambda>f. None),
        message_records = (\<lambda>f. None),
        job_dir = [], finished_dir = [], jobs = [], outbox = []\<rparr> = (None, w')
     \<and> outbox w' = outbox \<lparr>results_files = (\<lambda>f. None),
        message_records = (\<lambda>f. None),
        job_dir = [], finished_dir = [], jobs = [], outbox = []\<rparr>
     \<and> message_records w' (sanitized_name (mgr_league_name \<lparr>mgr_config = \<lparr>start_date = 1704067200000000, end_date = 1711929600000000, period = 7,
        games_per_period = 1\<rparr>,
      mgr_channel_id = 7, mgr_league_name = ''Spring'', posting_day = 1\<rparr>))
         = Some ([] @ [isoweek 1711904400000000])
     \<and> (\<forall>later w2. isoweek later = isoweek 1711904400000000
            \<and> message_records w2 (sanitized_name (mgr_league_name \<lparr>mgr_config = \<lparr>start_date = 1704067200000000, end_date = 1711929600000000, period = 7,
        games_per_period = 1\<rparr>,
      mgr_channel_id = 7, mgr_league_name = ''Spring'', posting_day = 1\<rparr>))
                = message_records w' (sanitized_name (mgr_league_name \<lparr>mgr_config = \<lparr>start_date = 1704067200000000, end_date = 1711929600000000, period = 7,
        games_per_period = 1\<rparr>,
      mgr_channel_id = 7, mgr_league_name = ''Spring'', posting_day = 1\<rparr>))
          \<longrightarrow> post_standings \<lparr>get_channel = (\<lambda>c. if c = 7 then Some TextChannel else None), can_open = (\<lambda>p. True)\<rparr>
      \<lparr>mgr_config = \<lparr>start_date = 1704067200000000, end_date = 1711929600000000, period = 7,
        games_per_period = 1\<rparr>,
      mgr_channel_id = 7, mgr_league_name = ''Spring'', posting_day = 1\<rparr> later w2 = (None, w2))"
proof (rule empty_log_records_week_without_post)
  show "start_date (mgr_config \<lparr>mgr_config = \<lparr>start_date = 1704067200000000, end_date = 1711929600000000, period = 7,
        games_per_period = 1\<rparr>,
      mgr_channel_id = 7, mgr_league_name = ''Spring'', posting_day = 1\<rparr>) \<le> 1711904400000000"
    by simp
  show "1711904400000000 \<le> end_date (mgr_config \<lparr>mgr_config = \<lparr>start_date = 1704067200000000, end_date = 1711929600000000, period = 7,
        games_per_period = 1\<rparr>,
      mgr_channel_id = 7, mgr_league_name = ''Spring'', posting_day = 1\<rparr>)"
    by simp
  show "posting_day \<lparr>mgr_config = \<lparr>start_date = 1704067200000000, end_date = 1711929600000000, period = 7,
        games_per_period = 1\<rparr>,
      mgr_channel_id = 7, mgr_league_name = ''Spring'', posting_day = 1\<rparr> \<le> isoweekday 1711904400000000"
    by (simp add: isoweekday_def)
  show "16 \<le> hour 1711904400000000"
    by (simp add: calendar_eval)
  show "(message_records \<lparr>results_files = (\<lambda>f. None),
        message_records = (\<lambda>f. None),
        job_dir = [], finished_dir = [], jobs = [], outbox = []\<rparr>
        (sanitized_name (mgr_league_name \<lparr>mgr_config = \<lparr>start_date = 1704067200000000, end_date = 1711929600000000, period = 7,
        games_per_period = 1\<rparr>,
      mgr_channel_id = 7, mgr_league_name = ''Spring'', posting_day = 1\<rparr>)) = None \<and> [] = [])
       \<or> (message_records \<lparr>results_files = (\<lambda>f. None),
        message_records = (\<lambda>f. None),
        job_dir = [], finished_dir = [], jobs = [], outbox = []\<rparr>
        (sanitized_name (mgr_league_name \<lparr>mgr_config = \<lparr>start_date = 1704067200000000, end_date = 1711929600000000, period = 7,
        games_per_period = 1\<rparr>,
      mgr_channel_id = 7, mgr_league_name = ''Spring'', posting_day = 1\<rparr>)) = Some []
            \<and> isoweek 1711904400000000 \<notin> set [])"
    by simp
  show "fst (read_results \<lparr>mgr_config = \<lparr>start_date = 1704067200000000, end_date = 1711929600000000, period = 7,
        games_per_period = 1\<rparr>,
      mgr_channel_id = 7, mgr_league_name = ''Spring'', posting_day = 1\<rparr>
      \<lparr>results_files = (\<lambda>f. None),
        message_records = (\<lambda>f. None),
        job_dir = [], finished_dir = [], jobs = [], outbox = []\<rparr>) = Inr []"
    by (simp add: eval_csv)
qed

section \<open>Properties of the message jobs and of the worker loop\<close>

lemma run_job_no_channel:
  "get_channel client (channel_id job) = None \<Longrightarrow> run_job client job w = (None, w)"
  by (simp add: run_job_def)

lemma run_job_frame:
  assumes "run_job client job w = (e, w')"
  shows "jobs w' = jobs w" "job_dir w' = job_dir w" "finished_dir w' = finished_dir w"
    "results_files w' = results_files w" "message_records w' = message_records w"
    "e \<noteq> None \<Longrightarrow> w' = w"
  using assms by (auto simp: run_job_def split: option.splits if_splits)

lemma mark_done_frame:
  "outbox (mark_done job w) = outbox w"
  "results_files (mark_done job w) = results_files w"
  "message_records (mark_done job w) = message_records w"
  by (simp_all add: mark_done_def Let_def split: option.splits)

lemma mark_done_jobs: "jobs (mark_done job w) = AList.delete (job_id job) (jobs w)"
  by (simp add: mark_done_def Let_def split: option.splits)

lemma mark_done_job_dir: "job_dir (mark_done job w) = AList.delete (job_id job) (job_dir w)"
  by (simp add: mark_done_def Let_def delete_idem split: option.splits)
     (simp add: delete_id map_of_eq_None_iff)

lemma mark_done_finished:
  "map_of (job_dir w) (job_id job) = Some f \<Longrightarrow>
     map_of (finished_dir (mark_done job w)) (job_id job) = Some f"
  by (simp add: mark_done_def Let_def update_conv')

lemma set_delete_subset: "set (AList.delete k al) \<subseteq> set al"
  by (auto simp: AList.delete_eq)

lemma run_due_shrinks:
  "run_due client due w = (e, w') \<Longrightarrow> set (jobs w') \<subseteq> set (jobs w) \<and> set (job_dir w') \<subseteq> set (job_dir w)"
proof (induction due arbitrary: w)
  case Nil
  then show ?case by simp
next
  case (Cons job due)
  obtain e1 w1 where r: "run_job client job w = (e1, w1)"
    by (cases "run_job client job w") auto
  show ?case
  proof (cases e1)
    case (Some x)
    then show ?thesis using Cons.prems r run_job_frame(1,2)[OF r] by simp
  next
    case None
    then have "run_due client due (mark_done job w1) = (e, w')"
      using Cons.prems r by simp
    from Cons.IH[OF this] show ?thesis
      using run_job_frame(1,2)[OF r] set_delete_subset[of "job_id job"]
      by (simp add: mark_done_jobs mark_done_job_dir) blast
  qed
qed

lemma load_jobs_keys:
  "fst ` set (fold (\<lambda>(stem, job) js. AList.update (job_id job) job js) dir acc)
     = fst ` set acc \<union> job_id ` snd ` set dir"
  by (induction dir arbitrary: acc) (auto simp: dom_update split: prod.splits)


lemma run_due_frame:
  "run_due client due w = (e, w') \<Longrightarrow>
     results_files w' = results_files w \<and> message_records w' = message_records w"
proof (induction due arbitrary: w)
  case Nil
  then show ?case by simp
next
  case (Cons job due)
  obtain e1 w1 where r: "run_job client job w = (e1, w1)"
    by (cases "run_job client job w") auto
  show ?case
  proof (cases e1)
    case (Some x)
    then show ?thesis using Cons.prems r run_job_frame(4,5)[OF r] by simp
  next
    case None
    then have "run_due client due (mark_done job w1) = (e, w')"
      using Cons.prems r by simp
    from Cons.IH[OF this] show ?thesis
      using run_job_frame(4,5)[OF r] by (simp add: mark_done_frame)
  qed
qed

lemma run_due_append:
  "run_due client (xs @ ys) w =
     (case run_due client xs w of (Some e, w1) \<Rightarrow> (Some e, w1) | (None, w1) \<Rightarrow> run_due client ys w1)"
  by (induction xs arbitrary: w) (auto split: prod.splits option.splits)

lemma post_all_append:
  "post_all client (xs @ ys) now w =
     (case post_all client xs now w of
        (Some e, w1) \<Rightarrow> (Some e, w1) | (None, w1) \<Rightarrow> post_all client ys now w1)"
  by (induction xs arbitrary: w) (auto split: prod.splits option.splits)

text \<open>
  A job whose channel lookup finds nothing is run without an error and without a
  message, and the loop of \<open>run_jobs\<close> goes on to mark it done, which drops it from the
  in-memory map. When the map is keyed by job id, as \<open>load_jobs\<close> builds it, and every
  pending file is named after the id of its job, which is where \<open>mark_done\<close> looks for
  it, the file is moved to the finished directory, the job is not due on any later
  tick and a restart does not load it again.
\<close>

lemma job_in_file_named_after_it_is_archived:
  assumes none: "get_channel client (channel_id job) = None"
    and ids: "\<forall>(k, j) \<in> set (jobs w). job_id j = k"
    and stems: "\<forall>(s, j) \<in> set (job_dir w). job_id j = s"
  shows "run_job client job w = (None, w)
     \<and> run_due client (job # due) w = run_due client due (mark_done job w)
     \<and> outbox (mark_done job w) = outbox w
     \<and> map_of (jobs (mark_done job w)) (job_id job) = None
     \<and> map_of (job_dir (mark_done job w)) (job_id job) = None
     \<and> (\<forall>f. map_of (job_dir w) (job_id job) = Some f \<longrightarrow>
            map_of (finished_dir (mark_done job w)) (job_id job) = Some f)
     \<and> (\<forall>e w'. run_due client due (mark_done job w) = (e, w') \<longrightarrow>
            set (jobs w') \<subseteq> set (jobs (mark_done job w))
          \<and> set (job_dir w') \<subseteq> set (job_dir (mark_done job w)))
     \<and> (\<forall>w'. set (jobs w') \<subseteq> set (jobs (mark_done job w))
            \<and> set (job_dir w') \<subseteq> set (job_dir (mark_done job w)) \<longrightarrow>
            (\<forall>later. \<forall>j \<in> set (filter (\<lambda>j. timestamp j \<le> later) (map snd (jobs w'))).
                 job_id j \<noteq> job_id job)
          \<and> map_of (jobs (load_jobs w')) (job_id job) = None)"
proof (intro conjI)
  show r: "run_job client job w = (None, w)"
    by (rule run_job_no_channel[OF none])
  show "run_due client (job # due) w = run_due client due (mark_done job w)"
    by (simp add: r)
  show "outbox (mark_done job w) = outbox w"
    by (rule mark_done_frame)
  show "map_of (jobs (mark_done job w)) (job_id job) = None"
    by (simp add: mark_done_jobs delete_conv)
  show "map_of (job_dir (mark_done job w)) (job_id job) = None"
    by (simp add: mark_done_job_dir delete_conv)
  show "\<forall>f. map_of (job_dir w) (job_id job) = Some f \<longrightarrow>
            map_of (finished_dir (mark_done job w)) (job_id job) = Some f"
    using mark_done_finished by blast
  show "\<forall>e w'. run_due client due (mark_done job w) = (e, w') \<longrightarrow>
            set (jobs w') \<subseteq> set (jobs (mark_done job w))
          \<and> set (job_dir w') \<subseteq> set (job_dir (mark_done job w))"
    using run_due_shrinks by blast
  have later: "job_id j \<noteq> job_id job"
    if sub: "set (jobs w') \<subseteq> set (jobs (mark_done job w))"
      and j: "j \<in> set (filter (\<lambda>j. timestamp j \<le> later) (map snd (jobs w')))"
    for w' :: world and later j
  proof -
    from j obtain k where "(k, j) \<in> set (jobs w')" by auto
    then have "(k, j) \<in> set (AList.delete (job_id job) (jobs w))"
      using sub by (auto simp: mark_done_jobs)
    then have "k \<noteq> job_id job" "(k, j) \<in> set (jobs w)"
      by (auto simp: AList.delete_eq)
    then show ?thesis using ids by auto
  qed
  have restart: "map_of (jobs (load_jobs w')) (job_id job) = None"
    if sub: "set (job_dir w') \<subseteq> set (job_dir (mark_done job w))" for w' :: world
  proof -
    have "job_id job \<notin> job_id ` snd ` set (job_dir w')"
    proof
      assume "job_id job \<in> job_id ` snd ` set (job_dir w')"
      then obtain s j where sj: "(s, j) \<in> set (job_dir w')" "job_id j = job_id job" by force
      then have "(s, j) \<in> set (AList.delete (job_id job) (job_dir w))"
        using sub by (auto simp: mark_done_job_dir)
      then have "s \<noteq> job_id job" "(s, j) \<in> set (job_dir w)"
        by (auto simp: AList.delete_eq)
      then show False using stems sj(2) by auto
    qed
    then have "job_id job \<notin> fst ` set (jobs (load_jobs w'))"
      by (simp add: load_jobs_def load_jobs_keys)
    then show ?thesis
      by (simp add: map_of_eq_None_iff)
  qed
  show "\<forall>w'. set (jobs w') \<subseteq> set (jobs (mark_done job w))
            \<and> set (job_dir w') \<subseteq> set (job_dir (mark_done job w)) \<longrightarrow>
            (\<forall>later. \<forall>j \<in> set (filter (\<lambda>j. timestamp j \<le> later) (map snd (jobs w'))).
                 job_id j \<noteq> job_id job)
          \<and> map_of (jobs (load_jobs w')) (job_id job) = None"
    using later restart by blast
qed

text \<open>
  Claim C10. \<open>load_jobs\<close> reads every \<^verbatim>\<open>*.json\<close> file of the job directory and takes the
  id of a job from the content of its file, whatever the file is called, while
  \<open>mark_done\<close> moves the file \<^verbatim>\<open><id>.json\<close>. The file \<^verbatim>\<open>x.json\<close> holds the job \<open>j2\<close>, due
  and for a channel (5) that the lookup does not find. After the start the job is in
  the map. The tick runs it: nothing is sent, no error is raised and the job leaves the
  map, but its file is still in the job directory and the finished directory is empty.
  The next start loads the job again, and it is due again.
\<close>

theorem unsent_job_of_renamed_file_is_loaded_again:
  "load_jobs
      \<lparr>results_files = (\<lambda>f. None), message_records = (\<lambda>f. None),
        job_dir = [(''x'', \<lparr>job_id = ''j2'', timestamp = 1711900000000000, channel_id = 5, content = ''hello'', files = []\<rparr>)],
        finished_dir = [], jobs = [], outbox = []\<rparr>
    = \<lparr>results_files = (\<lambda>f. None), message_records = (\<lambda>f. None),
        job_dir = [(''x'', \<lparr>job_id = ''j2'', timestamp = 1711900000000000, channel_id = 5, content = ''hello'', files = []\<rparr>)],
        finished_dir = [], jobs = [(''j2'', \<lparr>job_id = ''j2'', timestamp = 1711900000000000, channel_id = 5, content = ''hello'', files = []\<rparr>)], outbox = []\<rparr>
   \<and> run_jobs \<lparr>get_channel = (\<lambda>c. if c = 7 then Some TextChannel else if c = 9 then Some OtherChannel else None), can_open = (\<lambda>p. True)\<rparr>
        1711904400000000
        \<lparr>results_files = (\<lambda>f. None), message_records = (\<lambda>f. None),
        job_dir = [(''x'', \<lparr>job_id = ''j2'', timestamp = 1711900000000000, channel_id = 5, content = ''hello'', files = []\<rparr>)],
        finished_dir = [], jobs = [(''j2'', \<lparr>job_id = ''j2'', timestamp = 1711900000000000, channel_id = 5, content = ''hello'', files = []\<rparr>)], outbox = []\<rparr>
    = (None, \<lparr>results_files = (\<lambda>f. None), message_records = (\<lambda>f. None),
        job_dir = [(''x'', \<lparr>job_id = ''j2'', timestamp = 1711900000000000, channel_id = 5, content = ''hello'', files = []\<rparr>)],
        finished_dir = [], jobs = [], outbox = []\<rparr>)
   \<and> filter (\<lambda>job. timestamp job \<le> 1711904460000000)
        (map snd (jobs (load_jobs
          \<lparr>results_files = (\<lambda>f. None), message_records = (\<lambda>f. None),
        job_dir = [(''x'', \<lparr>job_id = ''j2'', timestamp = 1711900000000000, channel_id = 5, content = ''hello'', files = []\<rparr>)],
        finished_dir = [], jobs = [], outbox = []\<rparr>)))
    = [\<lparr>job_id = ''j2'', timestamp = 1711900000000000, channel_id = 5, content = ''hello'', files = []\<rparr>]"
  by (simp add: load_jobs_def run_jobs_def run_job_def mark_done_def)

text \<open>
  Claim C6, amended. A failure is not isolated within a tick. An exception in
  \<open>run_job\<close> changes nothing and ends the loop over the due jobs: the jobs before it
  have been dispatched and marked done, the failing job and the due jobs after it are
  neither sent nor marked done. It also ends the tick: no league's standings check
  runs, so result logs and posted-week records are as they were. An exception while
  posting one league's standings ends the tick before the leagues after it are checked.
\<close>

theorem failure_ends_the_tick:
  "(run_job client job w = (Some e, wa) \<longrightarrow>
        wa = w \<and> run_due client (job # due) w = (Some e, w))
   \<and> (run_due client before w = (None, wa) \<and> run_job client job wa = (Some e, wb) \<longrightarrow>
        run_due client (before @ job # due) w = (Some e, wa))
   \<and> (run_jobs client now w = (Some e, wa) \<longrightarrow>
        job_runner client leagues now w = (Some e, wa)
        \<and> results_files wa = results_files w \<and> message_records wa = message_records w)
   \<and> (run_jobs client now w = (None, wa) \<and> post_all client earlier now wa = (None, wb)
        \<and> post_standings client league now wb = (Some e, wc) \<longrightarrow>
        job_runner client (earlier @ league # rest) now w = (Some e, wc))"
proof (intro conjI)
  show "run_job client job w = (Some e, wa) \<longrightarrow>
        wa = w \<and> run_due client (job # due) w = (Some e, w)"
    using run_job_frame(6)[of client job w "Some e" wa] by auto
  show "run_due client before w = (None, wa) \<and> run_job client job wa = (Some e, wb) \<longrightarrow>
        run_due client (before @ job # due) w = (Some e, wa)"
    using run_job_frame(6)[of client job wa "Some e" wb] by (auto simp: run_due_append)
  show "run_jobs client now w = (Some e, wa) \<longrightarrow>
        job_runner client leagues now w = (Some e, wa)
        \<and> results_files wa = results_files w \<and> message_records wa = message_records w"
    using run_due_frame[of client _ w "Some e" wa]
    by (auto simp: job_runner_def run_jobs_def Let_def)
  show "run_jobs client now w = (None, wa) \<and> post_all client earlier now wa = (None, wb)
        \<and> post_standings client league now wb = (Some e, wc) \<longrightarrow>
        job_runner client (earlier @ league # rest) now w = (Some e, wc)"
    by (auto simp: job_runner_def post_all_append)
qed


lemma example_post_after_job:
  "post_standings \<lparr>get_channel = (\<lambda>c. if c = 7 then Some TextChannel else if c = 9 then Some OtherChannel else None),
        can_open = (\<lambda>p. True)\<rparr>
      \<lparr>mgr_config = \<lparr>start_date = 1704067200000000, end_date = 1711929600000000, period = 7,
        games_per_period = 1\<rparr>,
      mgr_channel_id = 7, mgr_league_name = ''Spring'', posting_day = 1\<rparr> 1711904400000000
      \<lparr>results_files = (\<lambda>f. None)(''spring'' := Some [model_fields,
          [''A'', ''B'', ''1704067200'', ''True'', ''False'', ''0'', ''0'', ''Spring'']]),
        message_records = (\<lambda>f. None),
        job_dir = [(''j1'', \<lparr>job_id = ''j1'', timestamp = 1711900000000000, channel_id = 9,
          content = ''hello'', files = []\<rparr>)],
        finished_dir = [(''j2'', \<lparr>job_id = ''j2'', timestamp = 1711900000000000, channel_id = 7,
          content = ''hello'', files = []\<rparr>)],
        jobs = [],
        outbox = [(7, JobMessage ''hello'' [])]\<rparr>
    = (None, \<lparr>results_files = (\<lambda>f. None)(''spring'' := Some [model_fields,
          [''A'', ''B'', ''1704067200'', ''True'', ''False'', ''0'', ''0'', ''Spring'']]),
        message_records = (\<lambda>f. None)(''spring'' := Some [13]),
        job_dir = [(''j1'', \<lparr>job_id = ''j1'', timestamp = 1711900000000000, channel_id = 9,
          content = ''hello'', files = []\<rparr>)],
        finished_dir = [(''j2'', \<lparr>job_id = ''j2'', timestamp = 1711900000000000, channel_id = 7,
          content = ''hello'', files = []\<rparr>)],
        jobs = [],
        outbox = [(7, JobMessage ''hello'' []),
          (7, StandingsMessage ''Spring'' [(''A'', 13), (''B'', 12)])]\<rparr>)"
proof -
  have pps: "private_post_standings \<lparr>get_channel = (\<lambda>c. if c = 7 then Some TextChannel else if c = 9 then Some OtherChannel else None),
        can_open = (\<lambda>p. True)\<rparr>
      \<lparr>mgr_config = \<lparr>start_date = 1704067200000000, end_date = 1711929600000000, period = 7,
        games_per_period = 1\<rparr>,
      mgr_channel_id = 7, mgr_league_name = ''Spring'', posting_day = 1\<rparr>
      \<lparr>results_files = (\<lambda>f. None)(''spring'' := Some [model_fields,
          [''A'', ''B'', ''1704067200'', ''True'', ''False'', ''0'', ''0'', ''Spring'']]),
        message_records = (\<lambda>f. None)(''spring'' := Some []),
        job_dir = [(''j1'', \<lparr>job_id = ''j1'', timestamp = 1711900000000000, channel_id = 9,
          content = ''hello'', files = []\<rparr>)],
        finished_dir = [(''j2'', \<lparr>job_id = ''j2'', timestamp = 1711900000000000, channel_id = 7,
          content = ''hello'', files = []\<rparr>)],
        jobs = [],
        outbox = [(7, JobMessage ''hello'' [])]\<rparr>
     = (None, \<lparr>results_files = (\<lambda>f. None)(''spring'' := Some [model_fields,
          [''A'', ''B'', ''1704067200'', ''True'', ''False'', ''0'', ''0'', ''Spring'']]),
        message_records = (\<lambda>f. None)(''spring'' := Some []),
        job_dir = [(''j1'', \<lparr>job_id = ''j1'', timestamp = 1711900000000000, channel_id = 9,
          content = ''hello'', files = []\<rparr>)],
        finished_dir = [(''j2'', \<lparr>job_id = ''j2'', timestamp = 1711900000000000, channel_id = 7,
          content = ''hello'', files = []\<rparr>)],
        jobs = [],
        outbox = [(7, JobMessage ''hello'' []),
          (7, StandingsMessage ''Spring'' [(''A'', 13), (''B'', 12)])]\<rparr>)"
    by (simp add: private_post_standings_def eval_csv eval_ladder)
  show ?thesis
    by (subst post_standings_open_new)
       (simp_all add: sanitized_name_Spring pps isoweek_def calendar_eval isoweekday_def)
qed

lemma example_post_invalid_channel:
  "post_standings \<lparr>get_channel = (\<lambda>c. if c = 7 then Some TextChannel else if c = 9 then Some OtherChannel else None),
        can_open = (\<lambda>p. True)\<rparr>
      \<lparr>mgr_config = \<lparr>start_date = 1704067200000000, end_date = 1711929600000000, period = 7,
        games_per_period = 1\<rparr>,
      mgr_channel_id = 9, mgr_league_name = ''Spring'', posting_day = 1\<rparr> 1711904400000000
      \<lparr>results_files = (\<lambda>f. None)(''spring'' := Some [model_fields,
          [''A'', ''B'', ''1704067200'', ''True'', ''False'', ''0'', ''0'', ''Spring'']]),
        message_records = (\<lambda>f. None),
        job_dir = [],
        finished_dir = [],
        jobs = [],
        outbox = []\<rparr>
    = (Some (InvalidChannel ''LadderManager requested invalid channel''), \<lparr>results_files = (\<lambda>f. None)(''spring'' := Some [model_fields,
          [''A'', ''B'', ''1704067200'', ''True'', ''False'', ''0'', ''0'', ''Spring'']]),
        message_records = (\<lambda>f. None)(''spring'' := Some []),
        job_dir = [],
        finished_dir = [],
        jobs = [],
        outbox = []\<rparr>)"
proof -
  have pps: "private_post_standings \<lparr>get_channel = (\<lambda>c. if c = 7 then Some TextChannel else if c = 9 then Some OtherChannel else None),
        can_open = (\<lambda>p. True)\<rparr>
      \<lparr>mgr_config = \<lparr>start_date = 1704067200000000, end_date = 1711929600000000, period = 7,
        games_per_period = 1\<rparr>,
      mgr_channel_id = 9, mgr_league_name = ''Spring'', posting_day = 1\<rparr>
      \<lparr>results_files = (\<lambda>f. None)(''spring'' := Some [model_fields,
          [''A'', ''B'', ''1704067200'', ''True'', ''False'', ''0'', ''0'', ''Spring'']]),
        message_records = (\<lambda>f. None)(''spring'' := Some []),
        job_dir = [],
        finished_dir = [],
        jobs = [],
        outbox = []\<rparr>
     = (Some (InvalidChannel ''LadderManager requested invalid channel''), \<lparr>results_files = (\<lambda>f. None)(''spring'' := Some [model_fields,
          [''A'', ''B'', ''1704067200'', ''True'', ''False'', ''0'', ''0'', ''Spring'']]),
        message_records = (\<lambda>f. None)(''spring'' := Some []),
        job_dir = [],
        finished_dir = [],
        jobs = [],
        outbox = []\<rparr>)"
    by (simp add: private_post_standings_def eval_csv eval_ladder)
  show ?thesis
    by (subst post_standings_open_new)
       (simp_all add: sanitized_name_Spring pps isoweek_def calendar_eval isoweekday_def)
qed

lemma example_failing_job:
  "run_job \<lparr>get_channel = (\<lambda>c. if c = 7 then Some TextChannel else if c = 9 then Some OtherChannel else None),
        can_open = (\<lambda>p. True)\<rparr>
      \<lparr>job_id = ''j1'', timestamp = 1711900000000000, channel_id = 9,
          content = ''hello'', files = []\<rparr>
      \<lparr>results_files = (\<lambda>f. None)(''spring'' := Some [model_fields,
          [''A'', ''B'', ''1704067200'', ''True'', ''False'', ''0'', ''0'', ''Spring'']]),
        message_records = (\<lambda>f. None),
        job_dir = [(''j1'', \<lparr>job_id = ''j1'', timestamp = 1711900000000000, channel_id = 9,
          content = ''hello'', files = []\<rparr>),
          (''j2'', \<lparr>job_id = ''j2'', timestamp = 1711900000000000, channel_id = 7,
          content = ''hello'', files = []\<rparr>)],
        finished_dir = [],
        jobs = [(''j1'', \<lparr>job_id = ''j1'', timestamp = 1711900000000000, channel_id = 9,
          content = ''hello'', files = []\<rparr>),
          (''j2'', \<lparr>job_id = ''j2'', timestamp = 1711900000000000, channel_id = 7,
          content = ''hello'', files = []\<rparr>)],
        outbox = []\<rparr>
    = (Some (InvalidChannel ''Job requested invalid channel''), \<lparr>results_files = (\<lambda>f. None)(''spring'' := Some [model_fields,
          [''A'', ''B'', ''1704067200'', ''True'', ''False'', ''0'', ''0'', ''Spring'']]),
        message_records = (\<lambda>f. None),
        job_dir = [(''j1'', \<lparr>job_id = ''j1'', timestamp = 1711900000000000, channel_id = 9,
          content = ''hello'', files = []\<rparr>),
          (''j2'', \<lparr>job_id = ''j2'', timestamp = 1711900000000000, channel_id = 7,
          content = ''hello'', files = []\<rparr>)],
        finished_dir = [],
        jobs = [(''j1'', \<lparr>job_id = ''j1'', timestamp = 1711900000000000, channel_id = 9,
          content = ''hello'', files = []\<rparr>),
          (''j2'', \<lparr>job_id = ''j2'', timestamp = 1711900000000000, channel_id = 7,
          content = ''hello'', files = []\<rparr>)],
        outbox = []\<rparr>)"
  by (simp add: run_job_def)

lemma example_failing_run_jobs:
  "run_jobs \<lparr>get_channel = (\<lambda>c. if c = 7 then Some TextChannel else if c = 9 then Some OtherChannel else None),
        can_open = (\<lambda>p. True)\<rparr> 1711904400000000
      \<lparr>results_files = (\<lambda>f. None)(''spring'' := Some [model_fields,
          [''A'', ''B'', ''1704067200'', ''True'', ''False'', ''0'', ''0'', ''Spring'']]),
        message_records = (\<lambda>f. None),
        job_dir = [(''j1'', \<lparr>job_id = ''j1'', timestamp = 1711900000000000, channel_id = 9,
          content = ''hello'', files = []\<rparr>),
          (''j2'', \<lparr>job_id = ''j2'', timestamp = 1711900000000000, channel_id = 7,
          content = ''hello'', files = []\<rparr>)],
        finished_dir = [],
        jobs = [(''j1'', \<lparr>job_id = ''j1'', timestamp = 1711900000000000, channel_id = 9,
          content = ''hello'', files = []\<rparr>),
          (''j2'', \<lparr>job_id = ''j2'', timestamp = 1711900000000000, channel_id = 7,
          content = ''hello'', files = []\<rparr>)],
        outbox = []\<rparr>
    = (Some (InvalidChannel ''Job requested invalid channel''), \<lparr>results_files = (\<lambda>f. None)(''spring'' := Some [model_fields,
          [''A'', ''B'', ''1704067200'', ''True'', ''False'', ''0'', ''0'', ''Spring'']]),
        message_records = (\<lambda>f. None),
        job_dir = [(''j1'', \<lparr>job_id = ''j1'', timestamp = 1711900000000000, channel_id = 9,
          content = ''hello'', files = []\<rparr>),
          (''j2'', \<lparr>job_id = ''j2'', timestamp = 1711900000000000, channel_id = 7,
          content = ''hello'', files = []\<rparr>)],
        finished_dir = [],
        jobs = [(''j1'', \<lparr>job_id = ''j1'', timestamp = 1711900000000000, channel_id = 9,
          content = ''hello'', files = []\<rparr>),
          (''j2'', \<lparr>job_id = ''j2'', timestamp = 1711900000000000, channel_id = 7,
          content = ''hello'', files = []\<rparr>)],
        outbox = []\<rparr>)"
  by (simp add: run_jobs_def run_job_def)

text \<open>
  Two jobs are due and a league is due to post its standings. The first job names a
  channel that cannot be sent to: the tick ends with its error and nothing was sent,
  marked done or recorded. Without that job in the map, the same tick sends the second
  job's message and the standings.
\<close>

theorem failing_job_blocks_the_tick:
  "job_runner \<lparr>get_channel = (\<lambda>c. if c = 7 then Some TextChannel else if c = 9 then Some OtherChannel else None),
        can_open = (\<lambda>p. True)\<rparr>
      [\<lparr>mgr_config = \<lparr>start_date = 1704067200000000, end_date = 1711929600000000, period = 7,
        games_per_period = 1\<rparr>,
      mgr_channel_id = 7, mgr_league_name = ''Spring'', posting_day = 1\<rparr>] 1711904400000000
      \<lparr>results_files = (\<lambda>f. None)(''spring'' := Some [model_fields,
          [''A'', ''B'', ''1704067200'', ''True'', ''False'', ''0'', ''0'', ''Spring'']]),
        message_records = (\<lambda>f. None),
        job_dir = [(''j1'', \<lparr>job_id = ''j1'', timestamp = 1711900000000000, channel_id = 9,
          content = ''hello'', files = []\<rparr>),
          (''j2'', \<lparr>job_id = ''j2'', timestamp = 1711900000000000, channel_id = 7,
          content = ''hello'', files = []\<rparr>)],
        finished_dir = [],
        jobs = [(''j1'', \<lparr>job_id = ''j1'', timestamp = 1711900000000000, channel_id = 9,
          content = ''hello'', files = []\<rparr>),
          (''j2'', \<lparr>job_id = ''j2'', timestamp = 1711900000000000, channel_id = 7,
          content = ''hello'', files = []\<rparr>)],
        outbox = []\<rparr>
    = (Some (InvalidChannel ''Job requested invalid channel''), \<lparr>results_files = (\<lambda>f. None)(''spring'' := Some [model_fields,
          [''A'', ''B'', ''1704067200'', ''True'', ''False'', ''0'', ''0'', ''Spring'']]),
        message_records = (\<lambda>f. None),
        job_dir = [(''j1'', \<lparr>job_id = ''j1'', timestamp = 1711900000000000, channel_id = 9,
          content = ''hello'', files = []\<rparr>),
          (''j2'', \<lparr>job_id = ''j2'', timestamp = 1711900000000000, channel_id = 7,
          content = ''hello'', files = []\<rparr>)],
        finished_dir = [],
        jobs = [(''j1'', \<lparr>job_id = ''j1'', timestamp = 1711900000000000, channel_id = 9,
          content = ''hello'', files = []\<rparr>),
          (''j2'', \<lparr>job_id = ''j2'', timestamp = 1711900000000000, channel_id = 7,
          content = ''hello'', files = []\<rparr>)],
        outbox = []\<rparr>)
   \<and> outbox (snd (job_runner \<lparr>get_channel = (\<lambda>c. if c = 7 then Some TextChannel else if c = 9 then Some OtherChannel else None),
        can_open = (\<lambda>p. True)\<rparr>
      [\<lparr>mgr_config = \<lparr>start_date = 1704067200000000, end_date = 1711929600000000, period = 7,
        games_per_period = 1\<rparr>,
      mgr_channel_id = 7, mgr_league_name = ''Spring'', posting_day = 1\<rparr>] 1711904400000000
      \<lparr>results_files = (\<lambda>f. None)(''spring'' := Some [model_fields,
          [''A'', ''B'', ''1704067200'', ''True'', ''False'', ''0'', ''0'', ''Spring'']]),
        message_records = (\<lambda>f. None),
        job_dir = [(''j1'', \<lparr>job_id = ''j1'', timestamp = 1711900000000000, channel_id = 9,
          content = ''hello'', files = []\<rparr>),
          (''j2'', \<lparr>job_id = ''j2'', timestamp = 1711900000000000, channel_id = 7,
          content = ''hello'', files = []\<rparr>)],
        finished_dir = [],
        jobs = [(''j2'', \<lparr>job_id = ''j2'', timestamp = 1711900000000000, channel_id = 7,
          content = ''hello'', files = []\<rparr>)],
        outbox = []\<rparr>))
    = [(7, JobMessage ''hello'' []), (7, StandingsMessage ''Spring'' [(''A'', 13), (''B'', 12)])]"
proof
  show "job_runner \<lparr>get_channel = (\<lambda>c. if c = 7 then Some TextChannel else if c = 9 then Some OtherChannel else None),
        can_open = (\<lambda>p. True)\<rparr>
      [\<lparr>mgr_config = \<lparr>start_date = 1704067200000000, end_date = 1711929600000000, period = 7,
        games_per_period = 1\<rparr>,
      mgr_channel_id = 7, mgr_league_name = ''Spring'', posting_day = 1\<rparr>] 1711904400000000
      \<lparr>results_files = (\<lambda>f. None)(''spring'' := Some [model_fields,
          [''A'', ''B'', ''1704067200'', ''True'', ''False'', ''0'', ''0'', ''Spring'']]),
        message_records = (\<lambda>f. None),
        job_dir = [(''j1'', \<lparr>job_id = ''j1'', timestamp = 1711900000000000, channel_id = 9,
          content = ''hello'', files = []\<rparr>),
          (''j2'', \<lparr>job_id = ''j2'', timestamp = 1711900000000000, channel_id = 7,
          content = ''hello'', files = []\<rparr>)],
        finished_dir = [],
        jobs = [(''j1'', \<lparr>job_id = ''j1'', timestamp = 1711900000000000, channel_id = 9,
          content = ''hello'', files = []\<rparr>),
          (''j2'', \<lparr>job_id = ''j2'', timestamp = 1711900000000000, channel_id = 7,
          content = ''hello'', files = []\<rparr>)],
        outbox = []\<rparr>
    = (Some (InvalidChannel ''Job requested invalid channel''), \<lparr>results_files = (\<lambda>f. None)(''spring'' := Some [model_fields,
          [''A'', ''B'', ''1704067200'', ''True'', ''False'', ''0'', ''0'', ''Spring'']]),
        message_records = (\<lambda>f. None),
        job_dir = [(''j1'', \<lparr>job_id = ''j1'', timestamp = 1711900000000000, channel_id = 9,
          content = ''hello'', files = []\<rparr>),
          (''j2'', \<lparr>job_id = ''j2'', timestamp = 1711900000000000, channel_id = 7,
          content = ''hello'', files = []\<rparr>)],
        finished_dir = [],
        jobs = [(''j1'', \<lparr>job_id = ''j1'', timestamp = 1711900000000000, channel_id = 9,
          content = ''hello'', files = []\<rparr>),
          (''j2'', \<lparr>job_id = ''j2'', timestamp = 1711900000000000, channel_id = 7,
          content = ''hello'', files = []\<rparr>)],
        outbox = []\<rparr>)"
    by (simp add: job_runner_def example_failing_run_jobs)
  have rj: "run_jobs \<lparr>get_channel = (\<lambda>c. if c = 7 then Some TextChannel else if c = 9 then Some OtherChannel else None),
        can_open = (\<lambda>p. True)\<rparr> 1711904400000000
      \<lparr>results_files = (\<lambda>f. None)(''spring'' := Some [model_fields,
          [''A'', ''B'', ''1704067200'', ''True'', ''False'', ''0'', ''0'', ''Spring'']]),
        message_records = (\<lambda>f. None),
        job_dir = [(''j1'', \<lparr>job_id = ''j1'', timestamp = 1711900000000000, channel_id = 9,
          content = ''hello'', files = []\<rparr>),
          (''j2'', \<lparr>job_id = ''j2'', timestamp = 1711900000000000, channel_id = 7,
          content = ''hello'', files = []\<rparr>)],
        finished_dir = [],
        jobs = [(''j2'', \<lparr>job_id = ''j2'', timestamp = 1711900000000000, channel_id = 7,
          content = ''hello'', files = []\<rparr>)],
        outbox = []\<rparr>
    = (None, \<lparr>results_files = (\<lambda>f. None)(''spring'' := Some [model_fields,
          [''A'', ''B'', ''1704067200'', ''True'', ''False'', ''0'', ''0'', ''Spring'']]),
        message_records = (\<lambda>f. None),
        job_dir = [(''j1'', \<lparr>job_id = ''j1'', timestamp = 1711900000000000, channel_id = 9,
          content = ''hello'', files = []\<rparr>)],
        finished_dir = [(''j2'', \<lparr>job_id = ''j2'', timestamp = 1711900000000000, channel_id = 7,
          content = ''hello'', files = []\<rparr>)],
        jobs = [],
        outbox = [(7, JobMessage ''hello'' [])]\<rparr>)"
    by (simp add: run_jobs_def run_job_def mark_done_def)
  show "outbox (snd (job_runner \<lparr>get_channel = (\<lambda>c. if c = 7 then Some TextChannel else if c = 9 then Some OtherChannel else None),
        can_open = (\<lambda>p. True)\<rparr>
      [\<lparr>mgr_config = \<lparr>start_date = 1704067200000000, end_date = 1711929600000000, period = 7,
        games_per_period = 1\<rparr>,
      mgr_channel_id = 7, mgr_league_name = ''Spring'', posting_day = 1\<rparr>] 1711904400000000
      \<lparr>results_files = (\<lambda>f. None)(''spring'' := Some [model_fields,
          [''A'', ''B'', ''1704067200'', ''True'', ''False'', ''0'', ''0'', ''Spring'']]),
        message_records = (\<lambda>f. None),
        job_dir = [(''j1'', \<lparr>job_id = ''j1'', timestamp = 1711900000000000, channel_id = 9,
          content = ''hello'', files = []\<rparr>),
          (''j2'', \<lparr>job_id = ''j2'', timestamp = 1711900000000000, channel_id = 7,
          content = ''hello'', files = []\<rparr>)],
        finished_dir = [],
        jobs = [(''j2'', \<lparr>job_id = ''j2'', timestamp = 1711900000000000, channel_id = 7,
          content = ''hello'', files = []\<rparr>)],
        outbox = []\<rparr>))
    = [(7, JobMessage ''hello'' []), (7, StandingsMessage ''Spring'' [(''A'', 13), (''B'', 12)])]"
    by (simp add: job_runner_def rj example_post_after_job)
qed

theorem failure_ends_the_tick_witness:
  "run_due \<lparr>get_channel = (\<lambda>c. if c = 7 then Some TextChannel else if c = 9 then Some OtherChannel else None),
        can_open = (\<lambda>p. True)\<rparr>
      (\<lparr>job_id = ''j1'', timestamp = 1711900000000000, channel_id = 9,
          content = ''hello'', files = []\<rparr> # [\<lparr>job_id = ''j2'', timestamp = 1711900000000000, channel_id = 7,
          content = ''hello'', files = []\<rparr>])
      \<lparr>results_files = (\<lambda>f. None)(''spring'' := Some [model_fields,
          [''A'', ''B'', ''1704067200'', ''True'', ''False'', ''0'', ''0'', ''Spring'']]),
        message_records = (\<lambda>f. None),
        job_dir = [(''j1'', \<lparr>job_id = ''j1'', timestamp = 1711900000000000, channel_id = 9,
          content = ''hello'', files = []\<rparr>),
          (''j2'', \<lparr>job_id = ''j2'', timestamp = 1711900000000000, channel_id = 7,
          content = ''hello'', files = []\<rparr>)],
        finished_dir = [],
        jobs = [(''j1'', \<lparr>job_id = ''j1'', timestamp = 1711900000000000, channel_id = 9,
          content = ''hello'', files = []\<rparr>),
          (''j2'', \<lparr>job_id = ''j2'', timestamp = 1711900000000000, channel_id = 7,
          content = ''hello'', files = []\<rparr>)],
        outbox = []\<rparr>
    = (Some (InvalidChannel ''Job requested invalid channel''), \<lparr>results_files = (\<lambda>f. None)(''spring'' := Some [model_fields,
          [''A'', ''B'', ''1704067200'', ''True'', ''False'', ''0'', ''0'', ''Spring'']]),
        message_records = (\<lambda>f. None),
        job_dir = [(''j1'', \<lparr>job_id = ''j1'', timestamp = 1711900000000000, channel_id = 9,
          content = ''hello'', files = []\<rparr>),
          (''j2'', \<lparr>job_id = ''j2'', timestamp = 1711900000000000, channel_id = 7,
          content = ''hello'', files = []\<rparr>)],
        finished_dir = [],
        jobs = [(''j1'', \<lparr>job_id = ''j1'', timestamp = 1711900000000000, channel_id = 9,
          content = ''hello'', files = []\<rparr>),
          (''j2'', \<lparr>job_id = ''j2'', timestamp = 1711900000000000, channel_id = 7,
          content = ''hello'', files = []\<rparr>)],
        outbox = []\<rparr>)
   \<and> run_due \<lparr>get_channel = (\<lambda>c. if c = 7 then Some TextChannel else if c = 9 then Some OtherChannel else None),
        can_open = (\<lambda>p. True)\<rparr>
      ([] @ \<lparr>job_id = ''j1'', timestamp = 1711900000000000, channel_id = 9,
          content = ''hello'', files = []\<rparr> # [\<lparr>job_id = ''j2'', timestamp = 1711900000000000, channel_id = 7,
          content = ''hello'', files = []\<rparr>])
      \<lparr>results_files = (\<lambda>f. None)(''spring'' := Some [model_fields,
          [''A'', ''B'', ''1704067200'', ''True'', ''False'', ''0'', ''0'', ''Spring'']]),
        message_records = (\<lambda>f. None),
        job_dir = [(''j1'', \<lparr>job_id = ''j1'', timestamp = 1711900000000000, channel_id = 9,
          content = ''hello'', files = []\<rparr>),
          (''j2'', \<lparr>job_id = ''j2'', timestamp = 1711900000000000, channel_id = 7,
          content = ''hello'', files = []\<rparr>)],
        finished_dir = [],
        jobs = [(''j1'', \<lparr>job_id = ''j1'', timestamp = 1711900000000000, channel_id = 9,
          content = ''hello'', files = []\<rparr>),
          (''j2'', \<lparr>job_id = ''j2'', timestamp = 1711900000000000, channel_id = 7,
          content = ''hello'', files = []\<rparr>)],
        outbox = []\<rparr>
    = (Some (InvalidChannel ''Job requested invalid channel''), \<lparr>results_files = (\<lambda>f. None)(''spring'' := Some [model_fields,
          [''A'', ''B'', ''1704067200'', ''True'', ''False'', ''0'', ''0'', ''Spring'']]),
        message_records = (\<lambda>f. None),
        job_dir = [(''j1'', \<lparr>job_id = ''j1'', timestamp = 1711900000000000, channel_id = 9,
          content = ''hello'', files = []\<rparr>),
          (''j2'', \<lparr>job_id = ''j2'', timestamp = 1711900000000000, channel_id = 7,
          content = ''hello'', files = []\<rparr>)],
        finished_dir = [],
        jobs = [(''j1'', \<lparr>job_id = ''j1'', timestamp = 1711900000000000, channel_id = 9,
          content = ''hello'', files = []\<rparr>),
          (''j2'', \<lparr>job_id = ''j2'', timestamp = 1711900000000000, channel_id = 7,
          content = ''hello'', files = []\<rparr>)],
        outbox = []\<rparr>)
   \<and> job_runner \<lparr>get_channel = (\<lambda>c. if c = 7 then Some TextChannel else if c = 9 then Some OtherChannel else None),
        can_open = (\<lambda>p. True)\<rparr>
      [\<lparr>mgr_config = \<lparr>start_date = 1704067200000000, end_date = 1711929600000000, period = 7,
        games_per_period = 1\<rparr>,
      mgr_channel_id = 7, mgr_league_name = ''Spring'', posting_day = 1\<rparr>] 1711904400000000
      \<lparr>results_files = (\<lambda>f. None)(''spring'' := Some [model_fields,
          [''A'', ''B'', ''1704067200'', ''True'', ''False'', ''0'', ''0'', ''Spring'']]),
        message_records = (\<lambda>f. None),
        job_dir = [(''j1'', \<lparr>job_id = ''j1'', timestamp = 1711900000000000, channel_id = 9,
          content = ''hello'', files = []\<rparr>),
          (''j2'', \<lparr>job_id = ''j2'', timestamp = 1711900000000000, channel_id = 7,
          content = ''hello'', files = []\<rparr>)],
        finished_dir = [],
        jobs = [(''j1'', \<lparr>job_id = ''j1'', timestamp = 1711900000000000, channel_id = 9,
          content = ''hello'', files = []\<rparr>),
          (''j2'', \<lparr>job_id = ''j2'', timestamp = 1711900000000000, channel_id = 7,
          content = ''hello'', files = []\<rparr>)],
        outbox = []\<rparr>
    = (Some (InvalidChannel ''Job requested invalid channel''), \<lparr>results_files = (\<lambda>f. None)(''spring'' := Some [model_fields,
          [''A'', ''B'', ''1704067200'', ''True'', ''False'', ''0'', ''0'', ''Spring'']]),
        message_records = (\<lambda>f. None),
        job_dir = [(''j1'', \<lparr>job_id = ''j1'', timestamp = 1711900000000000, channel_id = 9,
          content = ''hello'', files = []\<rparr>),
          (''j2'', \<lparr>job_id = ''j2'', timestamp = 1711900000000000, channel_id = 7,
          content = ''hello'', files = []\<rparr>)],
        finished_dir = [],
        jobs = [(''j1'', \<lparr>job_id = ''j1'', timestamp = 1711900000000000, channel_id = 9,
          content = ''hello'', files = []\<rparr>),
          (''j2'', \<lparr>job_id = ''j2'', timestamp = 1711900000000000, channel_id = 7,
          content = ''hello'', files = []\<rparr>)],
        outbox = []\<rparr>)
   \<and> job_runner \<lparr>get_channel = (\<lambda>c. if c = 7 then Some TextChannel else if c = 9 then Some OtherChannel else None),
        can_open = (\<lambda>p. True)\<rparr>
      ([] @ \<lparr>mgr_config = \<lparr>start_date = 1704067200000000, end_date = 1711929600000000, period = 7,
        games_per_period = 1\<rparr>,
      mgr_channel_id = 9, mgr_league_name = ''Spring'', posting_day = 1\<rparr> # [\<lparr>mgr_config = \<lparr>start_date = 1704067200000000, end_date = 1711929600000000, period = 7,
        games_per_period = 1\<rparr>,
      mgr_channel_id = 7, mgr_league_name = ''Spring'', posting_day = 1\<rparr>]) 1711904400000000
      \<lparr>results_files = (\<lambda>f. None)(''spring'' := Some [model_fields,
          [''A'', ''B'', ''1704067200'', ''True'', ''False'', ''0'', ''0'', ''Spring'']]),
        message_records = (\<lambda>f. None),
        job_dir = [],
        finished_dir = [],
        jobs = [],
        outbox = []\<rparr>
    = (Some (InvalidChannel ''LadderManager requested invalid channel''), \<lparr>results_files = (\<lambda>f. None)(''spring'' := Some [model_fields,
          [''A'', ''B'', ''1704067200'', ''True'', ''False'', ''0'', ''0'', ''Spring'']]),
        message_records = (\<lambda>f. None)(''spring'' := Some []),
        job_dir = [],
        finished_dir = [],
        jobs = [],
        outbox = []\<rparr>)"
proof (intro conjI)
  note t = failure_ends_the_tick[where client = "\<lparr>get_channel = (\<lambda>c. if c = 7 then Some TextChannel else if c = 9 then Some OtherChannel else None),
        can_open = (\<lambda>p. True)\<rparr>"
      and job = "\<lparr>job_id = ''j1'', timestamp = 1711900000000000, channel_id = 9,
          content = ''hello'', files = []\<rparr>"
      and due = "[\<lparr>job_id = ''j2'', timestamp = 1711900000000000, channel_id = 7,
          content = ''hello'', files = []\<rparr>]"
      and before = "[]" and now = "1711904400000000"
      and e = "InvalidChannel ''Job requested invalid channel''"
      and w = "\<lparr>results_files = (\<lambda>f. None)(''spring'' := Some [model_fields,
          [''A'', ''B'', ''1704067200'', ''True'', ''False'', ''0'', ''0'', ''Spring'']]),
        message_records = (\<lambda>f. None),
        job_dir = [(''j1'', \<lparr>job_id = ''j1'', timestamp = 1711900000000000, channel_id = 9,
          content = ''hello'', files = []\<rparr>),
          (''j2'', \<lparr>job_id = ''j2'', timestamp = 1711900000000000, channel_id = 7,
          content = ''hello'', files = []\<rparr>)],
        finished_dir = [],
        jobs = [(''j1'', \<lparr>job_id = ''j1'', timestamp = 1711900000000000, channel_id = 9,
          content = ''hello'', files = []\<rparr>),
          (''j2'', \<lparr>job_id = ''j2'', timestamp = 1711900000000000, channel_id = 7,
          content = ''hello'', files = []\<rparr>)],
        outbox = []\<rparr>"
      and wa = "\<lparr>results_files = (\<lambda>f. None)(''spring'' := Some [model_fields,
          [''A'', ''B'', ''1704067200'', ''True'', ''False'', ''0'', ''0'', ''Spring'']]),
        message_records = (\<lambda>f. None),
        job_dir = [(''j1'', \<lparr>job_id = ''j1'', timestamp = 1711900000000000, channel_id = 9,
          content = ''hello'', files = []\<rparr>),
          (''j2'', \<lparr>job_id = ''j2'', timestamp = 1711900000000000, channel_id = 7,
          content = ''hello'', files = []\<rparr>)],
        finished_dir = [],
        jobs = [(''j1'', \<lparr>job_id = ''j1'', timestamp = 1711900000000000, channel_id = 9,
          content = ''hello'', files = []\<rparr>),
          (''j2'', \<lparr>job_id = ''j2'', timestamp = 1711900000000000, channel_id = 7,
          content = ''hello'', files = []\<rparr>)],
        outbox = []\<rparr>"
      and wb = "\<lparr>results_files = (\<lambda>f. None)(''spring'' := Some [model_fields,
          [''A'', ''B'', ''1704067200'', ''True'', ''False'', ''0'', ''0'', ''Spring'']]),
        message_records = (\<lambda>f. None),
        job_dir = [(''j1'', \<lparr>job_id = ''j1'', timestamp = 1711900000000000, channel_id = 9,
          content = ''hello'', files = []\<rparr>),
          (''j2'', \<lparr>job_id = ''j2'', timestamp = 1711900000000000, channel_id = 7,
          content = ''hello'', files = []\<rparr>)],
        finished_dir = [],
        jobs = [(''j1'', \<lparr>job_id = ''j1'', timestamp = 1711900000000000, channel_id = 9,
          content = ''hello'', files = []\<rparr>),
          (''j2'', \<lparr>job_id = ''j2'', timestamp = 1711900000000000, channel_id = 7,
          content = ''hello'', files = []\<rparr>)],
        outbox = []\<rparr>"
      and leagues = "[\<lparr>mgr_config = \<lparr>start_date = 1704067200000000, end_date = 1711929600000000, period = 7,
        games_per_period = 1\<rparr>,
      mgr_channel_id = 7, mgr_league_name = ''Spring'', posting_day = 1\<rparr>]"]
  show "run_due \<lparr>get_channel = (\<lambda>c. if c = 7 then Some TextChannel else if c = 9 then Some OtherChannel else None),
        can_open = (\<lambda>p. True)\<rparr>
      (\<lparr>job_id = ''j1'', timestamp = 1711900000000000, channel_id = 9,
          content = ''hello'', files = []\<rparr> # [\<lparr>job_id = ''j2'', timestamp = 1711900000000000, channel_id = 7,
          content = ''hello'', files = []\<rparr>])
      \<lparr>results_files = (\<lambda>f. None)(''spring'' := Some [model_fields,
          [''A'', ''B'', ''1704067200'', ''True'', ''False'', ''0'', ''0'', ''Spring'']]),
        message_records = (\<lambda>f. None),
        job_dir = [(''j1'', \<lparr>job_id = ''j1'', timestamp = 1711900000000000, channel_id = 9,
          content = ''hello'', files = []\<rparr>),
          (''j2'', \<lparr>job_id = ''j2'', timestamp = 1711900000000000, channel_id = 7,
          content = ''hello'', files = []\<rparr>)],
        finished_dir = [],
        jobs = [(''j1'', \<lparr>job_id = ''j1'', timestamp = 1711900000000000, channel_id = 9,
          content = ''hello'', files = []\<rparr>),
          (''j2'', \<lparr>job_id = ''j2'', timestamp = 1711900000000000, channel_id = 7,
          content = ''hello'', files = []\<rparr>)],
        outbox = []\<rparr>
    = (Some (InvalidChannel ''Job requested invalid channel''), \<lparr>results_files = (\<lambda>f. None)(''spring'' := Some [model_fields,
          [''A'', ''B'', ''1704067200'', ''True'', ''False'', ''0'', ''0'', ''Spring'']]),
        message_records = (\<lambda>f. None),
        job_dir = [(''j1'', \<lparr>job_id = ''j1'', timestamp = 1711900000000000, channel_id = 9,
          content = ''hello'', files = []\<rparr>),
          (''j2'', \<lparr>job_id = ''j2'', timestamp = 1711900000000000, channel_id = 7,
          content = ''hello'', files = []\<rparr>)],
        finished_dir = [],
        jobs = [(''j1'', \<lparr>job_id = ''j1'', timestamp = 1711900000000000, channel_id = 9,
          content = ''hello'', files = []\<rparr>),
          (''j2'', \<lparr>job_id = ''j2'', timestamp = 1711900000000000, channel_id = 7,
          content = ''hello'', files = []\<rparr>)],
        outbox = []\<rparr>)"
    using t[THEN conjunct1, THEN mp, OF example_failing_job] by (rule conjunct2)
  show "run_due \<lparr>get_channel = (\<lambda>c. if c = 7 then Some TextChannel else if c = 9 then Some OtherChannel else None),
        can_open = (\<lambda>p. True)\<rparr>
      ([] @ \<lparr>job_id = ''j1'', timestamp = 1711900000000000, channel_id = 9,
          content = ''hello'', files = []\<rparr> # [\<lparr>job_id = ''j2'', timestamp = 1711900000000000, channel_id = 7,
          content = ''hello'', files = []\<rparr>])
      \<lparr>results_files = (\<lambda>f. None)(''spring'' := Some [model_fields,
          [''A'', ''B'', ''1704067200'', ''True'', ''False'', ''0'', ''0'', ''Spring'']]),
        message_records = (\<lambda>f. None),
        job_dir = [(''j1'', \<lparr>job_id = ''j1'', timestamp = 1711900000000000, channel_id = 9,
          content = ''hello'', files = []\<rparr>),
          (''j2'', \<lparr>job_id = ''j2'', timestamp = 1711900000000000, channel_id = 7,
          content = ''hello'', files = []\<rparr>)],
        finished_dir = [],
        jobs = [(''j1'', \<lparr>job_id = ''j1'', timestamp = 1711900000000000, channel_id = 9,
          content = ''hello'', files = []\<rparr>),
          (''j2'', \<lparr>job_id = ''j2'', timestamp = 1711900000000000, channel_id = 7,
          content = ''hello'', files = []\<rparr>)],
        outbox = []\<rparr>
    = (Some (InvalidChannel ''Job requested invalid channel''), \<lparr>results_files = (\<lambda>f. None)(''spring'' := Some [model_fields,
          [''A'', ''B'', ''1704067200'', ''True'', ''False'', ''0'', ''0'', ''Spring'']]),
        message_records = (\<lambda>f. None),
        job_dir = [(''j1'', \<lparr>job_id = ''j1'', timestamp = 1711900000000000, channel_id = 9,
          content = ''hello'', files = []\<rparr>),
          (''j2'', \<lparr>job_id = ''j2'', timestamp = 1711900000000000, channel_id = 7,
          content = ''hello'', files = []\<rparr>)],
        finished_dir = [],
        jobs = [(''j1'', \<lparr>job_id = ''j1'', timestamp = 1711900000000000, channel_id = 9,
          content = ''hello'', files = []\<rparr>),
          (''j2'', \<lparr>job_id = ''j2'', timestamp = 1711900000000000, channel_id = 7,
          content = ''hello'', files = []\<rparr>)],
        outbox = []\<rparr>)"
    by (rule t[THEN conjunct2, THEN conjunct1, THEN mp]) (simp add: example_failing_job)
  show "job_runner \<lparr>get_channel = (\<lambda>c. if c = 7 then Some TextChannel else if c = 9 then Some OtherChannel else None),
        can_open = (\<lambda>p. True)\<rparr>
      [\<lparr>mgr_config = \<lparr>start_date = 1704067200000000, end_date = 1711929600000000, period = 7,
        games_per_period = 1\<rparr>,
      mgr_channel_id = 7, mgr_league_name = ''Spring'', posting_day = 1\<rparr>] 1711904400000000
      \<lparr>results_files = (\<lambda>f. None)(''spring'' := Some [model_fields,
          [''A'', ''B'', ''1704067200'', ''True'', ''False'', ''0'', ''0'', ''Spring'']]),
        message_records = (\<lambda>f. None),
        job_dir = [(''j1'', \<lparr>job_id = ''j1'', timestamp = 1711900000000000, channel_id = 9,
          content = ''hello'', files = []\<rparr>),
          (''j2'', \<lparr>job_id = ''j2'', timestamp = 1711900000000000, channel_id = 7,
          content = ''hello'', files = []\<rparr>)],
        finished_dir = [],
        jobs = [(''j1'', \<lparr>job_id = ''j1'', timestamp = 1711900000000000, channel_id = 9,
          content = ''hello'', files = []\<rparr>),
          (''j2'', \<lparr>job_id = ''j2'', timestamp = 1711900000000000, channel_id = 7,
          content = ''hello'', files = []\<rparr>)],
        outbox = []\<rparr>
    = (Some (InvalidChannel ''Job requested invalid channel''), \<lparr>results_files = (\<lambda>f. None)(''spring'' := Some [model_fields,
          [''A'', ''B'', ''1704067200'', ''True'', ''False'', ''0'', ''0'', ''Spring'']]),
        message_records = (\<lambda>f. None),
        job_dir = [(''j1'', \<lparr>job_id = ''j1'', timestamp = 1711900000000000, channel_id = 9,
          content = ''hello'', files = []\<rparr>),
          (''j2'', \<lparr>job_id = ''j2'', timestamp = 1711900000000000, channel_id = 7,
          content = ''hello'', files = []\<rparr>)],
        finished_dir = [],
        jobs = [(''j1'', \<lparr>job_id = ''j1'', timestamp = 1711900000000000, channel_id = 9,
          content = ''hello'', files = []\<rparr>),
          (''j2'', \<lparr>job_id = ''j2'', timestamp = 1711900000000000, channel_id = 7,
          content = ''hello'', files = []\<rparr>)],
        outbox = []\<rparr>)"
    using t[THEN conjunct2, THEN conjunct2, THEN conjunct1, THEN mp, OF example_failing_run_jobs]
    by (rule conjunct1)
  show "job_runner \<lparr>get_channel = (\<lambda>c. if c = 7 then Some TextChannel else if c = 9 then Some OtherChannel else None),
        can_open = (\<lambda>p. True)\<rparr>
      ([] @ \<lparr>mgr_config = \<lparr>start_date = 1704067200000000, end_date = 1711929600000000, period = 7,
        games_per_period = 1\<rparr>,
      mgr_channel_id = 9, mgr_league_name = ''Spring'', posting_day = 1\<rparr> # [\<lparr>mgr_config = \<lparr>start_date = 1704067200000000, end_date = 1711929600000000, period = 7,
        games_per_period = 1\<rparr>,
      mgr_channel_id = 7, mgr_league_name = ''Spring'', posting_day = 1\<rparr>]) 1711904400000000
      \<lparr>results_files = (\<lambda>f. None)(''spring'' := Some [model_fields,
          [''A'', ''B'', ''1704067200'', ''True'', ''False'', ''0'', ''0'', ''Spring'']]),
        message_records = (\<lambda>f. None),
        job_dir = [],
        finished_dir = [],
        jobs = [],
        outbox = []\<rparr>
    = (Some (InvalidChannel ''LadderManager requested invalid channel''), \<lparr>results_files = (\<lambda>f. None)(''spring'' := Some [model_fields,
          [''A'', ''B'', ''1704067200'', ''True'', ''False'', ''0'', ''0'', ''Spring'']]),
        message_records = (\<lambda>f. None)(''spring'' := Some []),
        job_dir = [],
        finished_dir = [],
        jobs = [],
        outbox = []\<rparr>)"
    by (rule failure_ends_the_tick[where wa = "\<lparr>results_files = (\<lambda>f. None)(''spring'' := Some [model_fields,
          [''A'', ''B'', ''1704067200'', ''True'', ''False'', ''0'', ''0'', ''Spring'']]),
        message_records = (\<lambda>f. None),
        job_dir = [],
        finished_dir = [],
        jobs = [],
        outbox = []\<rparr>"
            and wb = "\<lparr>results_files = (\<lambda>f. None)(''spring'' := Some [model_fields,
          [''A'', ''B'', ''1704067200'', ''True'', ''False'', ''0'', ''0'', ''Spring'']]),
        message_records = (\<lambda>f. None),
        job_dir = [],
        finished_dir = [],
        jobs = [],
        outbox = []\<rparr>",
          THEN conjunct2, THEN conjunct2, THEN conjunct2, THEN mp])
       (simp add: run_jobs_def example_post_invalid_channel)
qed

end
